theory Spec2Isabelle
  imports Complex_Main
begin

section \<open>Data model (entities.h, assets.h, level.h)\<close>

text \<open>
  The C sources compute with \<open>int\<close> and \<open>float\<close>.  Integers are modelled by HOL
  integers; the one subtraction whose operand is an unconstrained argument
  (\<open>health - dmg\<close>) is wrapped to 32 bits explicitly.  A \<open>float\<close> is modelled by a real
  number: the decimal constants of the headers are taken at face value and arithmetic is
  exact (no rounding, no NaN, no infinities).  Pointers that the source tests against
  \<open>NULL\<close> are options.
\<close>

definition INT_MAX :: int where [simp]: "INT_MAX = 2147483647"

definition wrap_int32 :: "int \<Rightarrow> int" where
  "wrap_int32 v = (v + 2147483648) mod 4294967296 - 2147483648"

subsection \<open>Constants of entities.h\<close>

definition SCREEN_WIDTH :: real where [simp]: "SCREEN_WIDTH = 800"
definition GROUND_Y :: real where [simp]: "GROUND_Y = 448"
definition PLAYER_WIDTH :: real where [simp]: "PLAYER_WIDTH = 47"
definition PLAYER_HEIGHT :: real where [simp]: "PLAYER_HEIGHT = 47"
definition PLAYER_SPEED :: real where [simp]: "PLAYER_SPEED = 200"
definition ENEMY_SPEED :: real where [simp]: "ENEMY_SPEED = 100"
definition JUMP_VELOCITY :: real where [simp]: "JUMP_VELOCITY = - 400"
definition GRAVITY :: real where [simp]: "GRAVITY = 980"
definition FRICTION :: real where [simp]: "FRICTION = 9 / 10"
definition MIN_VELOCITY :: real where [simp]: "MIN_VELOCITY = 5"
definition KNOCKBACK_FORCE :: real where [simp]: "KNOCKBACK_FORCE = 200"
definition MAX_ENTITY_SPEED :: real where [simp]: "MAX_ENTITY_SPEED = 280"
definition MAX_KNOCKBACK_SPEED :: real where [simp]: "MAX_KNOCKBACK_SPEED = 220"

definition ATTACK_COOLDOWN :: real where [simp]: "ATTACK_COOLDOWN = 1 / 2"
definition ATTACK_DAMAGE :: int where [simp]: "ATTACK_DAMAGE = 15"
definition PUNCH_DAMAGE :: int where [simp]: "PUNCH_DAMAGE = 18"
definition KICK_DAMAGE :: int where [simp]: "KICK_DAMAGE = 20"
definition ENEMY_DAMAGE :: int where [simp]: "ENEMY_DAMAGE = 10"
definition ATTACK_EXTEND :: real where [simp]: "ATTACK_EXTEND = 20"
definition HIT_FRAMES_START :: int where [simp]: "HIT_FRAMES_START = 1"
definition HIT_FRAMES_END :: int where [simp]: "HIT_FRAMES_END = 2"

definition IDLE_DELAY :: real where [simp]: "IDLE_DELAY = 2 / 10"
definition DEATH_TIME :: real where [simp]: "DEATH_TIME = 2"
definition ATTACK_TIMEOUT :: real where [simp]: "ATTACK_TIMEOUT = 15 / 10"
definition PLAYER_STUN_TIME :: real where [simp]: "PLAYER_STUN_TIME = 35 / 100"
definition ENEMY_STUN_TIME :: real where [simp]: "ENEMY_STUN_TIME = 45 / 100"

definition ENEMY_SIGHT_DIST :: real where [simp]: "ENEMY_SIGHT_DIST = 200"
definition ENEMY_ATTACK_RANGE :: real where [simp]: "ENEMY_ATTACK_RANGE = 60"
definition ENEMY_CHASE_SPEED :: real where [simp]: "ENEMY_CHASE_SPEED = 120"
definition ENEMY_RETREAT_SPEED :: real where [simp]: "ENEMY_RETREAT_SPEED = 140"
definition ENEMY_POSITION_SPEED :: real where [simp]: "ENEMY_POSITION_SPEED = 80"
definition ENEMY_EVADE_CHANCE :: real where [simp]: "ENEMY_EVADE_CHANCE = 3 / 10"
definition ENEMY_RETREAT_TIME :: real where [simp]: "ENEMY_RETREAT_TIME = 15 / 10"

definition AI_STATE_IDLE :: int where [simp]: "AI_STATE_IDLE = 0"
definition AI_STATE_CHASE :: int where [simp]: "AI_STATE_CHASE = 1"
definition AI_STATE_ATTACK :: int where [simp]: "AI_STATE_ATTACK = 2"
definition AI_STATE_RETREAT :: int where [simp]: "AI_STATE_RETREAT = 3"
definition AI_STATE_EVADE :: int where [simp]: "AI_STATE_EVADE = 4"
definition AI_STATE_POSITION :: int where [simp]: "AI_STATE_POSITION = 5"

definition ANIM_IDLE :: int where [simp]: "ANIM_IDLE = 0"
definition ANIM_WALK :: int where [simp]: "ANIM_WALK = 1"
definition ANIM_JUMP :: int where [simp]: "ANIM_JUMP = 2"
definition ANIM_JAB :: int where [simp]: "ANIM_JAB = 3"
definition ANIM_PUNCH :: int where [simp]: "ANIM_PUNCH = 4"
definition ANIM_KICK :: int where [simp]: "ANIM_KICK = 5"
definition ANIM_JUMP_KICK :: int where [simp]: "ANIM_JUMP_KICK = 6"
definition ANIM_DIVE_KICK :: int where [simp]: "ANIM_DIVE_KICK = 7"
definition ANIM_HURT :: int where [simp]: "ANIM_HURT = 8"

definition PLAYER_MAX_HEALTH :: int where [simp]: "PLAYER_MAX_HEALTH = 100"
definition ENEMY_MAX_HEALTH :: int where [simp]: "ENEMY_MAX_HEALTH = 50"
definition MAX_ENEMIES :: int where [simp]: "MAX_ENEMIES = 10"

subsection \<open>Structures\<close>

datatype EntityState =
    ENTITY_STATE_IDLE
  | ENTITY_STATE_MOVE
  | ENTITY_STATE_JUMP
  | ENTITY_STATE_ATTACK
  | ENTITY_STATE_HURT
  | ENTITY_STATE_DEAD
  | ENTITY_STATE_GRAB

record Vector2 =
  vec_x :: real
  vec_y :: real

record Rectangle =
  rec_x :: real
  rec_y :: real
  rec_width :: real
  rec_height :: real

record Animation =
  currentFrame :: int
  timer :: real
  totalFrames :: int

record Entity =
  position :: Vector2
  velocity :: Vector2
  anim :: Animation
  health :: int
  maxHealth :: int
  currentAnimIndex :: int
  facingRight :: bool
  hitbox :: Rectangle
  isAttacking :: bool
  attackCooldown :: real
  attackDamage :: int
  attackTimer :: real
  attackHasHit :: bool
  lastAnimIndex :: int
  deathTimer :: real
  idleTimer :: real
  state :: EntityState
  stateTimer :: real
  stunTimer :: real
  hitFrameStart :: int
  hitFrameEnd :: int
  grounded :: bool
  aiState :: int
  aiTimer :: real
  targetPos :: Vector2
  wasHurt :: bool
  grabbedEnemyIndex :: int

text \<open>The frame counts of the loaded clips (\<open>SpriteAnim.numFrames\<close>); the textures
  themselves play no part in the simulation.\<close>

record PlayerAssets =
  pa_idle :: int
  pa_walk :: int
  pa_jump :: int
  pa_jab :: int
  pa_punch :: int
  pa_kick :: int
  pa_jump_kick :: int
  pa_dive_kick :: int
  pa_hurt :: int

record EnemyAssets =
  ea_idle :: int
  ea_walk :: int
  ea_punch :: int
  ea_hurt :: int

text \<open>What \<open>LoadAssets\<close> stores when every clip loads (the frame-count macros of
  assets.c).\<close>

definition playerAssets_loaded :: PlayerAssets where
  "playerAssets_loaded =
     \<lparr>pa_idle = 4, pa_walk = 10, pa_jump = 4, pa_jab = 3, pa_punch = 3, pa_kick = 5,
      pa_jump_kick = 3, pa_dive_kick = 5, pa_hurt = 2\<rparr>"

definition enemyAssets_loaded :: EnemyAssets where
  "enemyAssets_loaded = \<lparr>ea_idle = 4, ea_walk = 4, ea_punch = 3, ea_hurt = 4\<rparr>"

text \<open>Fire-and-forget audio cues (\<open>PlaySound\<close> on a member of \<open>gameSounds\<close>): every
  function that can play a sound returns the cues it fired, in order.\<close>

datatype Sound = punchSound | kickSound | deathSound

record AttackProfile =
  animIndex :: int
  damage :: int
  cooldown :: real
  ap_hitFrameStart :: int
  ap_hitFrameEnd :: int

definition PLAYER_ATTACK_JAB_PROFILE :: AttackProfile where
  "PLAYER_ATTACK_JAB_PROFILE =
     \<lparr>animIndex = ANIM_JAB, damage = ATTACK_DAMAGE, cooldown = 25 / 100,
      ap_hitFrameStart = 1, ap_hitFrameEnd = 1\<rparr>"

definition PLAYER_ATTACK_PUNCH_PROFILE :: AttackProfile where
  "PLAYER_ATTACK_PUNCH_PROFILE =
     \<lparr>animIndex = ANIM_PUNCH, damage = PUNCH_DAMAGE, cooldown = 45 / 100,
      ap_hitFrameStart = 1, ap_hitFrameEnd = 2\<rparr>"

definition PLAYER_ATTACK_KICK_PROFILE :: AttackProfile where
  "PLAYER_ATTACK_KICK_PROFILE =
     \<lparr>animIndex = ANIM_KICK, damage = KICK_DAMAGE, cooldown = 6 / 10,
      ap_hitFrameStart = 2, ap_hitFrameEnd = 3\<rparr>"

definition ENEMY_ATTACK_PUNCH_PROFILE :: AttackProfile where
  "ENEMY_ATTACK_PUNCH_PROFILE =
     \<lparr>animIndex = ANIM_PUNCH, damage = ENEMY_DAMAGE, cooldown = 8 / 10,
      ap_hitFrameStart = 1, ap_hitFrameEnd = 1\<rparr>"

definition ENEMY_ATTACK_KICK_PROFILE :: AttackProfile where
  "ENEMY_ATTACK_KICK_PROFILE =
     \<lparr>animIndex = ANIM_KICK, damage = KICK_DAMAGE, cooldown = 1,
      ap_hitFrameStart = 2, ap_hitFrameEnd = 3\<rparr>"

section \<open>Utility functions (entities.c)\<close>

definition SafeClamp :: "int \<Rightarrow> int \<Rightarrow> int \<Rightarrow> int" where
  "SafeClamp v lo hi = (if v < lo then lo else if v > hi then hi else v)"

definition SafeClampFloat :: "real \<Rightarrow> real \<Rightarrow> real \<Rightarrow> real" where
  "SafeClampFloat v lo hi = (if v < lo then lo else if v > hi then hi else v)"

text \<open>raylib's \<open>CheckCollisionRecs\<close>: the rectangles overlap with positive area; boxes
  that only touch along an edge do not collide.\<close>

definition CheckCollisionRecs :: "Rectangle \<Rightarrow> Rectangle \<Rightarrow> bool" where
  "CheckCollisionRecs r1 r2 \<longleftrightarrow>
     rec_x r1 < rec_x r2 + rec_width r2 \<and> rec_x r1 + rec_width r1 > rec_x r2 \<and>
     rec_y r1 < rec_y r2 + rec_height r2 \<and> rec_y r1 + rec_height r1 > rec_y r2"

definition ComputeAttackHitbox :: "Entity \<Rightarrow> Rectangle" where
  "ComputeAttackHitbox attacker =
     (let base = hitbox attacker;
          baseWidth = rec_width base;
          reach = baseWidth + ATTACK_EXTEND;
          result = base\<lparr>rec_width := reach,
                        rec_height := rec_height base * (115 / 100),
                        rec_y := rec_y base - rec_height base * (75 / 1000)\<rparr>
      in if facingRight attacker
         then result\<lparr>rec_x := rec_x result + baseWidth * (35 / 100)\<rparr>
         else result\<lparr>rec_x := rec_x result - (reach - baseWidth * (35 / 100))\<rparr>)"

definition ApplyKnockback :: "Entity \<Rightarrow> real \<Rightarrow> Entity" where
  "ApplyKnockback target direction =
     (let desired = direction * KNOCKBACK_FORCE
      in target\<lparr>velocity := (velocity target)
           \<lparr>vec_x := SafeClampFloat desired (- MAX_KNOCKBACK_SPEED) MAX_KNOCKBACK_SPEED\<rparr>\<rparr>)"

section \<open>Entity initialisation\<close>

text \<open>The all-zero structure that \<open>memset\<close> leaves behind.\<close>

definition zero_Vector2 :: Vector2 where
  "zero_Vector2 = \<lparr>vec_x = 0, vec_y = 0\<rparr>"

definition zero_Entity :: Entity where
  "zero_Entity =
     \<lparr>position = zero_Vector2, velocity = zero_Vector2,
      anim = \<lparr>currentFrame = 0, timer = 0, totalFrames = 0\<rparr>,
      health = 0, maxHealth = 0, currentAnimIndex = 0, facingRight = False,
      hitbox = \<lparr>rec_x = 0, rec_y = 0, rec_width = 0, rec_height = 0\<rparr>,
      isAttacking = False, attackCooldown = 0, attackDamage = 0, attackTimer = 0,
      attackHasHit = False, lastAnimIndex = 0, deathTimer = 0, idleTimer = 0,
      state = ENTITY_STATE_IDLE, stateTimer = 0, stunTimer = 0,
      hitFrameStart = 0, hitFrameEnd = 0, grounded = False,
      aiState = 0, aiTimer = 0, targetPos = zero_Vector2, wasHurt = False,
      grabbedEnemyIndex = 0\<rparr>"

definition InitPlayer :: "PlayerAssets \<Rightarrow> Vector2 \<Rightarrow> Entity" where
  "InitPlayer playerAssets startPos =
     zero_Entity
       \<lparr>position := startPos,
        velocity := zero_Vector2,
        anim := \<lparr>currentFrame = 0, timer = 0, totalFrames = pa_idle playerAssets\<rparr>,
        health := PLAYER_MAX_HEALTH,
        maxHealth := PLAYER_MAX_HEALTH,
        currentAnimIndex := ANIM_IDLE,
        facingRight := True,
        hitbox := \<lparr>rec_x = vec_x startPos, rec_y = vec_y startPos,
                    rec_width = PLAYER_WIDTH, rec_height = PLAYER_HEIGHT\<rparr>,
        lastAnimIndex := - 1,
        attackDamage := 0,
        attackTimer := 0,
        attackHasHit := False,
        state := ENTITY_STATE_IDLE,
        stateTimer := 0,
        stunTimer := 0,
        hitFrameStart := HIT_FRAMES_START,
        hitFrameEnd := HIT_FRAMES_END,
        grounded := True,
        grabbedEnemyIndex := - 1\<rparr>"

definition InitEnemy :: "EnemyAssets \<Rightarrow> Vector2 \<Rightarrow> Entity" where
  "InitEnemy enemyAssets startPos =
     zero_Entity
       \<lparr>position := startPos,
        velocity := zero_Vector2,
        anim := \<lparr>currentFrame = 0, timer = 0, totalFrames = ea_idle enemyAssets\<rparr>,
        health := ENEMY_MAX_HEALTH,
        maxHealth := ENEMY_MAX_HEALTH,
        currentAnimIndex := ANIM_IDLE,
        facingRight := False,
        hitbox := \<lparr>rec_x = vec_x startPos, rec_y = vec_y startPos,
                    rec_width = PLAYER_WIDTH, rec_height = PLAYER_HEIGHT\<rparr>,
        lastAnimIndex := - 1,
        aiState := AI_STATE_IDLE,
        aiTimer := 0,
        targetPos := startPos,
        wasHurt := False,
        attackDamage := 0,
        attackTimer := 0,
        attackHasHit := False,
        state := ENTITY_STATE_IDLE,
        stateTimer := 0,
        stunTimer := 0,
        hitFrameStart := HIT_FRAMES_START,
        hitFrameEnd := HIT_FRAMES_END,
        grounded := True\<rparr>"

section \<open>Combat resolution\<close>

text \<open>
  \<open>DamageEntity\<close>.  Both pointers may be \<open>NULL\<close>; the result is the target after the call
  and the audio cues fired by the call.  The two trailing \<open>if\<close> statements of the source
  are kept apart: the second one re-reads \<open>health\<close> and \<open>deathTimer\<close> after the first one
  has run.
\<close>

definition DamageEntity ::
  "Entity option \<Rightarrow> Entity option \<Rightarrow> int \<Rightarrow> bool \<Rightarrow> Entity option \<times> Sound list" where
  "DamageEntity target attacker dmg isPlayerAttacker =
     (case target of
        None \<Rightarrow> (None, [])
      | Some t \<Rightarrow>
     (case attacker of
        None \<Rightarrow> (Some t, [])
      | Some a \<Rightarrow>
        if dmg \<le> 0 then (Some t, [])
        else
          let t1 = t\<lparr>health := SafeClamp (wrap_int32 (health t - dmg)) 0
                                  (if maxHealth t > 0 then maxHealth t else INT_MAX)\<rparr>;
              t2 = t1\<lparr>isAttacking := False, attackDamage := 0, attackTimer := 0,
                      attackHasHit := False\<rparr>;
              recoveryCooldown =
                (if isPlayerAttacker
                 then max (cooldown ENEMY_ATTACK_PUNCH_PROFILE) ATTACK_COOLDOWN
                 else ATTACK_COOLDOWN);
              t3 = t2\<lparr>attackCooldown := max (attackCooldown t2) recoveryCooldown,
                      idleTimer := 0,
                      hitFrameStart := HIT_FRAMES_START,
                      hitFrameEnd := HIT_FRAMES_END\<rparr>;
              t4 = t3\<lparr>currentAnimIndex := ANIM_HURT, lastAnimIndex := - 1,
                      state := ENTITY_STATE_HURT, stateTimer := 0\<rparr>;
              direction = (if vec_x (position t4) > vec_x (position a) then 1 else - 1);
              t5 = ApplyKnockback t4 direction;
              t6 = (if isPlayerAttacker
                    then t5\<lparr>aiState := AI_STATE_RETREAT, aiTimer := ENEMY_RETREAT_TIME,
                            wasHurt := True, stunTimer := ENEMY_STUN_TIME\<rparr>
                    else t5\<lparr>stunTimer := PLAYER_STUN_TIME\<rparr>);
              t7 = (if health t6 \<le> 0 \<and> deathTimer t6 = 0
                    then t6\<lparr>deathTimer := DEATH_TIME, state := ENTITY_STATE_DEAD,
                            stunTimer := 0,
                            velocity := (velocity t6)\<lparr>vec_y := 0\<rparr>,
                            grounded := True\<rparr>
                    else t6);
              cues = (if health t7 \<le> 0 \<and> deathTimer t7 = 0 then [deathSound] else [])
          in (Some t7, cues)))"

section \<open>Global state (entities.c, level.c)\<close>

definition TILE_SIZE :: int where [simp]: "TILE_SIZE = 16"
definition WORLD_ROWS :: int where [simp]: "WORLD_ROWS = 38"
definition TILES_PER_ROW :: int where [simp]: "TILES_PER_ROW = 125"
definition STAGE_WIDTH :: int where [simp]: "STAGE_WIDTH = TILES_PER_ROW * TILE_SIZE"

record StageDefinition =
  sd_width :: int
  spawnQuota :: int
  concurrentCap :: int
  initialWave :: int
  hasBoss :: bool
  bossHealth :: int
  bossTriggerX :: real
  bossSpawnX :: real
  spawnInterval :: real

definition STAGE_DEFS :: "StageDefinition list" where
  "STAGE_DEFS =
     [\<lparr>sd_width = STAGE_WIDTH, spawnQuota = 6, concurrentCap = 3, initialWave = 2,
       hasBoss = False, bossHealth = 0, bossTriggerX = 0, bossSpawnX = 0,
       spawnInterval = 35 / 10\<rparr>,
      \<lparr>sd_width = STAGE_WIDTH, spawnQuota = 8, concurrentCap = 4, initialWave = 3,
       hasBoss = False, bossHealth = 0, bossTriggerX = 0, bossSpawnX = 0,
       spawnInterval = 3\<rparr>,
      \<lparr>sd_width = STAGE_WIDTH, spawnQuota = 10, concurrentCap = 4, initialWave = 3,
       hasBoss = True, bossHealth = 160, bossTriggerX = of_int STAGE_WIDTH - 360,
       bossSpawnX = of_int STAGE_WIDTH - 140, spawnInterval = 26 / 10\<rparr>]"

definition STAGE_COUNT :: int where
  "STAGE_COUNT = int (length STAGE_DEFS)"

text \<open>
  \<open>Level\<close>: the collision-relevant members of the structure.  The tile map is an array
  indexed row-major, modelled as a function from the index to the tile id; \<open>None\<close> is the
  \<open>NULL\<close> pointer.  The tileset texture and the four render layers are drawn, never read
  by the simulation, and are left out.
\<close>

record Level =
  level_width :: int
  level_height :: int
  tileMap :: "(int \<Rightarrow> int) option"
  colliders :: "Rectangle list option"
  numColliders :: int

text \<open>The globals of entities.c and level.c.  \<open>enemies\<close> is the array of \<open>MAX_ENEMIES\<close>
  slots; \<open>enemies[k]\<close> is \<open>enemies g ! nat k\<close>.\<close>

record Globals =
  enemies :: "Entity list"
  activeEnemies :: int
  currentLevel :: Level
  currentStage :: int
  currentStageDef :: "StageDefinition option"
  tilesPerRow :: int
  stageHasBoss :: bool
  tilesetColumns :: int
  spawnTimer :: real
  bossSpawned :: bool
  bossDefeated :: bool
  enemiesRemainingToSpawn :: int
  maxConcurrentEnemies :: int

text \<open>The static initialisers: the state when \<open>main\<close> starts.\<close>

definition initial_Globals :: Globals where
  "initial_Globals =
     \<lparr>enemies = replicate (nat MAX_ENEMIES) zero_Entity,
      activeEnemies = 0,
      currentLevel = \<lparr>level_width = 0, level_height = 0, tileMap = None,
                       colliders = None, numColliders = 0\<rparr>,
      currentStage = 0,
      currentStageDef = None,
      tilesPerRow = TILES_PER_ROW,
      stageHasBoss = False,
      tilesetColumns = 8,
      spawnTimer = 0,
      bossSpawned = False,
      bossDefeated = False,
      enemiesRemainingToSpawn = 0,
      maxConcurrentEnemies = 3\<rparr>"

definition ClearEnemies :: "Globals \<Rightarrow> Globals" where
  "ClearEnemies g =
     g\<lparr>enemies := replicate (nat MAX_ENEMIES) zero_Entity, activeEnemies := 0\<rparr>"

section \<open>Entity registry\<close>

definition RemoveDeadEnemy :: "int \<Rightarrow> Globals \<Rightarrow> Globals" where
  "RemoveDeadEnemy index g =
     (if index < 0 \<or> index \<ge> activeEnemies g then g
      else
        let removedBoss = maxHealth (enemies g ! nat index) > ENEMY_MAX_HEALTH;
            g1 = (if index < activeEnemies g - 1
                  then g\<lparr>enemies := (enemies g)
                          [nat index := enemies g ! nat (activeEnemies g - 1)]\<rparr>
                  else g);
            g2 = g1\<lparr>activeEnemies := activeEnemies g1 - 1\<rparr>
        in if removedBoss then g2\<lparr>bossSpawned := False, bossDefeated := True\<rparr> else g2)"

function GetAliveEnemiesCount_loop :: "Globals \<Rightarrow> int \<Rightarrow> int \<Rightarrow> int" where
  "GetAliveEnemiesCount_loop g i alive =
     (if i < activeEnemies g
      then GetAliveEnemiesCount_loop g (i + 1)
             (if health (enemies g ! nat i) > 0 \<and> deathTimer (enemies g ! nat i) \<le> 0
              then alive + 1 else alive)
      else alive)"
  by pat_completeness auto
termination
  by (relation "measure (\<lambda>(g, i, alive). nat (activeEnemies g - i))") auto

declare GetAliveEnemiesCount_loop.simps [simp del]

definition GetAliveEnemiesCount :: "Globals \<Rightarrow> int" where
  "GetAliveEnemiesCount g = GetAliveEnemiesCount_loop g 0 0"

section \<open>Level director (level.c)\<close>

definition ClampFloat :: "real \<Rightarrow> real \<Rightarrow> real \<Rightarrow> real" where
  "ClampFloat v minValue maxValue =
     (if v < minValue then minValue else if v > maxValue then maxValue else v)"

definition ConsumeEnemySpawnQuota :: "int \<Rightarrow> Globals \<Rightarrow> Globals" where
  "ConsumeEnemySpawnQuota count g =
     (if count \<le> 0 then g
      else if enemiesRemainingToSpawn g \<le> 0 then g
      else
        let g1 = g\<lparr>enemiesRemainingToSpawn := enemiesRemainingToSpawn g - count\<rparr>
        in if enemiesRemainingToSpawn g1 < 0 then g1\<lparr>enemiesRemainingToSpawn := 0\<rparr> else g1)"

definition TileAtlasColumns :: "Globals \<Rightarrow> int" where
  "TileAtlasColumns g = (if tilesetColumns g > 0 then tilesetColumns g else 1)"

definition TileIdFromAtlas :: "Globals \<Rightarrow> int \<Rightarrow> int \<Rightarrow> int" where
  "TileIdFromAtlas g col row =
     (if col < 0 \<or> row < 0 then 0 else row * TileAtlasColumns g + col + 1)"

text \<open>C's \<open>%\<close> truncates towards zero, hence \<open>rem\<close> written out for a negative value.\<close>

definition WrapIndex :: "int \<Rightarrow> int \<Rightarrow> int" where
  "WrapIndex v m =
     (if m \<le> 0 then 0
      else
        let result = (if v \<ge> 0 then v mod m else - ((- v) mod m))
        in if result < 0 then result + m else result)"

definition LevelWidth :: "Globals \<Rightarrow> real" where
  "LevelWidth g = of_int (level_width (currentLevel g))"

definition LevelTileColumns :: "Globals \<Rightarrow> int" where
  "LevelTileColumns g =
     (if tileMap (currentLevel g) = None \<or> tilesPerRow g \<le> 0 then 0 else tilesPerRow g)"

definition LevelRowCount :: "Globals \<Rightarrow> int" where
  "LevelRowCount g =
     (if tileMap (currentLevel g) = None \<or> level_height (currentLevel g) \<le> 0 then 0
      else level_height (currentLevel g))"

definition LevelStageEndX :: "Globals \<Rightarrow> real" where
  "LevelStageEndX g =
     (let endX = LevelWidth g - 120 in if endX < 0 then LevelWidth g else endX)"

definition LevelHasPendingBoss :: "Globals \<Rightarrow> bool" where
  "LevelHasPendingBoss g \<longleftrightarrow> stageHasBoss g \<and> \<not> bossSpawned g \<and> \<not> bossDefeated g"

definition LevelHasActiveBoss :: "Globals \<Rightarrow> bool" where
  "LevelHasActiveBoss g \<longleftrightarrow> stageHasBoss g \<and> bossSpawned g \<and> \<not> bossDefeated g"

definition LevelEnemiesRemaining :: "Globals \<Rightarrow> int" where
  "LevelEnemiesRemaining g =
     enemiesRemainingToSpawn g + GetAliveEnemiesCount g
       + (if LevelHasPendingBoss g then 1 else 0)"

definition LevelIsCleared :: "Globals \<Rightarrow> bool" where
  "LevelIsCleared g =
     (if stageHasBoss g \<and> \<not> bossDefeated g then False
      else enemiesRemainingToSpawn g \<le> 0 \<and> GetAliveEnemiesCount g = 0
             \<and> \<not> LevelHasActiveBoss g)"

text \<open>The conversion \<open>(int)\<close> of a \<open>float\<close> truncates towards zero.\<close>

definition float_to_int :: "real \<Rightarrow> int" where
  "float_to_int r = (if r \<ge> 0 then \<lfloor>r\<rfloor> else \<lceil>r\<rceil>)"

text \<open>\<open>GenerateTileMap\<close>, the collision map only: the map is cleared and every cell from
  the ground row down is given a (positive) tile id of the walkway strip.\<close>

definition GenerateTileMap :: "int \<Rightarrow> Globals \<Rightarrow> Globals" where
  "GenerateTileMap stageIndex g =
     (let height = level_height (currentLevel g);
          groundRow0 = float_to_int (GROUND_Y / of_int TILE_SIZE);
          groundRow1 = (if groundRow0 < 0 then 0 else groundRow0);
          groundRow = (if groundRow1 \<ge> height then height - 1 else groundRow1);
          walkwayColStart = 3;
          walkwayCols = 7;
          walkwayRowStart = 14;
          walkwayRows = 9;
          walkwayOffset = stageIndex * 3;
          groundSrcRow = walkwayRowStart + walkwayRows - 1
      in case tileMap (currentLevel g) of
           None \<Rightarrow> g
         | Some _ \<Rightarrow>
             g\<lparr>currentLevel := (currentLevel g)
                 \<lparr>tileMap := Some (\<lambda>i.
                    let y = i div tilesPerRow g; x = i mod tilesPerRow g
                    in if 0 \<le> i \<and> groundRow \<le> y \<and> y < height
                       then TileIdFromAtlas g
                              (walkwayColStart + WrapIndex (x + walkwayOffset) walkwayCols)
                              groundSrcRow
                       else 0)\<rparr>\<rparr>)"

text \<open>The outcome of the three kinds of allocation in \<open>InitLevel\<close>: \<open>True\<close> when
  \<open>calloc\<close>/\<open>malloc\<close> returns memory.\<close>

record Allocation =
  alloc_tileMap :: bool
  alloc_layers :: bool
  alloc_colliders :: bool

definition SetupColliders :: "bool \<Rightarrow> int \<Rightarrow> Globals \<Rightarrow> Globals" where
  "SetupColliders allocated stageIndex g =
     (let desired = (if stageIndex = 0 then 2 else if stageIndex = 1 then 3 else 4)
      in if \<not> allocated
         then g\<lparr>currentLevel := (currentLevel g)\<lparr>colliders := None, numColliders := 0\<rparr>\<rparr>
         else
           let c0 = [\<lparr>rec_x = 420, rec_y = GROUND_Y - 48, rec_width = 48, rec_height = 48\<rparr>];
               c1 = (if desired > 1
                     then c0 @ [\<lparr>rec_x = 920, rec_y = GROUND_Y - 36,
                                 rec_width = 80, rec_height = 36\<rparr>]
                     else c0);
               c2 = (if desired > 2
                     then c1 @ [\<lparr>rec_x = 1350, rec_y = GROUND_Y - 52,
                                 rec_width = 60, rec_height = 52\<rparr>]
                     else c1);
               c3 = (if desired > 3
                     then c2 @ [\<lparr>rec_x = 1650, rec_y = GROUND_Y - 40,
                                 rec_width = 72, rec_height = 40\<rparr>]
                     else c2)
           in g\<lparr>currentLevel := (currentLevel g)
                 \<lparr>colliders := Some c3, numColliders := desired\<rparr>\<rparr>)"

function SpawnInitialWave_loop ::
  "EnemyAssets \<Rightarrow> StageDefinition \<Rightarrow> int \<Rightarrow> Globals \<Rightarrow> Globals" where
  "SpawnInitialWave_loop enemyAssets def i g =
     (if i < initialWave def \<and> activeEnemies g < MAX_ENEMIES
      then
        let baseX = 360;
            spacing = 110;
            spawnX0 = baseX + spacing * of_int i;
            maxX = LevelWidth g - PLAYER_WIDTH;
            spawnX = ClampFloat spawnX0 120 maxX;
            e = InitEnemy enemyAssets \<lparr>vec_x = spawnX, vec_y = GROUND_Y - PLAYER_HEIGHT\<rparr>;
            g1 = g\<lparr>enemies := (enemies g)[nat (activeEnemies g) := e\<lparr>facingRight := False\<rparr>]\<rparr>;
            g2 = g1\<lparr>activeEnemies := activeEnemies g1 + 1\<rparr>
        in SpawnInitialWave_loop enemyAssets def (i + 1) g2
      else g)"
  by pat_completeness auto
termination
  by (relation "measure (\<lambda>(ea, def, i, g). nat (initialWave def - i))") auto

declare SpawnInitialWave_loop.simps [simp del]

definition SpawnInitialWave ::
  "EnemyAssets \<Rightarrow> StageDefinition option \<Rightarrow> Globals \<Rightarrow> Globals" where
  "SpawnInitialWave enemyAssets def g =
     (case def of
        None \<Rightarrow> g
      | Some d \<Rightarrow>
          if initialWave d \<le> 0 then g
          else ConsumeEnemySpawnQuota (initialWave d)
                 (SpawnInitialWave_loop enemyAssets d 0 g))"

text \<open>\<open>InitLevel\<close>.  \<open>tilesetWidth\<close> is the pixel width of the loaded tileset texture.
  The result is the returned flag and the globals after the call.  \<open>InitLevel_reset\<close> is
  the first half of the function, up to the computation of \<open>tilesPerRow\<close>: it selects the
  stage, clears the registry, releases the previous level data and sets the dimensions.\<close>

definition InitLevel_reset :: "int \<Rightarrow> int \<Rightarrow> Globals \<Rightarrow> Globals" where
  "InitLevel_reset tilesetWidth stageIndex g =
     (let def = STAGE_DEFS ! nat stageIndex;
          g1 = g\<lparr>currentStage := stageIndex, currentStageDef := Some def,
                 stageHasBoss := hasBoss def, bossSpawned := False, bossDefeated := False,
                 spawnTimer := 0\<rparr>;
          g2 = ClearEnemies g1;
          g3 = g2\<lparr>currentLevel := (currentLevel g2)\<lparr>tileMap := None\<rparr>\<rparr>;
          g4 = (if colliders (currentLevel g3) \<noteq> None
                then g3\<lparr>currentLevel := (currentLevel g3)
                          \<lparr>colliders := None, numColliders := 0\<rparr>\<rparr>
                else g3);
          cols0 = (if tilesetWidth > 0 then tilesetWidth div TILE_SIZE else 1);
          g5 = g4\<lparr>tilesetColumns := (if cols0 \<le> 0 then 1 else cols0)\<rparr>;
          g6 = g5\<lparr>currentLevel := (currentLevel g5)
                    \<lparr>level_width := sd_width def, level_height := WORLD_ROWS\<rparr>\<rparr>;
          tpr0 = level_width (currentLevel g6) div TILE_SIZE
      in g6\<lparr>tilesPerRow := (if tpr0 \<le> 0 then TILES_PER_ROW else tpr0)\<rparr>)"

definition InitLevel ::
  "EnemyAssets \<Rightarrow> int \<Rightarrow> Allocation \<Rightarrow> int \<Rightarrow> Globals \<Rightarrow> bool \<times> Globals" where
  "InitLevel enemyAssets tilesetWidth alloc stage g =
     (let stageIndex0 = (if stage < 0 then 0 else stage);
          stageIndex = (if stageIndex0 \<ge> STAGE_COUNT then STAGE_COUNT - 1 else stageIndex0);
          def = STAGE_DEFS ! nat stageIndex;
          g7 = InitLevel_reset tilesetWidth stageIndex g;
          tileCount = tilesPerRow g7 * level_height (currentLevel g7)
      in if tileCount = 0
         then (False, g7\<lparr>currentLevel := (currentLevel g7)\<lparr>level_height := 0\<rparr>\<rparr>)
         else if \<not> alloc_tileMap alloc
         then (False, g7\<lparr>currentLevel := (currentLevel g7)\<lparr>level_height := 0\<rparr>\<rparr>)
         else
           let g8 = g7\<lparr>currentLevel := (currentLevel g7)\<lparr>tileMap := Some (\<lambda>i. 0)\<rparr>\<rparr>
           in if \<not> alloc_layers alloc
              then (False, g8\<lparr>currentLevel := (currentLevel g8)
                              \<lparr>tileMap := None, level_height := 0\<rparr>\<rparr>)
              else
                let g9 = GenerateTileMap stageIndex g8;
                    g10 = SetupColliders (alloc_colliders alloc) stageIndex g9;
                    g11 = g10\<lparr>enemiesRemainingToSpawn := spawnQuota def,
                              maxConcurrentEnemies := concurrentCap def\<rparr>
                in (True, SpawnInitialWave enemyAssets (currentStageDef g11) g11))"

text \<open>\<open>UpdateLevel\<close>.  \<open>randomValue\<close> is what \<open>GetRandomValue (-40, 140)\<close> returns when the
  spawn timer elapses.  The function is two statements in sequence: the timed spawn
  (\<open>UpdateLevel_spawn\<close>) and the boss trigger (\<open>UpdateLevel_boss\<close>), both using the stage
  width read on entry.\<close>

definition UpdateLevel_spawn ::
  "EnemyAssets \<Rightarrow> StageDefinition \<Rightarrow> int \<Rightarrow> real \<Rightarrow> real \<Rightarrow> real \<Rightarrow> Globals \<Rightarrow> Globals"
  where
  "UpdateLevel_spawn enemyAssets def randomValue dt playerLeadX maxSpawnX g =
     (let minSpawnAhead = playerLeadX + 120
      in if enemiesRemainingToSpawn g > 0 \<and> activeEnemies g < maxConcurrentEnemies g
            \<and> activeEnemies g < MAX_ENEMIES
         then
           let g1 = g\<lparr>spawnTimer := spawnTimer g + dt\<rparr>;
               interval = (if spawnInterval def < 16 / 10 then 16 / 10
                           else spawnInterval def)
           in if spawnTimer g1 \<ge> interval
              then
                let g2 = g1\<lparr>spawnTimer := 0\<rparr>;
                    randomOffset = of_int randomValue;
                    spawnX0 = minSpawnAhead + randomOffset;
                    spawnX1 = (if spawnX0 < playerLeadX + 80 then playerLeadX + 80
                               else spawnX0);
                    spawnX = ClampFloat spawnX1 80 maxSpawnX;
                    e = InitEnemy enemyAssets
                          \<lparr>vec_x = spawnX, vec_y = GROUND_Y - PLAYER_HEIGHT\<rparr>;
                    ga = g2\<lparr>enemies := (enemies g2)
                              [nat (activeEnemies g2) := e\<lparr>facingRight := False\<rparr>]\<rparr>;
                    gb = ga\<lparr>activeEnemies := activeEnemies ga + 1\<rparr>
                in ConsumeEnemySpawnQuota 1 gb
              else g1
         else g\<lparr>spawnTimer := 0\<rparr>)"

definition UpdateLevel_boss ::
  "EnemyAssets \<Rightarrow> StageDefinition \<Rightarrow> real \<Rightarrow> real \<Rightarrow> real \<Rightarrow> Globals \<Rightarrow> Globals" where
  "UpdateLevel_boss enemyAssets def playerLeadX stageWidth maxSpawnX g =
     (if stageHasBoss g \<and> \<not> bossSpawned g \<and> \<not> bossDefeated g
         \<and> enemiesRemainingToSpawn g \<le> 0 \<and> activeEnemies g = 0
      then
        let triggerX = (if bossTriggerX def \<le> 0 then stageWidth - 400
                        else bossTriggerX def)
        in if playerLeadX \<ge> triggerX
           then
             if activeEnemies g < MAX_ENEMIES
             then
               let spawnX0 = (if bossSpawnX def \<le> 0 then stageWidth - 140
                              else bossSpawnX def);
                   spawnX = ClampFloat spawnX0 120 maxSpawnX;
                   e = InitEnemy enemyAssets
                         \<lparr>vec_x = spawnX, vec_y = GROUND_Y - PLAYER_HEIGHT\<rparr>;
                   eb = e\<lparr>health := bossHealth def, maxHealth := bossHealth def,
                           facingRight := False\<rparr>;
                   ga = g\<lparr>enemies := (enemies g)[nat (activeEnemies g) := eb]\<rparr>;
                   gb = ga\<lparr>activeEnemies := activeEnemies ga + 1\<rparr>
               in gb\<lparr>bossSpawned := True\<rparr>
             else g
           else g
      else g)"

definition UpdateLevel ::
  "EnemyAssets \<Rightarrow> int \<Rightarrow> real \<Rightarrow> real \<Rightarrow> Globals \<Rightarrow> Globals" where
  "UpdateLevel enemyAssets randomValue dt playerLeadX g =
     (case currentStageDef g of
        None \<Rightarrow> g
      | Some def \<Rightarrow>
          let stageWidth = LevelWidth g;
              maxSpawnX = stageWidth - PLAYER_WIDTH
          in UpdateLevel_boss enemyAssets def playerLeadX stageWidth maxSpawnX
               (UpdateLevel_spawn enemyAssets def randomValue dt playerLeadX maxSpawnX g))"

section \<open>Enemy AI\<close>

text \<open>\<open>StartEnemyAttack\<close>; the result carries the attack sound that is played.\<close>

definition StartEnemyAttack :: "Entity \<Rightarrow> AttackProfile \<Rightarrow> Entity \<times> Sound list" where
  "StartEnemyAttack e profile =
     (e\<lparr>aiState := AI_STATE_ATTACK,
        state := ENTITY_STATE_ATTACK,
        currentAnimIndex := animIndex profile,
        isAttacking := True,
        attackCooldown := cooldown profile,
        attackTimer := 0,
        attackHasHit := False,
        attackDamage := damage profile,
        hitFrameStart := ap_hitFrameStart profile,
        hitFrameEnd := ap_hitFrameEnd profile,
        lastAnimIndex := - 1\<rparr>,
      if animIndex profile = ANIM_KICK then [kickSound] else [punchSound])"

text \<open>The target-selection loop of \<open>ProcessEnemyAI\<close>: the nearest living player whose
  horizontal distance is below the running minimum, which starts at
  \<open>ENEMY_SIGHT_DIST + 1\<close>.  The result is the final minimum and the index of the selected
  player (\<open>None\<close> for the \<open>NULL\<close> target).\<close>

function select_target ::
  "Entity \<Rightarrow> Entity list \<Rightarrow> int \<Rightarrow> int \<Rightarrow> real \<Rightarrow> int option \<Rightarrow> real \<times> int option" where
  "select_target e players numPlayers j minDist targetPlayer =
     (if j < numPlayers
      then
        if health (players ! nat j) \<le> 0
        then select_target e players numPlayers (j + 1) minDist targetPlayer
        else
          let dist = \<bar>vec_x (position (players ! nat j)) - vec_x (position e)\<bar>
          in if dist < minDist
             then select_target e players numPlayers (j + 1) dist (Some j)
             else select_target e players numPlayers (j + 1) minDist targetPlayer
      else (minDist, targetPlayer))"
  by pat_completeness auto
termination
  by (relation "measure (\<lambda>(e, players, numPlayers, j, minDist, t). nat (numPlayers - j))") auto

declare select_target.simps [simp del]

text \<open>The \<open>switch (e->aiState)\<close> of \<open>ProcessEnemyAI\<close>, one definition per case.  \<open>r\<close> is
  the value of \<open>(float) rand () / RAND_MAX\<close> for the one call of \<open>rand\<close> a case can make.\<close>

definition choose_enemy_profile :: "real \<Rightarrow> AttackProfile" where
  "choose_enemy_profile r =
     (if r < 3 / 10 then ENEMY_ATTACK_KICK_PROFILE else ENEMY_ATTACK_PUNCH_PROFILE)"

definition ai_case_idle :: "real \<Rightarrow> real \<Rightarrow> Entity \<Rightarrow> Entity" where
  "ai_case_idle distToPlayer sightDist e =
     (let e1 = e\<lparr>currentAnimIndex := ANIM_IDLE, state := ENTITY_STATE_IDLE\<rparr>
      in if distToPlayer \<le> sightDist
         then e1\<lparr>aiState := AI_STATE_CHASE, currentAnimIndex := ANIM_WALK,
                 state := ENTITY_STATE_MOVE\<rparr>
         else e1)"

definition ai_case_chase ::
  "real \<Rightarrow> Entity \<Rightarrow> real \<Rightarrow> real \<Rightarrow> real \<Rightarrow> real \<Rightarrow> real \<Rightarrow> real \<Rightarrow> Entity
     \<Rightarrow> Entity \<times> Sound list" where
  "ai_case_chase r targetPlayer distToPlayer dirToPlayer sightDist attackRange chaseSpeed
       positionSpeed e =
     (let e1 = e\<lparr>currentAnimIndex := ANIM_WALK, state := ENTITY_STATE_MOVE\<rparr>
      in if distToPlayer > sightDist
         then (e1\<lparr>aiState := AI_STATE_IDLE, currentAnimIndex := ANIM_IDLE,
                  state := ENTITY_STATE_IDLE\<rparr>, [])
         else if distToPlayer \<le> attackRange
         then
           if attackCooldown e1 \<le> 0 \<and> \<not> isAttacking targetPlayer
           then StartEnemyAttack e1 (choose_enemy_profile r)
           else (e1\<lparr>aiState := AI_STATE_POSITION, state := ENTITY_STATE_MOVE\<rparr>, [])
         else
           let speed = (if distToPlayer \<le> attackRange + 50 then positionSpeed
                        else chaseSpeed);
               e2 = e1\<lparr>velocity := (velocity e1)\<lparr>vec_x := dirToPlayer * speed\<rparr>\<rparr>
           in if isAttacking targetPlayer \<and> distToPlayer \<le> attackRange * (15 / 10)
                 \<and> r < ENEMY_EVADE_CHANCE
              then (e2\<lparr>aiState := AI_STATE_EVADE, aiTimer := 1 / 2\<rparr>, [])
              else (e2, []))"

definition ai_case_position ::
  "real \<Rightarrow> Entity \<Rightarrow> real \<Rightarrow> real \<Rightarrow> real \<Rightarrow> real \<Rightarrow> Entity \<Rightarrow> Entity \<times> Sound list" where
  "ai_case_position r targetPlayer distToPlayer dirToPlayer attackRange positionSpeed e =
     (let e1 = e\<lparr>currentAnimIndex := ANIM_WALK, state := ENTITY_STATE_MOVE\<rparr>;
          evade = (\<lambda>e2. if isAttacking targetPlayer
                             \<and> distToPlayer \<le> attackRange * (12 / 10) \<and> aiTimer e2 \<le> 0
                          then e2\<lparr>aiState := AI_STATE_EVADE, aiTimer := 4 / 10,
                                  state := ENTITY_STATE_MOVE\<rparr>
                          else e2)
      in if distToPlayer < attackRange - 10
         then (evade (e1\<lparr>velocity := (velocity e1)
                           \<lparr>vec_x := - dirToPlayer * positionSpeed\<rparr>\<rparr>), [])
         else if distToPlayer > attackRange + 10
         then (evade (e1\<lparr>velocity := (velocity e1)
                           \<lparr>vec_x := dirToPlayer * positionSpeed\<rparr>\<rparr>), [])
         else if attackCooldown e1 \<le> 0 \<and> \<not> isAttacking targetPlayer
         then StartEnemyAttack e1 (choose_enemy_profile r)
         else (evade e1, []))"

definition ai_case_attack :: "Entity \<Rightarrow> Entity" where
  "ai_case_attack e = e\<lparr>isAttacking := True, velocity := (velocity e)\<lparr>vec_x := 0\<rparr>\<rparr>"

definition ai_case_retreat :: "real \<Rightarrow> real \<Rightarrow> Entity \<Rightarrow> Entity" where
  "ai_case_retreat dirToPlayer retreatSpeed e =
     (let e1 = e\<lparr>currentAnimIndex := ANIM_HURT, state := ENTITY_STATE_HURT,
                  velocity := (velocity e)\<lparr>vec_x := - dirToPlayer * retreatSpeed\<rparr>\<rparr>;
          e2 = e1\<lparr>facingRight := (vec_x (velocity e1) > 0)\<rparr>
      in if aiTimer e2 \<le> 0
         then e2\<lparr>wasHurt := False, aiState := AI_STATE_CHASE, currentAnimIndex := ANIM_WALK,
                 state := ENTITY_STATE_MOVE\<rparr>
         else e2)"

definition ai_case_evade :: "real \<Rightarrow> real \<Rightarrow> Entity \<Rightarrow> Entity" where
  "ai_case_evade dirToPlayer retreatSpeed e =
     (let e1 = e\<lparr>currentAnimIndex := ANIM_WALK, state := ENTITY_STATE_MOVE,
                  velocity := (velocity e)\<lparr>vec_x := - dirToPlayer * retreatSpeed\<rparr>\<rparr>;
          e2 = e1\<lparr>facingRight := (vec_x (velocity e1) > 0)\<rparr>
      in if aiTimer e2 \<le> 0
         then e2\<lparr>aiState := AI_STATE_CHASE, currentAnimIndex := ANIM_WALK,
                 state := ENTITY_STATE_MOVE\<rparr>
         else e2)"

text \<open>The "boss adjustments" of \<open>ProcessEnemyAI\<close>: the five tuning values, scaled when
  \<open>isBoss\<close>.  The result is (sightDist, attackRange, chaseSpeed, positionSpeed,
  retreatSpeed).\<close>

definition boss_adjustments :: "bool \<Rightarrow> real \<times> real \<times> real \<times> real \<times> real" where
  "boss_adjustments isBoss =
     (if isBoss
      then (ENEMY_SIGHT_DIST * (12 / 10), ENEMY_ATTACK_RANGE * (15 / 10),
            ENEMY_CHASE_SPEED * (7 / 10), ENEMY_POSITION_SPEED * (7 / 10),
            ENEMY_RETREAT_SPEED * (8 / 10))
      else (ENEMY_SIGHT_DIST, ENEMY_ATTACK_RANGE, ENEMY_CHASE_SPEED, ENEMY_POSITION_SPEED,
            ENEMY_RETREAT_SPEED))"

text \<open>\<open>ProcessEnemyAI\<close>.  \<open>e\<close> and \<open>players\<close> are pointers; the result is the enemy after
  the call and the sounds played.\<close>

definition ProcessEnemyAI ::
  "real \<Rightarrow> Entity option \<Rightarrow> Entity list option \<Rightarrow> int \<Rightarrow> real
     \<Rightarrow> Entity option \<times> Sound list" where
  "ProcessEnemyAI r e players numPlayers dt =
     (case e of
        None \<Rightarrow> (None, [])
      | Some e0 \<Rightarrow>
     (case players of
        None \<Rightarrow> (Some (e0\<lparr>aiState := AI_STATE_IDLE, currentAnimIndex := ANIM_IDLE,
                          state := ENTITY_STATE_IDLE\<rparr>), [])
      | Some ps \<Rightarrow>
        if numPlayers \<le> 0
        then (Some (e0\<lparr>aiState := AI_STATE_IDLE, currentAnimIndex := ANIM_IDLE,
                        state := ENTITY_STATE_IDLE\<rparr>), [])
        else
          case select_target e0 ps numPlayers 0 (ENEMY_SIGHT_DIST + 1) None of
            (minDist, None) \<Rightarrow>
              (Some (e0\<lparr>aiState := AI_STATE_IDLE, currentAnimIndex := ANIM_IDLE,
                         state := ENTITY_STATE_IDLE,
                         velocity := (velocity e0)\<lparr>vec_x := 0\<rparr>\<rparr>), [])
          | (minDist, Some t) \<Rightarrow>
              let targetPlayer = ps ! nat t;
                  distToPlayer = minDist;
                  dirToPlayer = (if vec_x (position targetPlayer) \<ge> vec_x (position e0)
                                 then 1 else - 1);
                  isBoss = (health e0 > ENEMY_MAX_HEALTH);
                  (sightDist, attackRange, chaseSpeed, positionSpeed, retreatSpeed) =
                    boss_adjustments isBoss;
                  e1 = e0\<lparr>facingRight := (dirToPlayer > 0)\<rparr>;
                  e2 = (if aiTimer e1 > 0
                        then let e1a = e1\<lparr>aiTimer := aiTimer e1 - dt\<rparr>
                             in if aiTimer e1a < 0 then e1a\<lparr>aiTimer := 0\<rparr> else e1a
                        else e1);
                  e3 = (if wasHurt e2 \<and> aiState e2 \<noteq> AI_STATE_RETREAT
                        then let e2a = e2\<lparr>aiState := AI_STATE_RETREAT\<rparr>;
                                 e2b = (if aiTimer e2a \<le> 0
                                        then e2a\<lparr>aiTimer := ENEMY_RETREAT_TIME\<rparr> else e2a)
                             in e2b\<lparr>currentAnimIndex := ANIM_HURT\<rparr>
                        else e2);
                  inAttackState = (aiState e3 = AI_STATE_ATTACK);
                  e4 = (if \<not> inAttackState then e3\<lparr>isAttacking := False\<rparr> else e3);
                  e5 = e4\<lparr>velocity := (velocity e4)\<lparr>vec_x := 0\<rparr>\<rparr>
              in if aiState e5 = AI_STATE_IDLE
                 then (Some (ai_case_idle distToPlayer sightDist e5), [])
                 else if aiState e5 = AI_STATE_CHASE
                 then (case ai_case_chase r targetPlayer distToPlayer dirToPlayer sightDist
                               attackRange chaseSpeed positionSpeed e5 of
                         (e6, s) \<Rightarrow> (Some e6, s))
                 else if aiState e5 = AI_STATE_POSITION
                 then (case ai_case_position r targetPlayer distToPlayer dirToPlayer
                               attackRange positionSpeed e5 of
                         (e6, s) \<Rightarrow> (Some e6, s))
                 else if aiState e5 = AI_STATE_ATTACK
                 then (Some (ai_case_attack e5), [])
                 else if aiState e5 = AI_STATE_RETREAT
                 then (Some (ai_case_retreat dirToPlayer retreatSpeed e5), [])
                 else if aiState e5 = AI_STATE_EVADE
                 then (Some (ai_case_evade dirToPlayer retreatSpeed e5), [])
                 else (Some e5, [])))"

text \<open>
  The two halves of the branch of \<open>ProcessEnemyAI\<close> that has found a target, named for
  the statements about the call: the preparation (facing, AI timer, the forced retreat of
  a hurt enemy, the reset of \<open>isAttacking\<close> and of the horizontal velocity) and the
  \<open>switch\<close> on the AI state.
\<close>

definition ai_prepare :: "Entity \<Rightarrow> real \<Rightarrow> real \<Rightarrow> Entity" where
  "ai_prepare e0 dirToPlayer dt =
     (let e1 = e0\<lparr>facingRight := (dirToPlayer > 0)\<rparr>;
          e2 = (if aiTimer e1 > 0
                then let e1a = e1\<lparr>aiTimer := aiTimer e1 - dt\<rparr>
                     in if aiTimer e1a < 0 then e1a\<lparr>aiTimer := 0\<rparr> else e1a
                else e1);
          e3 = (if wasHurt e2 \<and> aiState e2 \<noteq> AI_STATE_RETREAT
                then let e2a = e2\<lparr>aiState := AI_STATE_RETREAT\<rparr>;
                         e2b = (if aiTimer e2a \<le> 0
                                then e2a\<lparr>aiTimer := ENEMY_RETREAT_TIME\<rparr> else e2a)
                     in e2b\<lparr>currentAnimIndex := ANIM_HURT\<rparr>
                else e2);
          inAttackState = (aiState e3 = AI_STATE_ATTACK);
          e4 = (if \<not> inAttackState then e3\<lparr>isAttacking := False\<rparr> else e3)
      in e4\<lparr>velocity := (velocity e4)\<lparr>vec_x := 0\<rparr>\<rparr>)"

definition ai_switch ::
  "real \<Rightarrow> Entity \<Rightarrow> real \<Rightarrow> real \<Rightarrow> real \<Rightarrow> real \<Rightarrow> real \<Rightarrow> real \<Rightarrow> real \<Rightarrow> Entity
     \<Rightarrow> Entity option \<times> Sound list" where
  "ai_switch r targetPlayer distToPlayer dirToPlayer sightDist attackRange chaseSpeed
       positionSpeed retreatSpeed e5 =
     (if aiState e5 = AI_STATE_IDLE
      then (Some (ai_case_idle distToPlayer sightDist e5), [])
      else if aiState e5 = AI_STATE_CHASE
      then (case ai_case_chase r targetPlayer distToPlayer dirToPlayer sightDist
                    attackRange chaseSpeed positionSpeed e5 of
              (e6, s) \<Rightarrow> (Some e6, s))
      else if aiState e5 = AI_STATE_POSITION
      then (case ai_case_position r targetPlayer distToPlayer dirToPlayer
                    attackRange positionSpeed e5 of
              (e6, s) \<Rightarrow> (Some e6, s))
      else if aiState e5 = AI_STATE_ATTACK
      then (Some (ai_case_attack e5), [])
      else if aiState e5 = AI_STATE_RETREAT
      then (Some (ai_case_retreat dirToPlayer retreatSpeed e5), [])
      else if aiState e5 = AI_STATE_EVADE
      then (Some (ai_case_evade dirToPlayer retreatSpeed e5), [])
      else (Some e5, []))"

text \<open>A boss as \<open>UpdateLevel\<close> spawns it on the third stage (health and capacity 160).\<close>

definition example_boss :: Entity where
  "example_boss =
     (InitEnemy enemyAssets_loaded \<lparr>vec_x = 1860, vec_y = 401\<rparr>)
       \<lparr>health := 160, maxHealth := 160, facingRight := False\<rparr>"

section \<open>Hit-window gating\<close>

text \<open>The clamped hit window \<open>[hitStart, hitEnd]\<close> of the attack an actor is performing,
  as both hit-detection passes compute it from the frame count of the current clip.\<close>

definition hit_window :: "Entity \<Rightarrow> int \<times> int" where
  "hit_window a =
     (let maxFrame = totalFrames (anim a) - 1;
          hitStart = SafeClamp (if hitFrameStart a > 0 then hitFrameStart a
                                else HIT_FRAMES_START) 0 maxFrame;
          hitEnd = SafeClamp (if hitFrameEnd a > 0 then hitFrameEnd a else HIT_FRAMES_END)
                     hitStart maxFrame
      in (hitStart, hitEnd))"

text \<open>The loop over the registry in the hit detection of \<open>ProcessPlayerInput\<close>: the index
  of the first active enemy with \<open>health > 0\<close> whose hitbox collides with the attack
  hitbox, where the source applies the damage and leaves the loop.\<close>

function first_enemy_hit :: "Globals \<Rightarrow> Rectangle \<Rightarrow> int \<Rightarrow> int option" where
  "first_enemy_hit g attackHit i =
     (if i < activeEnemies g
      then
        if health (enemies g ! nat i) > 0
           \<and> CheckCollisionRecs attackHit (hitbox (enemies g ! nat i))
        then Some i
        else first_enemy_hit g attackHit (i + 1)
      else None)"
  by pat_completeness auto
termination
  by (relation "measure (\<lambda>(g, attackHit, i). nat (activeEnemies g - i))") auto

declare first_enemy_hit.simps [simp del]

text \<open>The hit detection at the end of \<open>ProcessPlayerInput\<close>.  The result is the player,
  the globals, the sounds played and the index of the enemy that \<open>DamageEntity\<close> was
  called on in this pass, if there was one.\<close>

definition PlayerHitDetection ::
  "Entity \<Rightarrow> Globals \<Rightarrow> Entity \<times> Globals \<times> Sound list \<times> int option" where
  "PlayerHitDetection p g =
     (if isAttacking p \<and> \<not> attackHasHit p \<and> attackDamage p > 0
         \<and> totalFrames (anim p) > 0
      then
        let (hitStart, hitEnd) = hit_window p
        in if currentFrame (anim p) < hitStart \<or> currentFrame (anim p) > hitEnd
           then (p, g, [], None)
           else
             let attackHit = ComputeAttackHitbox p
             in case first_enemy_hit g attackHit 0 of
                  None \<Rightarrow> (p, g, [], None)
                | Some i \<Rightarrow>
                    (case DamageEntity (Some (enemies g ! nat i)) (Some p)
                            (attackDamage p) True of
                       (t, s) \<Rightarrow>
                         (p\<lparr>attackHasHit := True\<rparr>,
                          g\<lparr>enemies := (enemies g)[nat i := the t]\<rparr>, s, Some i))
      else (p, g, [], None))"

text \<open>The loop over the players in \<open>ProcessEnemyAttack\<close>.\<close>

function first_player_hit :: "Entity list \<Rightarrow> int \<Rightarrow> Rectangle \<Rightarrow> int \<Rightarrow> int option" where
  "first_player_hit players numPlayers attackHit j =
     (if j < numPlayers
      then
        if health (players ! nat j) \<le> 0
        then first_player_hit players numPlayers attackHit (j + 1)
        else if CheckCollisionRecs attackHit (hitbox (players ! nat j))
        then Some j
        else first_player_hit players numPlayers attackHit (j + 1)
      else None)"
  by pat_completeness auto
termination
  by (relation "measure (\<lambda>(players, numPlayers, attackHit, j). nat (numPlayers - j))") auto

declare first_player_hit.simps [simp del]

text \<open>\<open>ProcessEnemyAttack\<close>.  The result is the enemy, the players, the sounds played and
  the index of the player that \<open>DamageEntity\<close> was called on, if there was one.
  \<open>ProcessEnemyAttack_window\<close> is the second half of the function, from the computation of
  the hit window on, run on the enemy after the frame count has been repaired.\<close>

definition ProcessEnemyAttack_window ::
  "Entity \<Rightarrow> Entity list \<Rightarrow> int
     \<Rightarrow> Entity option \<times> Entity list option \<times> Sound list \<times> int option" where
  "ProcessEnemyAttack_window e1 ps numPlayers =
     (let (hitStart, hitEnd) = hit_window e1
      in if currentFrame (anim e1) < hitStart \<or> currentFrame (anim e1) > hitEnd
         then (Some e1, Some ps, [], None)
         else
           let attackHit = ComputeAttackHitbox e1
           in case first_player_hit ps numPlayers attackHit 0 of
                None \<Rightarrow> (Some e1, Some ps, [], None)
              | Some j \<Rightarrow>
                  (case DamageEntity (Some (ps ! nat j)) (Some e1)
                          (attackDamage e1) False of
                     (t, s) \<Rightarrow>
                       (Some (e1\<lparr>attackHasHit := True\<rparr>),
                        Some (ps[nat j := the t]), s, Some j)))"

definition ProcessEnemyAttack ::
  "EnemyAssets \<Rightarrow> Entity option \<Rightarrow> Entity list option \<Rightarrow> int
     \<Rightarrow> Entity option \<times> Entity list option \<times> Sound list \<times> int option" where
  "ProcessEnemyAttack enemyAssets e players numPlayers =
     (case e of
        None \<Rightarrow> (None, players, [], None)
      | Some e0 \<Rightarrow>
     (case players of
        None \<Rightarrow> (Some e0, None, [], None)
      | Some ps \<Rightarrow>
        if numPlayers \<le> 0 then (Some e0, Some ps, [], None)
        else if \<not> isAttacking e0 \<or> attackHasHit e0 \<or> attackDamage e0 \<le> 0
        then (Some e0, Some ps, [], None)
        else
          let e1 = (if totalFrames (anim e0) \<le> 0
                    then e0\<lparr>anim := (anim e0)
                           \<lparr>totalFrames := (if ea_punch enemyAssets > 0
                                            then ea_punch enemyAssets else 1)\<rparr>\<rparr>
                    else e0)
          in ProcessEnemyAttack_window e1 ps numPlayers))"

section \<open>Collision and movement resolver\<close>

definition tile_rect :: "int \<Rightarrow> int \<Rightarrow> Rectangle" where
  "tile_rect tx ty =
     \<lparr>rec_x = of_int (tx * TILE_SIZE), rec_y = of_int (ty * TILE_SIZE),
      rec_width = of_int TILE_SIZE, rec_height = of_int TILE_SIZE\<rparr>"

text \<open>The inner loop of the tile scans of \<open>UpdatePhysics\<close>: the first column \<open>tx\<close> of row
  \<open>ty\<close>, from \<open>tx\<close> up to \<open>max_tx\<close>, whose tile is solid (\<open>tile_id > 0\<close>) and collides with
  the swept hitbox.\<close>

function scan_tile_row ::
  "(int \<Rightarrow> int) \<Rightarrow> int \<Rightarrow> Rectangle \<Rightarrow> int \<Rightarrow> int \<Rightarrow> int \<Rightarrow> int option" where
  "scan_tile_row tm levelCols temp_hitbox ty tx max_tx =
     (if tx < max_tx
      then
        if tm (ty * levelCols + tx) \<le> 0
        then scan_tile_row tm levelCols temp_hitbox ty (tx + 1) max_tx
        else if CheckCollisionRecs temp_hitbox (tile_rect tx ty)
        then Some tx
        else scan_tile_row tm levelCols temp_hitbox ty (tx + 1) max_tx
      else None)"
  by pat_completeness auto
termination
  by (relation "measure (\<lambda>(tm, levelCols, hb, ty, tx, max_tx). nat (max_tx - tx))") auto

declare scan_tile_row.simps [simp del]

text \<open>The outer loop: rows from \<open>ty\<close> up to \<open>max_ty\<close>, stopping at the first row in which
  the inner loop finds a tile.\<close>

function scan_tiles ::
  "(int \<Rightarrow> int) \<Rightarrow> int \<Rightarrow> Rectangle \<Rightarrow> int \<Rightarrow> int \<Rightarrow> int \<Rightarrow> int \<Rightarrow> (int \<times> int) option"
  where
  "scan_tiles tm levelCols temp_hitbox ty max_ty min_tx max_tx =
     (if ty < max_ty
      then
        case scan_tile_row tm levelCols temp_hitbox ty min_tx max_tx of
          Some tx \<Rightarrow> Some (tx, ty)
        | None \<Rightarrow> scan_tiles tm levelCols temp_hitbox (ty + 1) max_ty min_tx max_tx
      else None)"
  by pat_completeness auto
termination
  by (relation "measure (\<lambda>(tm, levelCols, hb, ty, max_ty, min_tx, max_tx). nat (max_ty - ty))")
     auto

declare scan_tiles.simps [simp del]

text \<open>The loop over the static colliders: the index of the first one that collides.\<close>

function scan_colliders :: "Rectangle list \<Rightarrow> int \<Rightarrow> Rectangle \<Rightarrow> int \<Rightarrow> int option" where
  "scan_colliders cs numCs temp_hitbox i =
     (if i < numCs
      then
        if CheckCollisionRecs temp_hitbox (cs ! nat i) then Some i
        else scan_colliders cs numCs temp_hitbox (i + 1)
      else None)"
  by pat_completeness auto
termination
  by (relation "measure (\<lambda>(cs, numCs, hb, i). nat (numCs - i))") auto

declare scan_colliders.simps [simp del]

text \<open>The size of the swept box: \<open>PLAYER_WIDTH\<close> by \<open>PLAYER_HEIGHT\<close>, scaled by 1.5 when
  \<open>maxHealth\<close> exceeds \<open>ENEMY_MAX_HEALTH\<close>.\<close>

definition entity_scale :: "Entity \<Rightarrow> real" where
  "entity_scale e = (if maxHealth e > ENEMY_MAX_HEALTH then 15 / 10 else 1)"

definition entity_width :: "Entity \<Rightarrow> real" where
  "entity_width e = PLAYER_WIDTH * entity_scale e"

definition entity_height :: "Entity \<Rightarrow> real" where
  "entity_height e = PLAYER_HEIGHT * entity_scale e"

definition hasTileMap :: "Globals \<Rightarrow> bool" where
  "hasTileMap g \<longleftrightarrow> tileMap (currentLevel g) \<noteq> None \<and> level_height (currentLevel g) > 0"

definition levelCols :: "Globals \<Rightarrow> int" where
  "levelCols g = (if hasTileMap g then LevelTileColumns g else 0)"

definition levelRows :: "Globals \<Rightarrow> int" where
  "levelRows g = (if hasTileMap g then LevelRowCount g else 0)"

text \<open>Horizontal pass.  \<open>horizontal_tile_hit\<close> is the tile at which the tile scan stops,
  \<open>horizontal_collider_hit\<close> the static collider at which the collider scan stops; both
  test the same swept hitbox at the tentative X.\<close>

definition horizontal_temp_hitbox :: "Entity \<Rightarrow> real \<Rightarrow> Rectangle" where
  "horizontal_temp_hitbox e dt =
     \<lparr>rec_x = vec_x (position e) + vec_x (velocity e) * dt, rec_y = vec_y (position e),
      rec_width = entity_width e, rec_height = entity_height e\<rparr>"

definition horizontal_tile_hit :: "Globals \<Rightarrow> Entity \<Rightarrow> real \<Rightarrow> (int \<times> int) option" where
  "horizontal_tile_hit g e dt =
     (if hasTileMap g \<and> levelCols g > 0 \<and> levelRows g > 0
      then
        let new_x = vec_x (position e) + vec_x (velocity e) * dt;
            min_tx = SafeClamp (float_to_int (min (vec_x (position e)) new_x
                                               / of_int TILE_SIZE))
                       0 (levelCols g - 1);
            max_tx = SafeClamp (float_to_int (max (vec_x (position e) + entity_width e)
                                                  (new_x + entity_width e)
                                               / of_int TILE_SIZE) + 1)
                       0 (levelCols g);
            min_ty = SafeClamp (float_to_int (vec_y (position e) / of_int TILE_SIZE))
                       0 (levelRows g - 1);
            max_ty = SafeClamp (float_to_int ((vec_y (position e) + entity_height e)
                                               / of_int TILE_SIZE) + 1)
                       0 (levelRows g)
        in scan_tiles (the (tileMap (currentLevel g))) (levelCols g)
             (horizontal_temp_hitbox e dt) min_ty max_ty min_tx max_tx
      else None)"

definition horizontal_collider_hit :: "Globals \<Rightarrow> Entity \<Rightarrow> real \<Rightarrow> int option" where
  "horizontal_collider_hit g e dt =
     (case colliders (currentLevel g) of
        None \<Rightarrow> None
      | Some cs \<Rightarrow>
          if numColliders (currentLevel g) > 0
          then scan_colliders cs (numColliders (currentLevel g))
                 (horizontal_temp_hitbox e dt) 0
          else None)"

definition UpdatePhysics_horizontal :: "Globals \<Rightarrow> Entity \<Rightarrow> real \<Rightarrow> Entity" where
  "UpdatePhysics_horizontal g e dt =
     (let delta_x = vec_x (velocity e) * dt;
          new_x0 = vec_x (position e) + delta_x;
          (new_x1, collided1) =
            (case horizontal_tile_hit g e dt of
               None \<Rightarrow> (new_x0, False)
             | Some (tx, ty) \<Rightarrow>
                 (if delta_x > 0 then of_int (tx * TILE_SIZE) - entity_width e
                  else if delta_x < 0 then of_int ((tx + 1) * TILE_SIZE)
                  else new_x0, True));
          (new_x2, collided2) =
            (case horizontal_collider_hit g e dt of
               None \<Rightarrow> (new_x1, collided1)
             | Some i \<Rightarrow>
                 let c = the (colliders (currentLevel g)) ! nat i
                 in (if delta_x > 0 then rec_x c - entity_width e
                     else if delta_x < 0 then rec_x c + rec_width c
                     else new_x1, True));
          e1 = e\<lparr>position := (position e)\<lparr>vec_x := new_x2\<rparr>\<rparr>
      in if collided2 then e1\<lparr>velocity := (velocity e1)\<lparr>vec_x := 0\<rparr>\<rparr> else e1)"

text \<open>Vertical pass, on the entity after gravity has been added to its vertical
  velocity.\<close>

definition apply_gravity :: "Entity \<Rightarrow> real \<Rightarrow> Entity" where
  "apply_gravity e dt =
     (if \<not> grounded e
      then e\<lparr>velocity := (velocity e)\<lparr>vec_y := vec_y (velocity e) + GRAVITY * dt\<rparr>\<rparr>
      else e)"

definition vertical_temp_hitbox :: "Entity \<Rightarrow> real \<Rightarrow> Rectangle" where
  "vertical_temp_hitbox e dt =
     \<lparr>rec_x = vec_x (position e), rec_y = vec_y (position e) + vec_y (velocity e) * dt,
      rec_width = entity_width e, rec_height = entity_height e\<rparr>"

definition vertical_tile_hit :: "Globals \<Rightarrow> Entity \<Rightarrow> real \<Rightarrow> (int \<times> int) option" where
  "vertical_tile_hit g e dt =
     (if hasTileMap g \<and> levelCols g > 0 \<and> levelRows g > 0
      then
        let new_y = vec_y (position e) + vec_y (velocity e) * dt;
            min_tx = SafeClamp (float_to_int (vec_x (position e) / of_int TILE_SIZE))
                       0 (levelCols g - 1);
            max_tx = SafeClamp (float_to_int ((vec_x (position e) + entity_width e)
                                               / of_int TILE_SIZE) + 1)
                       0 (levelCols g);
            min_ty = SafeClamp (float_to_int (min (vec_y (position e)) new_y
                                               / of_int TILE_SIZE))
                       0 (levelRows g - 1);
            max_ty = SafeClamp (float_to_int (max (vec_y (position e) + entity_height e)
                                                  (new_y + entity_height e)
                                               / of_int TILE_SIZE) + 1)
                       0 (levelRows g)
        in scan_tiles (the (tileMap (currentLevel g))) (levelCols g)
             (vertical_temp_hitbox e dt) min_ty max_ty min_tx max_tx
      else None)"

definition vertical_collider_hit :: "Globals \<Rightarrow> Entity \<Rightarrow> real \<Rightarrow> int option" where
  "vertical_collider_hit g e dt =
     (case colliders (currentLevel g) of
        None \<Rightarrow> None
      | Some cs \<Rightarrow>
          if numColliders (currentLevel g) > 0
          then scan_colliders cs (numColliders (currentLevel g))
                 (vertical_temp_hitbox e dt) 0
          else None)"

definition UpdatePhysics_vertical :: "Globals \<Rightarrow> Entity \<Rightarrow> real \<Rightarrow> Entity" where
  "UpdatePhysics_vertical g e dt =
     (let delta_y = vec_y (velocity e) * dt;
          new_y0 = vec_y (position e) + delta_y;
          e1 = (case vertical_tile_hit g e dt of
                  None \<Rightarrow> e
                | Some (tx, ty) \<Rightarrow>
                    (if delta_y \<ge> 0 then e\<lparr>grounded := True\<rparr> else e)
                      \<lparr>velocity := (velocity e)\<lparr>vec_y := 0\<rparr>\<rparr>);
          new_y1 = (case vertical_tile_hit g e dt of
                      None \<Rightarrow> new_y0
                    | Some (tx, ty) \<Rightarrow>
                        if delta_y \<ge> 0 then of_int (ty * TILE_SIZE) - entity_height e
                        else of_int ((ty + 1) * TILE_SIZE));
          e2 = (case vertical_collider_hit g e dt of
                  None \<Rightarrow> e1
                | Some i \<Rightarrow>
                    (if delta_y \<ge> 0 then e1\<lparr>grounded := True\<rparr> else e1)
                      \<lparr>velocity := (velocity e1)\<lparr>vec_y := 0\<rparr>\<rparr>);
          new_y2 = (case vertical_collider_hit g e dt of
                      None \<Rightarrow> new_y1
                    | Some i \<Rightarrow>
                        let c = the (colliders (currentLevel g)) ! nat i
                        in if delta_y \<ge> 0 then rec_y c - entity_height e
                           else rec_y c + rec_height c)
      in e2\<lparr>position := (position e2)\<lparr>vec_y := new_y2\<rparr>\<rparr>)"

text \<open>The world-bounds clamp and the recomputation of the hitbox.\<close>

definition stage_width :: "Globals \<Rightarrow> real" where
  "stage_width g =
     (if level_width (currentLevel g) > 0 then of_int (level_width (currentLevel g))
      else SCREEN_WIDTH)"

definition UpdatePhysics_bounds :: "Globals \<Rightarrow> Entity \<Rightarrow> Entity" where
  "UpdatePhysics_bounds g e =
     (let max_x0 = stage_width g - entity_width e;
          max_x = (if max_x0 < 0 then 0 else max_x0);
          e1 = e\<lparr>position := (position e)
                   \<lparr>vec_x := SafeClampFloat (vec_x (position e)) 0 max_x\<rparr>\<rparr>;
          e2 = e1\<lparr>position := (position e1)
                   \<lparr>vec_y := SafeClampFloat (vec_y (position e1)) 0 GROUND_Y\<rparr>\<rparr>;
          offset_x = (entity_width e - PLAYER_WIDTH) / 2;
          offset_y = (entity_height e - PLAYER_HEIGHT) / 2
      in e2\<lparr>hitbox := \<lparr>rec_x = vec_x (position e2) + offset_x,
                        rec_y = vec_y (position e2) + offset_y,
                        rec_width = entity_width e, rec_height = entity_height e\<rparr>\<rparr>)"

text \<open>\<open>UpdatePhysics\<close>: \<open>grounded\<close> is reset, then the horizontal pass, gravity, the
  vertical pass and the bounds clamp follow in this order.  The entity after the
  horizontal pass and after the vertical pass, and the tile and the static collider at
  which each pass of the call stops, are named for the statements about the call.\<close>

definition UpdatePhysics_after_horizontal :: "Globals \<Rightarrow> Entity \<Rightarrow> real \<Rightarrow> Entity" where
  "UpdatePhysics_after_horizontal g e dt =
     UpdatePhysics_horizontal g (e\<lparr>grounded := False\<rparr>) dt"

definition UpdatePhysics_after_vertical :: "Globals \<Rightarrow> Entity \<Rightarrow> real \<Rightarrow> Entity" where
  "UpdatePhysics_after_vertical g e dt =
     UpdatePhysics_vertical g (apply_gravity (UpdatePhysics_after_horizontal g e dt) dt) dt"

definition UpdatePhysics :: "Globals \<Rightarrow> Entity \<Rightarrow> real \<Rightarrow> Entity" where
  "UpdatePhysics g e dt = UpdatePhysics_bounds g (UpdatePhysics_after_vertical g e dt)"

definition UpdatePhysics_horizontal_tile ::
  "Globals \<Rightarrow> Entity \<Rightarrow> real \<Rightarrow> (int \<times> int) option" where
  "UpdatePhysics_horizontal_tile g e dt = horizontal_tile_hit g (e\<lparr>grounded := False\<rparr>) dt"

definition UpdatePhysics_horizontal_collider :: "Globals \<Rightarrow> Entity \<Rightarrow> real \<Rightarrow> int option"
  where
  "UpdatePhysics_horizontal_collider g e dt =
     horizontal_collider_hit g (e\<lparr>grounded := False\<rparr>) dt"

definition UpdatePhysics_vertical_tile :: "Globals \<Rightarrow> Entity \<Rightarrow> real \<Rightarrow> (int \<times> int) option"
  where
  "UpdatePhysics_vertical_tile g e dt =
     vertical_tile_hit g (apply_gravity (UpdatePhysics_after_horizontal g e dt) dt) dt"

definition UpdatePhysics_vertical_collider :: "Globals \<Rightarrow> Entity \<Rightarrow> real \<Rightarrow> int option"
  where
  "UpdatePhysics_vertical_collider g e dt =
     vertical_collider_hit g (apply_gravity (UpdatePhysics_after_horizontal g e dt) dt) dt"

definition ApplyFriction :: "Entity \<Rightarrow> real \<Rightarrow> Entity" where
  "ApplyFriction e maxSpeed =
     (if \<not> grounded e then e
      else
        let clampedLimit = (if maxSpeed > 0 \<and> maxSpeed < MAX_ENTITY_SPEED then maxSpeed
                            else MAX_ENTITY_SPEED);
            e1 = (if \<bar>vec_x (velocity e)\<bar> > clampedLimit
                  then e\<lparr>velocity := (velocity e)
                         \<lparr>vec_x := SafeClampFloat (vec_x (velocity e))
                                     (- clampedLimit) clampedLimit\<rparr>\<rparr>
                  else e)
        in if \<bar>vec_x (velocity e1)\<bar> > 0
           then
             let e2 = e1\<lparr>velocity := (velocity e1)
                         \<lparr>vec_x := vec_x (velocity e1) * FRICTION\<rparr>\<rparr>
             in if \<bar>vec_x (velocity e2)\<bar> < MIN_VELOCITY
                then e2\<lparr>velocity := (velocity e2)\<lparr>vec_x := 0\<rparr>\<rparr>
                else e2
           else e1)"

text \<open>The first stage as \<open>InitLevel\<close> builds it when every allocation succeeds and the
  tileset is 128 pixels wide, and a player standing on its ground.\<close>

definition example_stage :: Globals where
  "example_stage =
     snd (InitLevel enemyAssets_loaded 128
            \<lparr>alloc_tileMap = True, alloc_layers = True, alloc_colliders = True\<rparr>
            0 initial_Globals)"

definition example_standing_player :: Entity where
  "example_standing_player =
     (InitPlayer playerAssets_loaded \<lparr>vec_x = 100, vec_y = 3775 / 10\<rparr>)"

section \<open>Animation sequencer\<close>

text \<open>The \<open>while\<close> loop of \<open>UpdateAnimation\<close>: one frame per whole unit of the timer,
  leaving at the last frame.\<close>

function UpdateAnimation_loop :: "Animation \<Rightarrow> Animation" where
  "UpdateAnimation_loop a =
     (if timer a \<ge> 1
      then
        let a1 = a\<lparr>timer := timer a - 1, currentFrame := currentFrame a + 1\<rparr>
        in if currentFrame a1 \<ge> totalFrames a1
           then a1\<lparr>currentFrame := totalFrames a1 - 1\<rparr>
           else UpdateAnimation_loop a1
      else a)"
  by pat_completeness auto
termination
proof (relation "measure (\<lambda>a. nat \<lfloor>timer a\<rfloor>)")
  show "wf (measure (\<lambda>a. nat \<lfloor>timer a\<rfloor>))" by simp
next
  fix a a1 :: Animation
  assume "1 \<le> timer a" and "a1 = a\<lparr>timer := timer a - 1, currentFrame := currentFrame a + 1\<rparr>"
  then have "\<lfloor>timer a1\<rfloor> = \<lfloor>timer a\<rfloor> - 1" and "1 \<le> \<lfloor>timer a\<rfloor>"
    by (simp_all add: le_floor_iff)
  then show "(a1, a) \<in> measure (\<lambda>a. nat \<lfloor>timer a\<rfloor>)" by simp
qed

declare UpdateAnimation_loop.simps [simp del]

definition UpdateAnimation :: "Animation \<Rightarrow> real \<Rightarrow> Animation" where
  "UpdateAnimation a dt =
     (if totalFrames a \<le> 0 then a\<lparr>currentFrame := 0\<rparr>
      else
        let a1 = (if totalFrames a \<le> 3 then a\<lparr>timer := timer a + dt * 12\<rparr>
                  else a\<lparr>timer := timer a + dt * 8\<rparr>);
            a2 = UpdateAnimation_loop a1
        in a2\<lparr>currentFrame := SafeClamp (currentFrame a2) 0 (totalFrames a2 - 1)\<rparr>)"

section \<open>Player control\<close>

datatype Key =
    KEY_A | KEY_D | KEY_W | KEY_J | KEY_L | KEY_K | KEY_G
  | KEY_LEFT | KEY_RIGHT | KEY_UP | KEY_Z | KEY_X | KEY_C

text \<open>The keyboard state of the frame, as raylib reports it.\<close>

record Keyboard =
  IsKeyDown :: "Key \<Rightarrow> bool"
  IsKeyPressed :: "Key \<Rightarrow> bool"
  IsKeyReleased :: "Key \<Rightarrow> bool"

definition no_keys :: Keyboard where
  "no_keys = \<lparr>IsKeyDown = (\<lambda>k. False), IsKeyPressed = (\<lambda>k. False),
              IsKeyReleased = (\<lambda>k. False)\<rparr>"

definition UpdatePlayerDeath :: "Entity \<Rightarrow> real \<Rightarrow> Entity" where
  "UpdatePlayerDeath p dt =
     (if deathTimer p > 0
      then
        let p1 = p\<lparr>deathTimer := deathTimer p - dt,
                   velocity := zero_Vector2,
                   currentAnimIndex := ANIM_HURT,
                   state := ENTITY_STATE_DEAD,
                   stateTimer := 0,
                   grounded := True\<rparr>
        in if deathTimer p1 \<le> 0 then p1\<lparr>health := 0\<rparr> else p1
      else p)"

definition StartPlayerAttack :: "Entity \<Rightarrow> AttackProfile \<Rightarrow> Entity \<times> Sound list" where
  "StartPlayerAttack p profile =
     (p\<lparr>isAttacking := True,
        state := ENTITY_STATE_ATTACK,
        stateTimer := 0,
        attackTimer := 0,
        attackHasHit := False,
        attackDamage := damage profile,
        attackCooldown := cooldown profile,
        hitFrameStart := ap_hitFrameStart profile,
        hitFrameEnd := ap_hitFrameEnd profile,
        currentAnimIndex := animIndex profile,
        lastAnimIndex := - 1,
        idleTimer := 0,
        velocity := (velocity p)\<lparr>vec_x := 0\<rparr>\<rparr>,
      if animIndex profile = ANIM_KICK then [kickSound] else [punchSound])"

definition StartAirAttack :: "Entity \<Rightarrow> int \<Rightarrow> int \<Rightarrow> real \<Rightarrow> Entity" where
  "StartAirAttack p anim_index dmg cd =
     p\<lparr>isAttacking := True,
       state := ENTITY_STATE_ATTACK,
       stateTimer := 0,
       attackTimer := 0,
       attackHasHit := False,
       attackDamage := dmg,
       attackCooldown := cd,
       hitFrameStart := 1,
       hitFrameEnd := 2,
       currentAnimIndex := anim_index,
       lastAnimIndex := - 1,
       idleTimer := 0,
       velocity := (velocity p)\<lparr>vec_x := vec_x (velocity p) * (8 / 10)\<rparr>\<rparr>"

text \<open>
  \<open>ProcessPlayerInput\<close> is modelled statement by statement.  The two players differ only
  in the keys they read: left, right and jump, and the three attack keys.
\<close>

definition player_canControl :: "Entity \<Rightarrow> bool" where
  "player_canControl p \<longleftrightarrow>
     stunTimer p \<le> 0 \<and> state p \<noteq> ENTITY_STATE_ATTACK \<and> state p \<noteq> ENTITY_STATE_HURT
     \<and> state p \<noteq> ENTITY_STATE_DEAD"

text \<open>The movement keys and the jump.  The result is the player and \<open>moveDir\<close>.\<close>

definition input_move_jump :: "Keyboard \<Rightarrow> bool \<Rightarrow> Entity \<Rightarrow> Entity \<times> real" where
  "input_move_jump kb isPlayer2 p =
     (let left = (if isPlayer2 then KEY_LEFT else KEY_A);
          right = (if isPlayer2 then KEY_RIGHT else KEY_D);
          up = (if isPlayer2 then KEY_UP else KEY_W);
          moveDir0 = (if IsKeyDown kb left then - 1 else 0);
          moveDir = (if IsKeyDown kb right then moveDir0 + 1 else moveDir0)
      in if IsKeyPressed kb up \<and> grounded p
         then (p\<lparr>velocity := (velocity p)\<lparr>vec_y := JUMP_VELOCITY\<rparr>,
                 state := ENTITY_STATE_JUMP,
                 currentAnimIndex := ANIM_JUMP,
                 lastAnimIndex := - 1,
                 grounded := False\<rparr>, moveDir)
         else (p, moveDir))"

text \<open>The use of \<open>moveDir\<close>.  The result is the player and the flag \<open>moving\<close>.\<close>

definition input_apply_move :: "real \<Rightarrow> Entity \<Rightarrow> Entity \<times> bool" where
  "input_apply_move moveDir p =
     (if moveDir \<noteq> 0
      then
        let p1 = p\<lparr>velocity := (velocity p)\<lparr>vec_x := moveDir * PLAYER_SPEED\<rparr>,
                   facingRight := (moveDir > 0)\<rparr>
        in (if state p1 \<noteq> ENTITY_STATE_JUMP
            then p1\<lparr>state := ENTITY_STATE_MOVE, currentAnimIndex := ANIM_WALK\<rparr>
            else p1, True)
      else if state p = ENTITY_STATE_MOVE \<and> grounded p
      then (p\<lparr>velocity := (velocity p)\<lparr>vec_x := 0\<rparr>, state := ENTITY_STATE_IDLE\<rparr>, False)
      else (p, False))"

text \<open>The attack keys, read only when the cooldown has expired.\<close>

definition start_attack ::
  "Entity \<Rightarrow> bool \<Rightarrow> int \<Rightarrow> int \<Rightarrow> AttackProfile \<Rightarrow> Entity \<times> Sound list" where
  "start_attack p isAirAttack airAnim airDamage profile =
     (if isAirAttack then (StartAirAttack p airAnim airDamage (1 / 2), [])
      else StartPlayerAttack p profile)"

definition input_attack :: "Keyboard \<Rightarrow> bool \<Rightarrow> Entity \<Rightarrow> Entity \<times> Sound list" where
  "input_attack kb isPlayer2 p =
     (if attackCooldown p \<le> 0
      then
        let isAirAttack = (\<not> grounded p);
            airAnim = (if vec_y (velocity p) < 0 then ANIM_JUMP_KICK else ANIM_DIVE_KICK);
            jab = (if isPlayer2 then KEY_Z else KEY_J);
            punch = (if isPlayer2 then KEY_X else KEY_L);
            kick = (if isPlayer2 then KEY_C else KEY_K)
        in if IsKeyPressed kb jab
           then start_attack p isAirAttack airAnim (ATTACK_DAMAGE + 5)
                  PLAYER_ATTACK_JAB_PROFILE
           else if IsKeyPressed kb punch
           then start_attack p isAirAttack airAnim (PUNCH_DAMAGE + 5)
                  PLAYER_ATTACK_PUNCH_PROFILE
           else if IsKeyPressed kb kick
           then start_attack p isAirAttack airAnim (KICK_DAMAGE + 5)
                  PLAYER_ATTACK_KICK_PROFILE
           else (p, [])
      else (p, []))"

text \<open>The search for the closest living enemy within 60 pixels.\<close>

function find_closest_enemy :: "Globals \<Rightarrow> Entity \<Rightarrow> int \<Rightarrow> real \<Rightarrow> int \<Rightarrow> int" where
  "find_closest_enemy g p k minDist closest =
     (if k < activeEnemies g
      then
        if health (enemies g ! nat k) > 0
        then
          let dx = vec_x (position (enemies g ! nat k)) - vec_x (position p);
              dy = \<bar>vec_y (position (enemies g ! nat k)) - vec_y (position p)\<bar>;
              dist = sqrt (dx * dx + dy * dy)
          in if dist < minDist
             then find_closest_enemy g p (k + 1) dist k
             else find_closest_enemy g p (k + 1) minDist closest
        else find_closest_enemy g p (k + 1) minDist closest
      else closest)"
  by pat_completeness auto
termination
  by (relation "measure (\<lambda>(g, p, k, minDist, closest). nat (activeEnemies g - k))") auto

declare find_closest_enemy.simps [simp del]

definition input_grab_start ::
  "Keyboard \<Rightarrow> bool \<Rightarrow> Entity \<Rightarrow> Globals \<Rightarrow> Entity \<times> Globals" where
  "input_grab_start kb canControl p g =
     (if IsKeyPressed kb KEY_G \<and> grabbedEnemyIndex p = - 1 \<and> canControl \<and> grounded p
      then
        let closest = find_closest_enemy g p 0 60 (- 1)
        in if closest \<noteq> - 1
           then
             (p\<lparr>grabbedEnemyIndex := closest,
                state := ENTITY_STATE_GRAB,
                currentAnimIndex := ANIM_PUNCH,
                lastAnimIndex := - 1\<rparr>,
              g\<lparr>enemies := (enemies g)
                  [nat closest := (enemies g ! nat closest)
                     \<lparr>state := ENTITY_STATE_HURT, velocity := zero_Vector2,
                      stunTimer := 1\<rparr>]\<rparr>)
           else (p, g)
      else (p, g))"

text \<open>
  A read of the registry through an index that no loop bound protects: the array has
  \<open>MAX_ENEMIES\<close> slots, and a read outside them is not a behaviour of the program.  Such a
  read is \<open>None\<close>, and the functions that read through the grab reference return \<open>None\<close>
  when one of their reads is.
\<close>

definition enemy_at :: "Globals \<Rightarrow> int \<Rightarrow> Entity option" where
  "enemy_at g idx =
     (if 0 \<le> idx \<and> idx < MAX_ENEMIES \<and> nat idx < length (enemies g)
      then Some (enemies g ! nat idx) else None)"

text \<open>The release of the grab: the held enemy is thrown and damaged if the reference is
  still valid, and the reference is dropped in any case.\<close>

definition input_grab_release ::
  "Keyboard \<Rightarrow> Entity \<Rightarrow> Globals \<Rightarrow> (Entity \<times> Globals \<times> Sound list) option" where
  "input_grab_release kb p g =
     (if IsKeyReleased kb KEY_G \<and> grabbedEnemyIndex p \<noteq> - 1
      then
        let idx = grabbedEnemyIndex p;
            dropped = p\<lparr>grabbedEnemyIndex := - 1, state := ENTITY_STATE_IDLE\<rparr>
        in if idx < activeEnemies g
           then
             (case enemy_at g idx of
                None \<Rightarrow> None
              | Some en \<Rightarrow>
                  if health en > 0
                  then
                    let throwVel = (if facingRight p then 400 else - 400);
                        thrown = en\<lparr>velocity := \<lparr>vec_x = throwVel, vec_y = - 200\<rparr>,
                                    state := ENTITY_STATE_MOVE,
                                    stunTimer := 1 / 2\<rparr>
                    in (case DamageEntity (Some thrown) (Some p) 5 True of
                          (t, s) \<Rightarrow>
                            Some (dropped, g\<lparr>enemies := (enemies g)[nat idx := the t]\<rparr>, s))
                  else Some (dropped, g, []))
           else Some (dropped, g, [])
      else Some (p, g, []))"

text \<open>The idle debounce after the input block.\<close>

definition idle_debounce :: "bool \<Rightarrow> real \<Rightarrow> Entity \<Rightarrow> Entity" where
  "idle_debounce moving dt p =
     (if \<not> isAttacking p \<and> grounded p \<and> \<not> moving \<and> stunTimer p \<le> 0
         \<and> state p \<noteq> ENTITY_STATE_JUMP \<and> state p \<noteq> ENTITY_STATE_ATTACK
         \<and> state p \<noteq> ENTITY_STATE_DEAD
      then
        let p1 = p\<lparr>idleTimer := idleTimer p + dt\<rparr>
        in if idleTimer p1 > IDLE_DELAY
           then p1\<lparr>currentAnimIndex := ANIM_IDLE, state := ENTITY_STATE_IDLE,
                   idleTimer := 0, lastAnimIndex := - 1\<rparr>
           else p1
      else if moving then p\<lparr>idleTimer := 0\<rparr>
      else p)"

text \<open>The block guarded by \<open>canControl\<close>.  The result is the player, the globals, the
  sounds and the flag \<open>moving\<close>.\<close>

definition controlled_input ::
  "Keyboard \<Rightarrow> bool \<Rightarrow> Entity \<Rightarrow> Globals
     \<Rightarrow> (Entity \<times> Globals \<times> Sound list \<times> bool) option" where
  "controlled_input kb isPlayer2 p g =
     (case input_move_jump kb isPlayer2 p of
        (p1, moveDir) \<Rightarrow>
     (case input_apply_move moveDir p1 of
        (p2, moving) \<Rightarrow>
     (case input_attack kb isPlayer2 p2 of
        (p3, s1) \<Rightarrow>
     (case input_grab_start kb True p3 g of
        (p4, g1) \<Rightarrow>
     (case input_grab_release kb p4 g1 of
        None \<Rightarrow> None
      | Some (p5, g2, s2) \<Rightarrow> Some (p5, g2, s1 @ s2, moving))))))"

definition ProcessPlayerInput ::
  "Keyboard \<Rightarrow> Entity \<Rightarrow> Globals \<Rightarrow> real \<Rightarrow> bool
     \<Rightarrow> (Entity \<times> Globals \<times> Sound list) option" where
  "ProcessPlayerInput kb p g dt isPlayer2 =
     (case (if player_canControl p then controlled_input kb isPlayer2 p g
            else Some (p, g, [], False)) of
        None \<Rightarrow> None
      | Some (p1, g1, s1, moving) \<Rightarrow>
          (case PlayerHitDetection (idle_debounce moving dt p1) g1 of
             (p2, g2, s2, h) \<Rightarrow> Some (p2, g2, s1 @ s2)))"

definition UpdatePlayerAnimationFrames :: "PlayerAssets \<Rightarrow> Entity \<Rightarrow> Entity" where
  "UpdatePlayerAnimationFrames playerAssets p =
     p\<lparr>anim := (anim p)\<lparr>totalFrames :=
        (if currentAnimIndex p = ANIM_IDLE then pa_idle playerAssets
         else if currentAnimIndex p = ANIM_WALK then pa_walk playerAssets
         else if currentAnimIndex p = ANIM_JUMP then pa_jump playerAssets
         else if currentAnimIndex p = ANIM_JAB then pa_jab playerAssets
         else if currentAnimIndex p = ANIM_PUNCH then 3
         else if currentAnimIndex p = ANIM_KICK then pa_kick playerAssets
         else if currentAnimIndex p = ANIM_JUMP_KICK then pa_jump_kick playerAssets
         else if currentAnimIndex p = ANIM_DIVE_KICK then pa_dive_kick playerAssets
         else if currentAnimIndex p = ANIM_HURT then pa_hurt playerAssets
         else pa_idle playerAssets)\<rparr>\<rparr>"

text \<open>
  \<open>UpdatePlayer\<close>, statement by statement.  The first block advances the state timer and
  counts the stun down.
\<close>

definition update_player_stun :: "Entity \<Rightarrow> real \<Rightarrow> Entity" where
  "update_player_stun p dt =
     (let p1 = p\<lparr>stateTimer := stateTimer p + dt\<rparr>
      in if stunTimer p1 > 0
         then
           let p2 = p1\<lparr>stunTimer := stunTimer p1 - dt\<rparr>
           in if stunTimer p2 \<le> 0 \<and> health p2 > 0 \<and> state p2 = ENTITY_STATE_HURT
              then p2\<lparr>state := (if grounded p2 then ENTITY_STATE_IDLE else ENTITY_STATE_JUMP),
                      currentAnimIndex := (if grounded p2 then ANIM_IDLE else ANIM_JUMP),
                      lastAnimIndex := - 1\<rparr>
              else p2
         else p1)"

text \<open>The normal gameplay branch: input, friction, physics and the landing
  transition.\<close>

definition update_player_gameplay ::
  "Keyboard \<Rightarrow> Entity \<Rightarrow> Globals \<Rightarrow> real \<Rightarrow> bool
     \<Rightarrow> (Entity \<times> Globals \<times> Sound list) option" where
  "update_player_gameplay kb p g dt isPlayer2 =
     (case ProcessPlayerInput kb p g dt isPlayer2 of
        None \<Rightarrow> None
      | Some (p1, g1, s) \<Rightarrow>
          let p2 = ApplyFriction p1 PLAYER_SPEED;
              wasGrounded = grounded p2;
              p3 = UpdatePhysics g1 p2 dt
          in Some (if \<not> wasGrounded \<and> grounded p3 \<and> state p3 \<noteq> ENTITY_STATE_DEAD
                      \<and> \<not> isAttacking p3 \<and> stunTimer p3 \<le> 0
                   then p3\<lparr>state := ENTITY_STATE_IDLE, currentAnimIndex := ANIM_IDLE,
                           lastAnimIndex := - 1\<rparr>
                   else p3, g1, s))"

definition update_player_cooldown :: "Entity \<Rightarrow> real \<Rightarrow> Entity" where
  "update_player_cooldown p dt =
     (if attackCooldown p > 0
      then
        let p1 = p\<lparr>attackCooldown := attackCooldown p - dt\<rparr>
        in if attackCooldown p1 < 0 then p1\<lparr>attackCooldown := 0\<rparr> else p1
      else p)"

definition update_player_animation :: "PlayerAssets \<Rightarrow> Entity \<Rightarrow> real \<Rightarrow> Entity" where
  "update_player_animation playerAssets p dt =
     (let p1 = (if currentAnimIndex p \<noteq> lastAnimIndex p
                then
                  let pa = p\<lparr>lastAnimIndex := currentAnimIndex p\<rparr>;
                      pb = UpdatePlayerAnimationFrames playerAssets pa
                  in pb\<lparr>anim := (anim pb)\<lparr>currentFrame := 0, timer := 0\<rparr>\<rparr>
                else p)
      in p1\<lparr>anim := UpdateAnimation (anim p1) dt\<rparr>)"

definition update_player_attack_end :: "Entity \<Rightarrow> real \<Rightarrow> Entity" where
  "update_player_attack_end p dt =
     (if isAttacking p \<and> currentAnimIndex p \<ge> ANIM_JAB
         \<and> currentAnimIndex p \<le> ANIM_DIVE_KICK
      then
        let p1 = p\<lparr>attackTimer := attackTimer p + dt\<rparr>;
            animationFinished = (currentFrame (anim p1) \<ge> totalFrames (anim p1) - 1);
            timeoutExpired = (attackTimer p1 \<ge> ATTACK_TIMEOUT)
        in if animationFinished \<or> timeoutExpired
           then p1\<lparr>currentAnimIndex := ANIM_IDLE,
                   isAttacking := False,
                   idleTimer := 0,
                   attackTimer := 0,
                   attackDamage := 0,
                   attackHasHit := False,
                   state := (if grounded p1 then ENTITY_STATE_IDLE else ENTITY_STATE_JUMP),
                   lastAnimIndex := - 1\<rparr>
           else p1
      else
        let p1 = p\<lparr>attackTimer := 0\<rparr>
        in if \<not> isAttacking p1 then p1\<lparr>attackDamage := 0\<rparr> else p1)"

definition update_player_death_trigger :: "bool \<Rightarrow> EntityState \<Rightarrow> Entity \<Rightarrow> Entity" where
  "update_player_death_trigger isDying previousState p =
     (let p1 = (if health p \<le> 0 \<and> deathTimer p = 0 then p\<lparr>deathTimer := DEATH_TIME\<rparr>
                else p);
          p2 = (if isDying
                then
                  let pa = p1\<lparr>position := (position p1)
                              \<lparr>vec_y := GROUND_Y - PLAYER_HEIGHT\<rparr>,
                             velocity := zero_Vector2\<rparr>
                  in pa\<lparr>hitbox := \<lparr>rec_x = vec_x (position pa), rec_y = vec_y (position pa),
                                   rec_width = PLAYER_WIDTH, rec_height = PLAYER_HEIGHT\<rparr>\<rparr>
                else p1)
      in if state p2 \<noteq> previousState then p2\<lparr>stateTimer := 0\<rparr> else p2)"

text \<open>The last block: the held enemy follows the player while the grab reference is
  valid (\<open>idx >= 0 && idx < activeEnemies && enemies[idx].health > 0\<close>), otherwise the
  reference is cleared.\<close>

definition update_player_grab :: "Entity \<Rightarrow> Globals \<Rightarrow> (Entity \<times> Globals) option" where
  "update_player_grab p g =
     (if grabbedEnemyIndex p \<noteq> - 1
      then
        let idx = grabbedEnemyIndex p;
            cleared = p\<lparr>grabbedEnemyIndex := - 1, state := ENTITY_STATE_IDLE\<rparr>
        in if idx \<ge> 0 \<and> idx < activeEnemies g
           then
             (case enemy_at g idx of
                None \<Rightarrow> None
              | Some en \<Rightarrow>
                  if health en > 0
                  then
                    let offsetX = (if facingRight p then 40 else - 40);
                        held = en\<lparr>position := \<lparr>vec_x = vec_x (position p) + offsetX,
                                                 vec_y = vec_y (position p)\<rparr>,
                                  velocity := zero_Vector2,
                                  grounded := grounded p,
                                  aiState := AI_STATE_IDLE,
                                  isAttacking := False\<rparr>
                    in Some (p\<lparr>velocity := (velocity p)
                                 \<lparr>vec_x := vec_x (velocity p) * (1 / 2)\<rparr>\<rparr>,
                             g\<lparr>enemies := (enemies g)[nat idx := held]\<rparr>)
                  else Some (cleared, g))
           else Some (cleared, g)
      else Some (p, g))"

text \<open>\<open>UpdatePlayer\<close>.  The result is \<open>None\<close> when the call reads the registry outside its
  slots through the grab reference, otherwise the player, the globals and the sounds
  played.\<close>

definition UpdatePlayer ::
  "Keyboard \<Rightarrow> PlayerAssets \<Rightarrow> Entity \<Rightarrow> Globals \<Rightarrow> real \<Rightarrow> bool
     \<Rightarrow> (Entity \<times> Globals \<times> Sound list) option" where
  "UpdatePlayer kb playerAssets p g dt isPlayer2 =
     (let previousState = state p;
          p1 = update_player_stun p dt;
          isDying = (deathTimer p1 > 0)
      in case (if isDying then Some (UpdatePlayerDeath p1 dt, g, [])
               else update_player_gameplay kb p1 g dt isPlayer2) of
           None \<Rightarrow> None
         | Some (p2, g1, s) \<Rightarrow>
             let p3 = update_player_cooldown p2 dt;
                 p4 = update_player_animation playerAssets p3 dt;
                 p5 = update_player_attack_end p4 dt;
                 p6 = update_player_death_trigger isDying previousState p5
             in (case update_player_grab p6 g1 of
                   None \<Rightarrow> None
                 | Some (p7, g2) \<Rightarrow> Some (p7, g2, s)))"

text \<open>A run of \<open>n\<close> ticks of one player with no key touched; \<open>None\<close> if a tick is.\<close>

fun UpdatePlayer_ticks ::
  "nat \<Rightarrow> PlayerAssets \<Rightarrow> Entity \<Rightarrow> Globals \<Rightarrow> real \<Rightarrow> (Entity \<times> Globals) option" where
  "UpdatePlayer_ticks 0 pa p g dt = Some (p, g)"
| "UpdatePlayer_ticks (Suc n) pa p g dt =
     (case UpdatePlayer no_keys pa p g dt False of
        None \<Rightarrow> None
      | Some (p', g', s) \<Rightarrow> UpdatePlayer_ticks n pa p' g' dt)"

section \<open>Enemy update\<close>

definition UpdateEnemyAnimationFrames :: "EnemyAssets \<Rightarrow> Entity \<Rightarrow> Entity" where
  "UpdateEnemyAnimationFrames enemyAssets e =
     e\<lparr>anim := (anim e)\<lparr>totalFrames :=
        (if currentAnimIndex e = ANIM_IDLE then ea_idle enemyAssets
         else if currentAnimIndex e = ANIM_WALK then ea_walk enemyAssets
         else if currentAnimIndex e = ANIM_JUMP then ea_walk enemyAssets
         else if currentAnimIndex e = ANIM_PUNCH then ea_punch enemyAssets
         else if currentAnimIndex e = ANIM_HURT then ea_hurt enemyAssets
         else if currentAnimIndex e = ANIM_KICK then ea_punch enemyAssets
         else ea_idle enemyAssets)\<rparr>\<rparr>"

text \<open>
  The body of the loop of \<open>UpdateEnemies\<close> for an enemy that is neither dying nor dead,
  block by block.  The first block counts the attack cooldown and the stun down and
  advances the state timer; its second component is \<open>skipAI\<close>.
\<close>

definition update_enemy_timers :: "Entity \<Rightarrow> real \<Rightarrow> Entity \<times> bool" where
  "update_enemy_timers e dt =
     (let e1 = (if attackCooldown e > 0
                then
                  let e0 = e\<lparr>attackCooldown := attackCooldown e - dt\<rparr>
                  in if attackCooldown e0 < 0 then e0\<lparr>attackCooldown := 0\<rparr> else e0
                else e);
          e2 = e1\<lparr>stateTimer := stateTimer e1 + dt\<rparr>
      in if stunTimer e2 > 0
         then
           let e3 = e2\<lparr>stunTimer := stunTimer e2 - dt\<rparr>
           in if stunTimer e3 \<le> 0 then (e3\<lparr>stunTimer := 0\<rparr>, False)
              else (e3\<lparr>state := ENTITY_STATE_HURT, currentAnimIndex := ANIM_HURT\<rparr>, True)
         else (e2, False))"

text \<open>The loop that looks for a player whose grab reference is the index of the
  enemy.\<close>

function grabbed_by_player :: "Entity list \<Rightarrow> int \<Rightarrow> int \<Rightarrow> int \<Rightarrow> bool" where
  "grabbed_by_player players numPlayers i j =
     (if j < numPlayers
      then
        if grabbedEnemyIndex (players ! nat j) = i then True
        else grabbed_by_player players numPlayers i (j + 1)
      else False)"
  by pat_completeness auto
termination
  by (relation "measure (\<lambda>(players, numPlayers, i, j). nat (numPlayers - j))") auto

declare grabbed_by_player.simps [simp del]

definition update_enemy_grabbed :: "Entity \<Rightarrow> Entity" where
  "update_enemy_grabbed e =
     e\<lparr>currentAnimIndex := ANIM_HURT, state := ENTITY_STATE_HURT, velocity := zero_Vector2\<rparr>"

text \<open>The call of \<open>ProcessEnemyAI\<close>, unless the stun forbids it, and the reset of the
  state timer when the state has changed.  \<open>r\<close> is the random number of the call.\<close>

definition update_enemy_ai ::
  "real \<Rightarrow> bool \<Rightarrow> Entity \<Rightarrow> Entity list \<Rightarrow> int \<Rightarrow> real \<Rightarrow> Entity \<times> Sound list" where
  "update_enemy_ai r skipAI e players numPlayers dt =
     (let previousState = state e;
          (e1, s) = (if \<not> skipAI
                     then (case ProcessEnemyAI r (Some e) (Some players) numPlayers dt of
                             (e', s') \<Rightarrow> (the e', s'))
                     else (e, []))
      in (if state e1 \<noteq> previousState then e1\<lparr>stateTimer := 0\<rparr> else e1, s))"

definition update_enemy_friction :: "Entity \<Rightarrow> Entity" where
  "update_enemy_friction e =
     (if currentAnimIndex e = ANIM_WALK
      then
        let frictionSpeed =
              (if aiState e = AI_STATE_CHASE then ENEMY_CHASE_SPEED
               else if aiState e = AI_STATE_RETREAT \<or> aiState e = AI_STATE_EVADE
               then ENEMY_RETREAT_SPEED
               else if aiState e = AI_STATE_POSITION then ENEMY_POSITION_SPEED
               else ENEMY_SPEED)
        in ApplyFriction e frictionSpeed
      else if grounded e \<and> \<bar>vec_x (velocity e)\<bar> > 0
      then ApplyFriction e ENEMY_RETREAT_SPEED
      else e)"

definition update_enemy_animation_change :: "EnemyAssets \<Rightarrow> Entity \<Rightarrow> Entity" where
  "update_enemy_animation_change enemyAssets e =
     (if currentAnimIndex e \<noteq> lastAnimIndex e
      then UpdateEnemyAnimationFrames enemyAssets
             (e\<lparr>anim := (anim e)\<lparr>currentFrame := 0, timer := 0\<rparr>,
                lastAnimIndex := currentAnimIndex e\<rparr>)
      else e)"

text \<open>The slow-down of the attack clip: while the enemy is attacking, the animation
  timer is halved after every advance.\<close>

definition update_enemy_attack_slowdown :: "Entity \<Rightarrow> Entity" where
  "update_enemy_attack_slowdown e =
     (if isAttacking e
      then
        let e1 = e\<lparr>anim := (anim e)\<lparr>timer := timer (anim e) * (1 / 2)\<rparr>\<rparr>
        in e1\<lparr>anim := (anim e1)
                \<lparr>currentFrame := SafeClamp (currentFrame (anim e1)) 0
                                   (totalFrames (anim e1) - 1)\<rparr>\<rparr>
      else e)"

definition update_enemy_attack_end :: "Entity \<Rightarrow> real \<Rightarrow> Entity" where
  "update_enemy_attack_end e dt =
     (if isAttacking e
      then
        let e1 = e\<lparr>attackTimer := attackTimer e + dt\<rparr>;
            minDurationPassed = (attackTimer e1 \<ge> 1 / 2);
            timeoutExpired = (attackTimer e1 \<ge> ATTACK_TIMEOUT)
        in if minDurationPassed \<or> timeoutExpired
           then
             let e2 = e1\<lparr>isAttacking := False, attackTimer := 0, attackDamage := 0,
                         attackHasHit := False\<rparr>
             in if aiState e2 = AI_STATE_ATTACK
                then e2\<lparr>aiState := AI_STATE_CHASE, currentAnimIndex := ANIM_WALK,
                        state := ENTITY_STATE_MOVE, stateTimer := 0\<rparr>
                else e2
           else e1
      else if attackTimer e > 0 then e\<lparr>attackTimer := 0\<rparr>
      else e)"

text \<open>The blocks in the order of the source.  \<open>i\<close> is the index of the enemy in the
  registry; the result is the enemy, the players and the sounds played.\<close>

definition UpdateEnemy ::
  "EnemyAssets \<Rightarrow> real \<Rightarrow> Globals \<Rightarrow> Entity \<Rightarrow> Entity list \<Rightarrow> int \<Rightarrow> int \<Rightarrow> real
     \<Rightarrow> Entity \<times> Entity list \<times> Sound list" where
  "UpdateEnemy enemyAssets r g e players numPlayers i dt =
     (case update_enemy_timers e dt of
        (e1, skipAI) \<Rightarrow>
          if grabbed_by_player players numPlayers i 0
          then (update_enemy_grabbed e1, players, [])
          else
            (case update_enemy_ai r skipAI e1 players numPlayers dt of
               (e2, s1) \<Rightarrow>
                 let e3 = update_enemy_friction e2;
                     e4 = update_enemy_animation_change enemyAssets e3;
                     e5 = UpdatePhysics g e4 dt;
                     e6 = e5\<lparr>anim := UpdateAnimation (anim e5) dt\<rparr>
                 in (case ProcessEnemyAttack enemyAssets (Some e6) (Some players)
                            numPlayers of
                       (e7, ps, s2, h) \<Rightarrow>
                         (update_enemy_attack_end
                            (update_enemy_attack_slowdown (the e7)) dt,
                          the ps, s1 @ s2))))"

text \<open>
  The loop of \<open>UpdateEnemies\<close>.  The loop variable starts at 0 and is a natural number: a
  removal decrements it and the loop increment restores it, so that the enemy moved into
  the freed slot is looked at next.  \<open>rs i\<close> is the random number available to the AI call
  of slot \<open>i\<close>, and \<open>snds\<close> collects the sounds.
\<close>

function UpdateEnemies_loop ::
  "EnemyAssets \<Rightarrow> (nat \<Rightarrow> real) \<Rightarrow> int \<Rightarrow> real \<Rightarrow> nat \<Rightarrow> Entity list \<Rightarrow> Globals
     \<Rightarrow> Sound list \<Rightarrow> Entity list \<times> Globals \<times> Sound list" where
  "UpdateEnemies_loop enemyAssets rs numPlayers dt i players g snds =
     (if int i < activeEnemies g
      then
        if deathTimer (enemies g ! i) > 0
        then
          if deathTimer (enemies g ! i) - dt \<le> 0
          then UpdateEnemies_loop enemyAssets rs numPlayers dt i players
                 (RemoveDeadEnemy (int i)
                    (g\<lparr>enemies := (enemies g)
                         [i := (enemies g ! i)
                                 \<lparr>deathTimer := deathTimer (enemies g ! i) - dt\<rparr>]\<rparr>))
                 snds
          else UpdateEnemies_loop enemyAssets rs numPlayers dt (i + 1) players
                 (g\<lparr>enemies := (enemies g)
                      [i := (enemies g ! i)
                              \<lparr>deathTimer := deathTimer (enemies g ! i) - dt,
                               currentAnimIndex := ANIM_HURT,
                               velocity := zero_Vector2\<rparr>]\<rparr>)
                 snds
        else if health (enemies g ! i) \<le> 0
        then UpdateEnemies_loop enemyAssets rs numPlayers dt (i + 1) players g snds
        else
          (case UpdateEnemy enemyAssets (rs i) g (enemies g ! i) players numPlayers
                  (int i) dt of
             (e', players', s) \<Rightarrow>
               UpdateEnemies_loop enemyAssets rs numPlayers dt (i + 1) players'
                 (g\<lparr>enemies := (enemies g)[i := e']\<rparr>) (snds @ s))
      else (players, g, snds))"
  by pat_completeness auto
termination
  by (relation "measure (\<lambda>(ea, rs, numPlayers, dt, i, players, g, snds).
                           nat (activeEnemies g - int i))")
     (auto simp add: RemoveDeadEnemy_def Let_def)

declare UpdateEnemies_loop.simps [simp del]

text \<open>\<open>UpdateEnemies\<close>; \<open>players\<close> is a pointer.\<close>

definition UpdateEnemies ::
  "EnemyAssets \<Rightarrow> (nat \<Rightarrow> real) \<Rightarrow> Entity list option \<Rightarrow> int \<Rightarrow> real \<Rightarrow> Globals
     \<Rightarrow> Entity list option \<times> Globals \<times> Sound list" where
  "UpdateEnemies enemyAssets rs players numPlayers dt g =
     (case players of
        None \<Rightarrow> (None, g, [])
      | Some ps \<Rightarrow>
          (case UpdateEnemies_loop enemyAssets rs numPlayers dt 0 ps g [] of
             (ps', g', s) \<Rightarrow> (Some ps', g', s)))"

section \<open>The calls of the game loop\<close>

text \<open>
  The functions through which \<open>main\<close> changes the players and the registry: level
  initialisation, the level director, the player update (on \<open>players[0]\<close>, or on
  \<open>players[1]\<close> with \<open>isPlayer2\<close>) and the enemy update; and the removal of an enemy, which
  the enemy update calls.  The state of a run is the array of the two players and the
  globals.  A run stops with \<open>None\<close> at a player update that reads the registry outside
  its slots.
\<close>

datatype GameOp =
    OpInitLevel int Allocation int
  | OpUpdateLevel int real real
  | OpRemoveDeadEnemy int
  | OpUpdatePlayer Keyboard bool real
  | OpUpdateEnemies "nat \<Rightarrow> real" int real

definition player_slot :: "bool \<Rightarrow> nat" where
  "player_slot isPlayer2 = (if isPlayer2 then 1 else 0)"

fun apply_GameOp ::
  "EnemyAssets \<Rightarrow> PlayerAssets \<Rightarrow> GameOp \<Rightarrow> Entity list \<times> Globals
     \<Rightarrow> (Entity list \<times> Globals) option" where
  "apply_GameOp ea pa (OpInitLevel tilesetWidth alloc stage) (ps, g) =
     Some (ps, snd (InitLevel ea tilesetWidth alloc stage g))"
| "apply_GameOp ea pa (OpUpdateLevel randomValue dt playerLeadX) (ps, g) =
     Some (ps, UpdateLevel ea randomValue dt playerLeadX g)"
| "apply_GameOp ea pa (OpRemoveDeadEnemy index) (ps, g) =
     Some (ps, RemoveDeadEnemy index g)"
| "apply_GameOp ea pa (OpUpdatePlayer kb isPlayer2 dt) (ps, g) =
     (case UpdatePlayer kb pa (ps ! player_slot isPlayer2) g dt isPlayer2 of
        None \<Rightarrow> None
      | Some (p', g', s) \<Rightarrow> Some (ps[player_slot isPlayer2 := p'], g'))"
| "apply_GameOp ea pa (OpUpdateEnemies rs numPlayers dt) (ps, g) =
     (case UpdateEnemies ea rs (Some ps) numPlayers dt g of
        (ps', g', s) \<Rightarrow> Some (the ps', g'))"

fun run_GameOps ::
  "EnemyAssets \<Rightarrow> PlayerAssets \<Rightarrow> GameOp list \<Rightarrow> Entity list \<times> Globals
     \<Rightarrow> (Entity list \<times> Globals) option" where
  "run_GameOps ea pa [] st = Some st"
| "run_GameOps ea pa (op # ops) st =
     (case apply_GameOp ea pa op st of
        None \<Rightarrow> None
      | Some st' \<Rightarrow> run_GameOps ea pa ops st')"


text \<open>
  A slot is initialised when a spawn has written it.  \<open>InitEnemy\<close> stores the capacity
  \<open>maxHealth\<close> (\<open>ENEMY_MAX_HEALTH\<close>, or the health of the boss of the stage) and a health
  within it; a slot that no spawn has written since the registry was cleared holds the
  zeroed structure, whose capacity is 0.
\<close>

definition occupied_slot :: "Entity \<Rightarrow> bool" where
  "occupied_slot e \<longleftrightarrow> 0 < maxHealth e \<and> 0 \<le> health e \<and> health e \<le> maxHealth e"

definition registry_dense :: "Globals \<Rightarrow> bool" where
  "registry_dense g \<longleftrightarrow>
     0 \<le> activeEnemies g \<and> activeEnemies g \<le> MAX_ENEMIES \<and>
     length (enemies g) = nat MAX_ENEMIES \<and>
     (\<forall>i. 0 \<le> i \<and> i < activeEnemies g \<longrightarrow> occupied_slot (enemies g ! nat i))"

text \<open>The stage definition in use is \<open>NULL\<close> or an entry of \<open>STAGE_DEFS\<close>, and the boss flag
  of the level is the flag of that entry.\<close>

definition stage_selected :: "Globals \<Rightarrow> bool" where
  "stage_selected g \<longleftrightarrow>
     (case currentStageDef g of
        None \<Rightarrow> \<not> stageHasBoss g
      | Some def \<Rightarrow> def \<in> set STAGE_DEFS \<and> stageHasBoss g = hasBoss def)"

text \<open>The globals \<open>g'\<close> keep what \<open>g\<close> holds: the stage and the count are the same, the
  array has the same length, and a slot that is initialised in \<open>g\<close> is initialised in
  \<open>g'\<close>.\<close>

definition registry_kept :: "Globals \<Rightarrow> Globals \<Rightarrow> bool" where
  "registry_kept g g' \<longleftrightarrow>
     currentStageDef g' = currentStageDef g \<and> stageHasBoss g' = stageHasBoss g \<and>
     activeEnemies g' = activeEnemies g \<and> length (enemies g') = length (enemies g) \<and>
     (\<forall>k. occupied_slot (enemies g ! k) \<longrightarrow> occupied_slot (enemies g' ! k))"

text \<open>The state of a run is well formed: two players whose grab reference is \<open>-1\<close> or an
  index from 0 on, a dense registry, a selected stage.\<close>

definition game_state_ok :: "Entity list \<times> Globals \<Rightarrow> bool" where
  "game_state_ok st \<longleftrightarrow>
     length (fst st) = 2 \<and> (\<forall>p \<in> set (fst st). - 1 \<le> grabbedEnemyIndex p) \<and>
     registry_dense (snd st) \<and> stage_selected (snd st)"

section \<open>Example states of a player tick\<close>

text \<open>The step of the game loop, \<open>const float fixedDt = 1.0f / 60.0f\<close>: the single-precision
  quotient is \<open>8947849 / 2^29\<close>, a little more than a sixtieth.\<close>

definition fixedDt_single :: real where
  "fixedDt_single = 8947849 / 536870912"

text \<open>A player who has just taken an enemy's punch.\<close>

definition example_hit_player :: Entity where
  "example_hit_player =
     the (fst (DamageEntity
                 (Some (InitPlayer playerAssets_loaded \<lparr>vec_x = 100, vec_y = 401\<rparr>))
                 (Some (InitEnemy enemyAssets_loaded \<lparr>vec_x = 140, vec_y = 401\<rparr>))
                 ENEMY_DAMAGE False))"

text \<open>The two players as \<open>InitializeGameState\<close> places them, and the same with the first
  player holding the enemy of slot 0.\<close>

definition example_players :: "Entity list" where
  "example_players =
     [InitPlayer playerAssets_loaded \<lparr>vec_x = 100, vec_y = 401\<rparr>,
      InitPlayer playerAssets_loaded \<lparr>vec_x = 150, vec_y = 401\<rparr>]"


text \<open>The first stage with the first enemy of its initial wave killed by a hit of the
  second player: the health of the enemy is 0 and its death timer has been started.\<close>

definition example_stage_enemy_killed :: Globals where
  "example_stage_enemy_killed =
     example_stage
       \<lparr>enemies := (enemies example_stage)
          [0 := the (fst (DamageEntity (Some (enemies example_stage ! 0))
                            (Some (example_players ! 1)) 50 True))]\<rparr>"

section \<open>Verified properties\<close>

subsection \<open>Clamping\<close>

lemma SafeClamp_range: "lo \<le> hi \<Longrightarrow> lo \<le> SafeClamp v lo hi \<and> SafeClamp v lo hi \<le> hi"
  by (simp add: SafeClamp_def)

subsection \<open>Damage application\<close>

text \<open>The death cue of \<open>DamageEntity\<close> sits behind the same test as the block that starts
  the death timer, but after it: once that block has stored \<open>DEATH_TIME\<close> the test can no
  longer succeed, and when the block did not run the test fails as it did before.\<close>

lemma DamageEntity_cues_empty: "snd (DamageEntity target attacker dmg ip) = []"
proof (cases target)
  case None
  then show ?thesis by (simp add: DamageEntity_def)
next
  case (Some t)
  show ?thesis
  proof (cases attacker)
    case None
    with Some show ?thesis by (simp add: DamageEntity_def)
  next
    case (Some a)
    with \<open>target = Some t\<close> show ?thesis
      by (auto simp add: DamageEntity_def ApplyKnockback_def Let_def)
  qed
qed

text \<open>
  Claim C1 (the scenario of the specification): an enemy with 10 health is hit once for 15
  by the human player.  The call clamps the health to 0, starts the death timer, enters
  the Dead state, zeroes the vertical velocity and forces grounded, but the list of audio
  cues fired by the call is empty: the death cue is not fired.
\<close>

theorem DamageEntity_death_scenario_no_cue:
  "DamageEntity
     (Some ((InitEnemy enemyAssets_loaded \<lparr>vec_x = 300, vec_y = 401\<rparr>)\<lparr>health := 10\<rparr>))
     (Some (InitPlayer playerAssets_loaded \<lparr>vec_x = 100, vec_y = 401\<rparr>)) 15 True
   = (Some ((InitEnemy enemyAssets_loaded \<lparr>vec_x = 300, vec_y = 401\<rparr>)
            \<lparr>health := 0, attackCooldown := 8 / 10,
             currentAnimIndex := ANIM_HURT, state := ENTITY_STATE_DEAD,
             velocity := \<lparr>vec_x = 200, vec_y = 0\<rparr>,
             aiState := AI_STATE_RETREAT, aiTimer := ENEMY_RETREAT_TIME, wasHurt := True,
             deathTimer := DEATH_TIME\<rparr>),
      [])"
  by (simp add: DamageEntity_def Let_def InitEnemy_def InitPlayer_def zero_Entity_def
        zero_Vector2_def SafeClamp_def wrap_int32_def ApplyKnockback_def SafeClampFloat_def
        ENEMY_ATTACK_PUNCH_PROFILE_def)

text \<open>
  Claim C2: a target with \<open>0 \<le> health \<le> maxHealth\<close> and \<open>maxHealth > 0\<close> still satisfies
  the invariant after \<open>DamageEntity\<close>, for every damage amount, every attacker (also a
  \<open>NULL\<close> one) and either kind of attacker; \<open>maxHealth\<close> itself is not changed.
\<close>

theorem DamageEntity_health_invariant:
  assumes "0 \<le> health t" and "health t \<le> maxHealth t" and "0 < maxHealth t"
  shows "\<exists>t'. fst (DamageEntity (Some t) attacker dmg ip) = Some t' \<and>
           0 \<le> health t' \<and> health t' \<le> maxHealth t' \<and> maxHealth t' = maxHealth t"
proof (cases attacker)
  case None
  with assms show ?thesis by (simp add: DamageEntity_def)
next
  case (Some a)
  with assms show ?thesis
    by (auto simp add: DamageEntity_def ApplyKnockback_def Let_def SafeClamp_def)
qed

theorem DamageEntity_health_invariant_witness:
  "\<exists>t'. fst (DamageEntity
             (Some ((InitEnemy enemyAssets_loaded \<lparr>vec_x = 300, vec_y = 401\<rparr>)\<lparr>health := 10\<rparr>))
             (Some (InitPlayer playerAssets_loaded \<lparr>vec_x = 100, vec_y = 401\<rparr>)) 15 True)
          = Some t' \<and> 0 \<le> health t' \<and> health t' \<le> maxHealth t' \<and> maxHealth t' = 50"
  using DamageEntity_health_invariant
    [of "(InitEnemy enemyAssets_loaded \<lparr>vec_x = 300, vec_y = 401\<rparr>)\<lparr>health := 10\<rparr>"
        "Some (InitPlayer playerAssets_loaded \<lparr>vec_x = 100, vec_y = 401\<rparr>)" 15 True]
  by (simp add: InitEnemy_def zero_Entity_def)

text \<open>
  Claim C4, as the code has it.  A hit of positive damage by the human player forces the
  target into the retreat disposition for \<open>ENEMY_RETREAT_TIME\<close> and marks it hurt.  Unless
  the hit starts the death timer (which zeroes the stun), the target is stunned for
  \<open>ENEMY_STUN_TIME\<close>, a player hit by an enemy is stunned for \<open>PLAYER_STUN_TIME\<close>, and the
  enemy's stun is the longer of the two.
\<close>

theorem DamageEntity_player_attacker_retreat_longer_stun:
  assumes "0 < dmg"
  shows "(\<exists>t'. fst (DamageEntity (Some t) (Some a) dmg True) = Some t' \<and>
            aiState t' = AI_STATE_RETREAT \<and> aiTimer t' = ENEMY_RETREAT_TIME \<and> wasHurt t' \<and>
            stunTimer t' = (if health t' \<le> 0 \<and> deathTimer t = 0 then 0 else ENEMY_STUN_TIME))
       \<and> (\<exists>p'. fst (DamageEntity (Some p) (Some e) dmg False) = Some p' \<and>
            stunTimer p' = (if health p' \<le> 0 \<and> deathTimer p = 0 then 0 else PLAYER_STUN_TIME))
       \<and> PLAYER_STUN_TIME < ENEMY_STUN_TIME"
proof -
  have enemy: "\<exists>t'. fst (DamageEntity (Some t) (Some a) dmg True) = Some t' \<and>
            aiState t' = AI_STATE_RETREAT \<and> aiTimer t' = ENEMY_RETREAT_TIME \<and> wasHurt t' \<and>
            stunTimer t' = (if health t' \<le> 0 \<and> deathTimer t = 0 then 0 else ENEMY_STUN_TIME)"
    using assms by (auto simp add: DamageEntity_def ApplyKnockback_def Let_def)
  have player: "\<exists>p'. fst (DamageEntity (Some p) (Some e) dmg False) = Some p' \<and>
            stunTimer p' = (if health p' \<le> 0 \<and> deathTimer p = 0 then 0 else PLAYER_STUN_TIME)"
    using assms by (auto simp add: DamageEntity_def ApplyKnockback_def Let_def)
  from enemy player show ?thesis by simp
qed

theorem DamageEntity_player_attacker_retreat_longer_stun_witness:
  "(0::int) < 15 \<and>
   (\<exists>t'. fst (DamageEntity
              (Some (InitEnemy enemyAssets_loaded \<lparr>vec_x = 300, vec_y = 401\<rparr>))
              (Some (InitPlayer playerAssets_loaded \<lparr>vec_x = 100, vec_y = 401\<rparr>)) 15 True)
           = Some t' \<and> aiState t' = AI_STATE_RETREAT \<and> aiTimer t' = ENEMY_RETREAT_TIME \<and>
         wasHurt t' \<and> health t' = 35 \<and> stunTimer t' = ENEMY_STUN_TIME)"
proof -
  have "(0::int) < 15" by simp
  from DamageEntity_player_attacker_retreat_longer_stun [OF this,
      of "InitEnemy enemyAssets_loaded \<lparr>vec_x = 300, vec_y = 401\<rparr>"
         "InitPlayer playerAssets_loaded \<lparr>vec_x = 100, vec_y = 401\<rparr>"]
  obtain t' where t': "fst (DamageEntity
              (Some (InitEnemy enemyAssets_loaded \<lparr>vec_x = 300, vec_y = 401\<rparr>))
              (Some (InitPlayer playerAssets_loaded \<lparr>vec_x = 100, vec_y = 401\<rparr>)) 15 True)
           = Some t'"
      and r: "aiState t' = AI_STATE_RETREAT" "aiTimer t' = ENEMY_RETREAT_TIME" "wasHurt t'"
      and s: "stunTimer t' = (if health t' \<le> 0 \<and>
                 deathTimer (InitEnemy enemyAssets_loaded \<lparr>vec_x = 300, vec_y = 401\<rparr>) = 0
               then 0 else ENEMY_STUN_TIME)"
    by blast
  have h: "health t' = 35"
    using t' by (auto simp add: DamageEntity_def Let_def InitEnemy_def InitPlayer_def
        zero_Entity_def SafeClamp_def wrap_int32_def ApplyKnockback_def)
  with t' r s show ?thesis by auto
qed

text \<open>Claim C4 as stated fails: the enemy hit by the player is stunned for 0.45 s, the
  player hit by the enemy for 0.35 s, so the enemy's stun is not the shorter one.\<close>

theorem DamageEntity_enemy_stun_not_shorter:
  "\<not> stunTimer (the (fst (DamageEntity
            (Some (InitEnemy enemyAssets_loaded \<lparr>vec_x = 300, vec_y = 401\<rparr>))
            (Some (InitPlayer playerAssets_loaded \<lparr>vec_x = 100, vec_y = 401\<rparr>)) 15 True)))
     < stunTimer (the (fst (DamageEntity
            (Some (InitPlayer playerAssets_loaded \<lparr>vec_x = 100, vec_y = 401\<rparr>))
            (Some (InitEnemy enemyAssets_loaded \<lparr>vec_x = 300, vec_y = 401\<rparr>)) 10 False)))"
  by (simp add: DamageEntity_def Let_def InitEnemy_def InitPlayer_def zero_Entity_def
        zero_Vector2_def SafeClamp_def wrap_int32_def ApplyKnockback_def SafeClampFloat_def
        ENEMY_ATTACK_PUNCH_PROFILE_def)

subsection \<open>Alive count and stage clearance\<close>

lemma GetAliveEnemiesCount_loop_filter:
  assumes "0 \<le> i" and "activeEnemies g \<le> int (length (enemies g))"
  shows "GetAliveEnemiesCount_loop g i alive =
         alive + int (length (filter (\<lambda>e. health e > 0 \<and> deathTimer e \<le> 0)
                                (drop (nat i) (take (nat (activeEnemies g)) (enemies g)))))"
  using assms
proof (induction "nat (activeEnemies g - i)" arbitrary: i alive)
  case 0
  then have "\<not> i < activeEnemies g" by simp
  then show ?case
    by (subst GetAliveEnemiesCount_loop.simps) simp
next
  case (Suc n)
  then have lt: "i < activeEnemies g" and n: "n = nat (activeEnemies g - (i + 1))"
    by linarith+
  from lt Suc.prems have len: "nat i < length (take (nat (activeEnemies g)) (enemies g))"
    by simp
  have dr: "drop (nat i) (take (nat (activeEnemies g)) (enemies g)) =
        enemies g ! nat i # drop (nat (i + 1)) (take (nat (activeEnemies g)) (enemies g))"
    using Cons_nth_drop_Suc [OF len] lt Suc.prems
    by (simp add: nat_add_distrib)
  have "GetAliveEnemiesCount_loop g i alive =
        GetAliveEnemiesCount_loop g (i + 1)
          (if health (enemies g ! nat i) > 0 \<and> deathTimer (enemies g ! nat i) \<le> 0
           then alive + 1 else alive)"
    using lt by (subst GetAliveEnemiesCount_loop.simps) simp
  also have "\<dots> = (if health (enemies g ! nat i) > 0 \<and> deathTimer (enemies g ! nat i) \<le> 0
           then alive + 1 else alive)
        + int (length (filter (\<lambda>e. health e > 0 \<and> deathTimer e \<le> 0)
            (drop (nat (i + 1)) (take (nat (activeEnemies g)) (enemies g)))))"
    using Suc.hyps(1) [OF n] Suc.prems by simp
  finally show ?case by (simp add: dr)
qed

text \<open>
  Claim C10.  \<open>GetAliveEnemiesCount\<close> is the number of active registry entries with
  \<open>health > 0\<close> and \<open>deathTimer \<le> 0\<close>.  Hence when every active entry is in its dying
  hold (health 0, death timer running) the count is 0, and a stage without boss and
  without spawn quota left is reported cleared although the registry is not empty.
\<close>

theorem GetAliveEnemiesCount_excludes_dying:
  assumes "activeEnemies g \<le> int (length (enemies g))"
  shows "GetAliveEnemiesCount g =
           int (length (filter (\<lambda>e. health e > 0 \<and> deathTimer e \<le> 0)
                          (take (nat (activeEnemies g)) (enemies g))))
       \<and> ((\<forall>e \<in> set (take (nat (activeEnemies g)) (enemies g)).
               health e = 0 \<and> deathTimer e > 0)
            \<and> 0 < activeEnemies g \<and> enemiesRemainingToSpawn g \<le> 0 \<and> \<not> stageHasBoss g
          \<longrightarrow> GetAliveEnemiesCount g = 0 \<and> LevelIsCleared g)"
proof -
  have c: "GetAliveEnemiesCount g =
           int (length (filter (\<lambda>e. health e > 0 \<and> deathTimer e \<le> 0)
                          (take (nat (activeEnemies g)) (enemies g))))"
    using GetAliveEnemiesCount_loop_filter [of 0 g 0] assms
    by (simp add: GetAliveEnemiesCount_def)
  have "filter (\<lambda>e. health e > 0 \<and> deathTimer e \<le> 0)
          (take (nat (activeEnemies g)) (enemies g)) = []"
    if "\<forall>e \<in> set (take (nat (activeEnemies g)) (enemies g)). health e = 0 \<and> deathTimer e > 0"
    using that by (simp add: filter_empty_conv)
  with c show ?thesis
    by (simp add: LevelIsCleared_def LevelHasActiveBoss_def)
qed

theorem GetAliveEnemiesCount_excludes_dying_witness:
  "activeEnemies (initial_Globals
       \<lparr>enemies := (enemies initial_Globals)
          [0 := (InitEnemy enemyAssets_loaded \<lparr>vec_x = 300, vec_y = 401\<rparr>)
                  \<lparr>health := 0, deathTimer := DEATH_TIME\<rparr>],
        activeEnemies := 1\<rparr>) \<le> int (length (enemies (initial_Globals
       \<lparr>enemies := (enemies initial_Globals)
          [0 := (InitEnemy enemyAssets_loaded \<lparr>vec_x = 300, vec_y = 401\<rparr>)
                  \<lparr>health := 0, deathTimer := DEATH_TIME\<rparr>],
        activeEnemies := 1\<rparr>)))
   \<and> GetAliveEnemiesCount (initial_Globals
       \<lparr>enemies := (enemies initial_Globals)
          [0 := (InitEnemy enemyAssets_loaded \<lparr>vec_x = 300, vec_y = 401\<rparr>)
                  \<lparr>health := 0, deathTimer := DEATH_TIME\<rparr>],
        activeEnemies := 1\<rparr>) = 0
   \<and> LevelIsCleared (initial_Globals
       \<lparr>enemies := (enemies initial_Globals)
          [0 := (InitEnemy enemyAssets_loaded \<lparr>vec_x = 300, vec_y = 401\<rparr>)
                  \<lparr>health := 0, deathTimer := DEATH_TIME\<rparr>],
        activeEnemies := 1\<rparr>)"
  using GetAliveEnemiesCount_excludes_dying [of "initial_Globals
       \<lparr>enemies := (enemies initial_Globals)
          [0 := (InitEnemy enemyAssets_loaded \<lparr>vec_x = 300, vec_y = 401\<rparr>)
                  \<lparr>health := 0, deathTimer := DEATH_TIME\<rparr>],
        activeEnemies := 1\<rparr>"]
  by (simp add: initial_Globals_def eval_nat_numeral)

subsection \<open>Boss tuning of the enemy AI\<close>

lemma select_target_single:
  "select_target e [p] 1 0 m None =
     (if health p \<le> 0 then (m, None)
      else if \<bar>vec_x (position p) - vec_x (position e)\<bar> < m
      then (\<bar>vec_x (position p) - vec_x (position e)\<bar>, Some 0) else (m, None))"
  by (simp add: select_target.simps [of e "[p]" 1 0] select_target.simps [of e "[p]" 1 1] Let_def)

text \<open>
  Claim C8 at a boss of the third stage at full health (160 of 160), chasing, with the
  only living player 220 pixels away.  The boss adjustments give it a sight distance of
  240, so the player is within the enlarged sight range; but the target selection admits
  only players nearer than \<open>ENEMY_SIGHT_DIST + 1 = 201\<close>, no target is selected, and the
  boss is forced to Idle with zero horizontal velocity.
\<close>

theorem ProcessEnemyAI_boss_drops_target_within_sight:
  "fst (boss_adjustments (health example_boss > ENEMY_MAX_HEALTH)) = 240 \<and>
   \<bar>vec_x (position (InitPlayer playerAssets_loaded \<lparr>vec_x = 1640, vec_y = 401\<rparr>))
      - vec_x (position example_boss)\<bar> = 220 \<and>
   ProcessEnemyAI r (Some (example_boss\<lparr>aiState := AI_STATE_CHASE\<rparr>))
     (Some [InitPlayer playerAssets_loaded \<lparr>vec_x = 1640, vec_y = 401\<rparr>]) 1 (1 / 60)
   = (Some (example_boss\<lparr>aiState := AI_STATE_IDLE, currentAnimIndex := ANIM_IDLE,
                         state := ENTITY_STATE_IDLE\<rparr>), [])"
  by (simp add: ProcessEnemyAI_def select_target_single boss_adjustments_def example_boss_def
        InitEnemy_def InitPlayer_def zero_Entity_def zero_Vector2_def)

text \<open>The second departure: the boss test reads the current \<open>health\<close>, not \<open>maxHealth\<close>.
  The same boss worn down to 50 health, 80 pixels from the player (inside the boss attack
  range of 90), is handled with the standard values: it closes in at the standard
  positioning speed of 80.\<close>

lemma ProcessEnemyAI_damaged_boss_uses_standard_tuning:
  "ProcessEnemyAI r (Some (example_boss\<lparr>health := 50, aiState := AI_STATE_CHASE\<rparr>))
     (Some [InitPlayer playerAssets_loaded \<lparr>vec_x = 1780, vec_y = 401\<rparr>]) 1 (1 / 60)
   = (Some (example_boss\<lparr>health := 50, aiState := AI_STATE_CHASE,
              currentAnimIndex := ANIM_WALK, state := ENTITY_STATE_MOVE,
              velocity := \<lparr>vec_x = - 80, vec_y = 0\<rparr>\<rparr>), [])"
  by (simp add: ProcessEnemyAI_def select_target_single boss_adjustments_def example_boss_def
        ai_case_chase_def Let_def
        InitEnemy_def InitPlayer_def zero_Entity_def zero_Vector2_def)

subsection \<open>Hit detection\<close>

lemma DamageEntity_Some:
  "\<exists>t'. DamageEntity (Some t) (Some a) dmg ip = (Some t', [])"
proof -
  have "snd (DamageEntity (Some t) (Some a) dmg ip) = []"
    by (rule DamageEntity_cues_empty)
  moreover have "\<exists>t'. fst (DamageEntity (Some t) (Some a) dmg ip) = Some t'"
    by (simp add: DamageEntity_def Let_def)
  ultimately show ?thesis
    by (cases "DamageEntity (Some t) (Some a) dmg ip") auto
qed

lemma first_enemy_hit_None:
  assumes "\<And>k. i \<le> k \<Longrightarrow> k < activeEnemies g \<Longrightarrow>
             \<not> (health (enemies g ! nat k) > 0
                \<and> CheckCollisionRecs ah (hitbox (enemies g ! nat k)))"
  shows "first_enemy_hit g ah i = None"
  using assms
proof (induction "nat (activeEnemies g - i)" arbitrary: i)
  case 0
  then have "\<not> i < activeEnemies g" by simp
  then show ?case by (subst first_enemy_hit.simps) simp
next
  case (Suc n)
  then have lt: "i < activeEnemies g" and n: "n = nat (activeEnemies g - (i + 1))"
    by linarith+
  have "first_enemy_hit g ah (i + 1) = None"
    using Suc.hyps(1) [OF n] Suc.prems by simp
  with lt Suc.prems [of i] show ?case
    by (subst first_enemy_hit.simps) auto
qed

lemma first_enemy_hit_Some:
  assumes "i \<le> k" and "k < activeEnemies g"
    and "health (enemies g ! nat k) > 0"
    and "CheckCollisionRecs ah (hitbox (enemies g ! nat k))"
  shows "\<exists>m. first_enemy_hit g ah i = Some m \<and> i \<le> m \<and> m \<le> k"
  using assms
proof (induction "nat (k - i)" arbitrary: i)
  case 0
  then have "i = k" by simp
  with 0 show ?case by (subst first_enemy_hit.simps) simp
next
  case (Suc n)
  then have lt: "i < k" and n: "n = nat (k - (i + 1))" by linarith+
  show ?case
  proof (cases "health (enemies g ! nat i) > 0
                \<and> CheckCollisionRecs ah (hitbox (enemies g ! nat i))")
    case True
    with lt Suc.prems show ?thesis by (subst first_enemy_hit.simps) simp
  next
    case False
    from Suc.hyps(1) [OF n] Suc.prems lt
    obtain m where "first_enemy_hit g ah (i + 1) = Some m" "i + 1 \<le> m" "m \<le> k"
      by auto
    with False lt Suc.prems show ?thesis
      by (subst first_enemy_hit.simps) auto
  qed
qed

lemma first_enemy_hit_is_first:
  "first_enemy_hit g ah i = Some m \<Longrightarrow>
   i \<le> m \<and> m < activeEnemies g \<and> health (enemies g ! nat m) > 0 \<and>
   CheckCollisionRecs ah (hitbox (enemies g ! nat m)) \<and>
   (\<forall>k. i \<le> k \<and> k < m \<longrightarrow>
      \<not> (health (enemies g ! nat k) > 0 \<and> CheckCollisionRecs ah (hitbox (enemies g ! nat k))))"
proof (induction "nat (activeEnemies g - i)" arbitrary: i)
  case 0
  then have "\<not> i < activeEnemies g" by simp
  then have "first_enemy_hit g ah i = None" by (subst first_enemy_hit.simps) simp
  with 0 show ?case by simp
next
  case (Suc n)
  then have lt: "i < activeEnemies g" and n: "n = nat (activeEnemies g - (i + 1))"
    by linarith+
  show ?case
  proof (cases "health (enemies g ! nat i) > 0
                \<and> CheckCollisionRecs ah (hitbox (enemies g ! nat i))")
    case True
    with lt have "first_enemy_hit g ah i = Some i" by (subst first_enemy_hit.simps) simp
    with Suc.prems True lt show ?thesis by auto
  next
    case False
    with lt have "first_enemy_hit g ah i = first_enemy_hit g ah (i + 1)"
      by (subst first_enemy_hit.simps) auto
    with Suc.prems have s: "first_enemy_hit g ah (i + 1) = Some m" by simp
    from Suc.hyps(1) [OF n s]
    have ih: "i + 1 \<le> m" "m < activeEnemies g" "health (enemies g ! nat m) > 0"
      "CheckCollisionRecs ah (hitbox (enemies g ! nat m))"
      "\<And>k. i + 1 \<le> k \<Longrightarrow> k < m \<Longrightarrow>
         \<not> (health (enemies g ! nat k) > 0
            \<and> CheckCollisionRecs ah (hitbox (enemies g ! nat k)))"
      by blast+
    have "\<not> (health (enemies g ! nat k) > 0
            \<and> CheckCollisionRecs ah (hitbox (enemies g ! nat k)))"
      if "i \<le> k" "k < m" for k
    proof (cases "k = i")
      case True
      with False show ?thesis by simp
    next
      case False
      with that have "i + 1 \<le> k" by simp
      from ih(5) [OF this that(2)] show ?thesis .
    qed
    with ih show ?thesis by auto
  qed
qed

lemma PlayerHitDetection_has_hit:
  "attackHasHit p \<Longrightarrow> PlayerHitDetection p g = (p, g, [], None)"
  by (simp add: PlayerHitDetection_def)

lemma PlayerHitDetection_cases:
  "(PlayerHitDetection p g = (p, g, [], None)) \<or>
   (\<exists>i t. PlayerHitDetection p g =
            (p\<lparr>attackHasHit := True\<rparr>, g\<lparr>enemies := (enemies g)[nat i := t]\<rparr>, [], Some i))"
proof (cases "first_enemy_hit g (ComputeAttackHitbox p) 0")
  case None
  then show ?thesis
    by (simp add: PlayerHitDetection_def Let_def split: prod.splits)
next
  case (Some i)
  from DamageEntity_Some [of "enemies g ! nat i" p "attackDamage p" True]
  obtain t where "DamageEntity (Some (enemies g ! nat i)) (Some p) (attackDamage p) True
                  = (Some t, [])" ..
  with Some show ?thesis
    by (auto simp add: PlayerHitDetection_def Let_def split: prod.splits)
qed

lemma PlayerHitDetection_out_of_window:
  "\<not> (fst (hit_window p) \<le> currentFrame (anim p) \<and> currentFrame (anim p) \<le> snd (hit_window p))
   \<Longrightarrow> PlayerHitDetection p g = (p, g, [], None)"
  by (auto simp add: PlayerHitDetection_def Let_def split: prod.splits)

lemma PlayerHitDetection_hits_first:
  assumes "isAttacking p" "\<not> attackHasHit p" "attackDamage p > 0" "totalFrames (anim p) > 0"
    and "fst (hit_window p) \<le> currentFrame (anim p)"
    and "currentFrame (anim p) \<le> snd (hit_window p)"
    and "0 \<le> k" "k < activeEnemies g" "health (enemies g ! nat k) > 0"
    and "CheckCollisionRecs (ComputeAttackHitbox p) (hitbox (enemies g ! nat k))"
  shows "\<exists>i t. PlayerHitDetection p g =
            (p\<lparr>attackHasHit := True\<rparr>, g\<lparr>enemies := (enemies g)[nat i := t]\<rparr>, [], Some i)
          \<and> first_enemy_hit g (ComputeAttackHitbox p) 0 = Some i
          \<and> DamageEntity (Some (enemies g ! nat i)) (Some p) (attackDamage p) True
              = (Some t, [])"
proof -
  from first_enemy_hit_Some [OF assms(7-10)]
  obtain i where i: "first_enemy_hit g (ComputeAttackHitbox p) 0 = Some i" by blast
  from DamageEntity_Some [of "enemies g ! nat i" p "attackDamage p" True]
  obtain t where t: "DamageEntity (Some (enemies g ! nat i)) (Some p) (attackDamage p) True
                  = (Some t, [])" ..
  from assms(1-6) i t show ?thesis
    by (auto simp add: PlayerHitDetection_def Let_def split: prod.splits)
qed

lemma first_player_hit_Some:
  assumes "j \<le> k" and "k < n"
    and "health (ps ! nat k) > 0"
    and "CheckCollisionRecs ah (hitbox (ps ! nat k))"
  shows "\<exists>m. first_player_hit ps n ah j = Some m \<and> j \<le> m \<and> m \<le> k"
  using assms
proof (induction "nat (k - j)" arbitrary: j)
  case 0
  then have "j = k" by simp
  with 0 show ?case by (subst first_player_hit.simps) simp
next
  case (Suc d)
  then have lt: "j < k" and d: "d = nat (k - (j + 1))" by linarith+
  show ?case
  proof (cases "health (ps ! nat j) > 0 \<and> CheckCollisionRecs ah (hitbox (ps ! nat j))")
    case True
    with lt Suc.prems show ?thesis by (subst first_player_hit.simps) simp
  next
    case False
    from Suc.hyps(1) [OF d] Suc.prems lt
    obtain m where "first_player_hit ps n ah (j + 1) = Some m" "j + 1 \<le> m" "m \<le> k"
      by auto
    with False lt Suc.prems show ?thesis
      by (subst first_player_hit.simps) auto
  qed
qed

lemma first_player_hit_is_first:
  "first_player_hit ps n ah j = Some m \<Longrightarrow>
   j \<le> m \<and> m < n \<and> health (ps ! nat m) > 0 \<and>
   CheckCollisionRecs ah (hitbox (ps ! nat m)) \<and>
   (\<forall>k. j \<le> k \<and> k < m \<longrightarrow>
      \<not> (health (ps ! nat k) > 0 \<and> CheckCollisionRecs ah (hitbox (ps ! nat k))))"
proof (induction "nat (n - j)" arbitrary: j)
  case 0
  then have "\<not> j < n" by simp
  then have "first_player_hit ps n ah j = None" by (subst first_player_hit.simps) simp
  with 0 show ?case by simp
next
  case (Suc d)
  then have lt: "j < n" and d: "d = nat (n - (j + 1))"
    by linarith+
  show ?case
  proof (cases "health (ps ! nat j) > 0 \<and> CheckCollisionRecs ah (hitbox (ps ! nat j))")
    case True
    with lt have "first_player_hit ps n ah j = Some j" by (subst first_player_hit.simps) simp
    with Suc.prems True lt show ?thesis by auto
  next
    case False
    with lt have "first_player_hit ps n ah j = first_player_hit ps n ah (j + 1)"
      by (subst first_player_hit.simps) auto
    with Suc.prems have s: "first_player_hit ps n ah (j + 1) = Some m" by simp
    from Suc.hyps(1) [OF d s]
    have ih: "j + 1 \<le> m" "m < n" "health (ps ! nat m) > 0"
      "CheckCollisionRecs ah (hitbox (ps ! nat m))"
      "\<And>k. j + 1 \<le> k \<Longrightarrow> k < m \<Longrightarrow>
         \<not> (health (ps ! nat k) > 0 \<and> CheckCollisionRecs ah (hitbox (ps ! nat k)))"
      by blast+
    have "\<not> (health (ps ! nat k) > 0 \<and> CheckCollisionRecs ah (hitbox (ps ! nat k)))"
      if "j \<le> k" "k < m" for k
    proof (cases "k = j")
      case True
      with False show ?thesis by simp
    next
      case False
      with that have "j + 1 \<le> k" by simp
      from ih(5) [OF this that(2)] show ?thesis .
    qed
    with ih show ?thesis by auto
  qed
qed

lemma ProcessEnemyAttack_has_hit:
  "attackHasHit e \<Longrightarrow>
   ProcessEnemyAttack ea (Some e) (Some ps) n = (Some e, Some ps, [], None)"
  by (simp add: ProcessEnemyAttack_def)

lemma ProcessEnemyAttack_window_cases:
  "(ProcessEnemyAttack_window e ps n = (Some e, Some ps, [], None)) \<or>
   (\<exists>j t. ProcessEnemyAttack_window e ps n =
            (Some (e\<lparr>attackHasHit := True\<rparr>), Some (ps[nat j := t]), [], Some j))"
proof (cases "first_player_hit ps n (ComputeAttackHitbox e) 0")
  case None
  then show ?thesis
    by (simp add: ProcessEnemyAttack_window_def Let_def split: prod.splits)
next
  case (Some j)
  from DamageEntity_Some [of "ps ! nat j" e "attackDamage e" False]
  obtain t where "DamageEntity (Some (ps ! nat j)) (Some e) (attackDamage e) False
                  = (Some t, [])" ..
  with Some show ?thesis
    by (auto simp add: ProcessEnemyAttack_window_def Let_def split: prod.splits)
qed

lemma ProcessEnemyAttack_cases:
  "(\<exists>e'. ProcessEnemyAttack ea (Some e) (Some ps) n = (Some e', Some ps, [], None)) \<or>
   (\<exists>e' j t. ProcessEnemyAttack ea (Some e) (Some ps) n =
            (Some (e'\<lparr>attackHasHit := True\<rparr>), Some (ps[nat j := t]), [], Some j))"
proof -
  define e1 where "e1 = (if totalFrames (anim e) \<le> 0
                    then e\<lparr>anim := (anim e)
                           \<lparr>totalFrames := (if ea_punch ea > 0 then ea_punch ea else 1)\<rparr>\<rparr>
                    else e)"
  have "ProcessEnemyAttack ea (Some e) (Some ps) n = (Some e, Some ps, [], None)
        \<or> ProcessEnemyAttack ea (Some e) (Some ps) n = ProcessEnemyAttack_window e1 ps n"
    unfolding e1_def by (simp add: ProcessEnemyAttack_def Let_def)
  with ProcessEnemyAttack_window_cases [of e1 ps n] show ?thesis
    by metis
qed

lemma ProcessEnemyAttack_out_of_window:
  "totalFrames (anim e) > 0 \<Longrightarrow>
   \<not> (fst (hit_window e) \<le> currentFrame (anim e) \<and> currentFrame (anim e) \<le> snd (hit_window e))
   \<Longrightarrow> ProcessEnemyAttack ea (Some e) (Some ps) n = (Some e, Some ps, [], None)"
  by (auto simp add: ProcessEnemyAttack_def ProcessEnemyAttack_window_def Let_def
        split: prod.splits)

lemma ProcessEnemyAttack_hits_first:
  assumes "isAttacking e" "\<not> attackHasHit e" "attackDamage e > 0" "totalFrames (anim e) > 0"
    and "fst (hit_window e) \<le> currentFrame (anim e)"
    and "currentFrame (anim e) \<le> snd (hit_window e)"
    and "0 \<le> k" "k < n" "health (ps ! nat k) > 0"
    and "CheckCollisionRecs (ComputeAttackHitbox e) (hitbox (ps ! nat k))"
  shows "\<exists>j t. ProcessEnemyAttack ea (Some e) (Some ps) n =
            (Some (e\<lparr>attackHasHit := True\<rparr>), Some (ps[nat j := t]), [], Some j)
          \<and> first_player_hit ps n (ComputeAttackHitbox e) 0 = Some j
          \<and> DamageEntity (Some (ps ! nat j)) (Some e) (attackDamage e) False = (Some t, [])"
proof -
  from first_player_hit_Some [OF assms(7-10)]
  obtain j where j: "first_player_hit ps n (ComputeAttackHitbox e) 0 = Some j" by blast
  from DamageEntity_Some [of "ps ! nat j" e "attackDamage e" False]
  obtain t where t: "DamageEntity (Some (ps ! nat j)) (Some e) (attackDamage e) False
                  = (Some t, [])" ..
  from assms(7,8) have "\<not> n \<le> 0" by simp
  with assms(1-6) j t show ?thesis
    by (auto simp add: ProcessEnemyAttack_def ProcessEnemyAttack_window_def Let_def
          split: prod.splits)
qed

subsection \<open>Collision resolution and the final hitbox\<close>

lemma WrapIndex_nonneg: "0 \<le> WrapIndex v m"
  by (auto simp add: WrapIndex_def Let_def)
     (smt (verit, best) Euclidean_Rings.pos_mod_bound)

lemma example_stage_level:
  "level_width (currentLevel example_stage) = 2000"
  "level_height (currentLevel example_stage) = 38"
  "tilesPerRow example_stage = 125"
  "numColliders (currentLevel example_stage) = 2"
  "colliders (currentLevel example_stage) =
     Some [\<lparr>rec_x = 420, rec_y = 400, rec_width = 48, rec_height = 48\<rparr>,
           \<lparr>rec_x = 920, rec_y = 412, rec_width = 80, rec_height = 36\<rparr>]"
  "tileMap (currentLevel example_stage) \<noteq> None"
  by (simp_all add: example_stage_def InitLevel_def InitLevel_reset_def Let_def STAGE_DEFS_def
      STAGE_COUNT_def ClearEnemies_def initial_Globals_def GenerateTileMap_def
      SetupColliders_def SpawnInitialWave_def ConsumeEnemySpawnQuota_def
      SpawnInitialWave_loop.simps LevelWidth_def ClampFloat_def
      float_to_int_def)

lemma example_stage_solid:
  "(the (tileMap (currentLevel example_stage)) i \<le> 0)
     = (\<not> (0 \<le> i \<and> 28 \<le> i div 125 \<and> i div 125 < 38))"
  using WrapIndex_nonneg [of "i mod 125" 7]
  by (simp add: example_stage_def InitLevel_def InitLevel_reset_def Let_def STAGE_DEFS_def
      STAGE_COUNT_def ClearEnemies_def initial_Globals_def GenerateTileMap_def
      SetupColliders_def SpawnInitialWave_def ConsumeEnemySpawnQuota_def
      SpawnInitialWave_loop.simps LevelWidth_def ClampFloat_def
      float_to_int_def TileIdFromAtlas_def TileAtlasColumns_def)

lemma example_stage_grid:
  "hasTileMap example_stage" "levelCols example_stage = 125" "levelRows example_stage = 38"
  using example_stage_level(6)
  by (simp_all add: hasTileMap_def levelCols_def levelRows_def LevelTileColumns_def
        LevelRowCount_def example_stage_level(1-5))

lemma example_standing_player_horizontal:
  "UpdatePhysics_horizontal example_stage (example_standing_player\<lparr>grounded := False\<rparr>) (1 / 60)
   = example_standing_player\<lparr>grounded := False\<rparr>"
proof -
  have t: "horizontal_tile_hit example_stage (example_standing_player\<lparr>grounded := False\<rparr>) (1 / 60)
           = None"
    by (simp add: horizontal_tile_hit_def example_stage_grid Let_def example_standing_player_def
          InitPlayer_def zero_Entity_def zero_Vector2_def entity_width_def entity_height_def
          entity_scale_def float_to_int_def SafeClamp_def horizontal_temp_hitbox_def
          scan_tiles.simps scan_tile_row.simps example_stage_solid CheckCollisionRecs_def
          tile_rect_def)
  have c: "horizontal_collider_hit example_stage (example_standing_player\<lparr>grounded := False\<rparr>)
             (1 / 60) = None"
    by (simp add: horizontal_collider_hit_def example_stage_level Let_def
          example_standing_player_def
          InitPlayer_def zero_Entity_def zero_Vector2_def entity_width_def entity_height_def
          entity_scale_def horizontal_temp_hitbox_def
          scan_colliders.simps CheckCollisionRecs_def)
  have "UpdatePhysics_horizontal example_stage (example_standing_player\<lparr>grounded := False\<rparr>)
          (1 / 60)
        = (example_standing_player\<lparr>grounded := False\<rparr>)
            \<lparr>position := (position (example_standing_player\<lparr>grounded := False\<rparr>))
              \<lparr>vec_x := vec_x (position (example_standing_player\<lparr>grounded := False\<rparr>))
                 + vec_x (velocity (example_standing_player\<lparr>grounded := False\<rparr>)) * (1 / 60)\<rparr>\<rparr>"
    by (simp only: UpdatePhysics_horizontal_def t c Let_def option.case prod.case if_False)
  also have "\<dots> = example_standing_player\<lparr>grounded := False\<rparr>"
    by (simp add: example_standing_player_def InitPlayer_def zero_Entity_def zero_Vector2_def)
  finally show ?thesis .
qed

lemma example_standing_player_vertical_tile:
  "vertical_tile_hit example_stage
     (apply_gravity (example_standing_player\<lparr>grounded := False\<rparr>) (1 / 60)) (1 / 60)
   = Some (6, 28)"
  by (simp add: vertical_tile_hit_def example_stage_grid Let_def example_standing_player_def
        apply_gravity_def
        InitPlayer_def zero_Entity_def zero_Vector2_def entity_width_def entity_height_def
        entity_scale_def float_to_int_def SafeClamp_def vertical_temp_hitbox_def
        scan_tiles.simps scan_tile_row.simps example_stage_solid CheckCollisionRecs_def
        tile_rect_def)

lemma example_standing_player_vertical_collider:
  "vertical_collider_hit example_stage
     (apply_gravity (example_standing_player\<lparr>grounded := False\<rparr>) (1 / 60)) (1 / 60)
   = None"
  by (simp add: vertical_collider_hit_def example_stage_level Let_def
        example_standing_player_def apply_gravity_def
        InitPlayer_def zero_Entity_def zero_Vector2_def entity_width_def entity_height_def
        entity_scale_def vertical_temp_hitbox_def
        scan_colliders.simps CheckCollisionRecs_def)

lemma example_standing_player_physics:
  "position (UpdatePhysics example_stage example_standing_player (1 / 60))
     = \<lparr>vec_x = 100, vec_y = 3775 / 10\<rparr>"
  "hitbox (UpdatePhysics example_stage example_standing_player (1 / 60))
     = \<lparr>rec_x = 11175 / 100, rec_y = 38925 / 100, rec_width = 705 / 10, rec_height = 705 / 10\<rparr>"
  "grounded (UpdatePhysics example_stage example_standing_player (1 / 60))"
proof -
  let ?e = "apply_gravity (example_standing_player\<lparr>grounded := False\<rparr>) (1 / 60)"
  have v: "UpdatePhysics_vertical example_stage ?e (1 / 60)
           = ?e\<lparr>grounded := True, velocity := (velocity ?e)\<lparr>vec_y := 0\<rparr>,
                position := (position ?e)\<lparr>vec_y := 448 - entity_height ?e\<rparr>\<rparr>"
    apply (simp only: UpdatePhysics_vertical_def example_standing_player_vertical_tile
        example_standing_player_vertical_collider Let_def option.case prod.case)
    apply (simp add: apply_gravity_def example_standing_player_def InitPlayer_def
        zero_Entity_def zero_Vector2_def)
    done
  have u: "UpdatePhysics example_stage example_standing_player (1 / 60)
           = UpdatePhysics_bounds example_stage
               (?e\<lparr>grounded := True, velocity := (velocity ?e)\<lparr>vec_y := 0\<rparr>,
                position := (position ?e)\<lparr>vec_y := 448 - entity_height ?e\<rparr>\<rparr>)"
    by (simp only: UpdatePhysics_def UpdatePhysics_after_vertical_def
          UpdatePhysics_after_horizontal_def example_standing_player_horizontal v)
  show "position (UpdatePhysics example_stage example_standing_player (1 / 60))
     = \<lparr>vec_x = 100, vec_y = 3775 / 10\<rparr>"
    "hitbox (UpdatePhysics example_stage example_standing_player (1 / 60))
     = \<lparr>rec_x = 11175 / 100, rec_y = 38925 / 100, rec_width = 705 / 10, rec_height = 705 / 10\<rparr>"
    "grounded (UpdatePhysics example_stage example_standing_player (1 / 60))"
    unfolding u
    by (simp_all add: UpdatePhysics_bounds_def stage_width_def Let_def example_stage_level
          apply_gravity_def
          example_standing_player_def InitPlayer_def zero_Entity_def zero_Vector2_def
          entity_width_def entity_height_def entity_scale_def SafeClampFloat_def)
qed

text \<open>
  Claim C5 at a player resting on the ground of the first stage and integrated for one
  tick.  The vertical pass stops at the solid tile in column 6 of row 28 and snaps the
  player on top of it.  The hitbox stored at the end is not the box that was swept:
  \<open>UpdatePhysics\<close> scales the size of every entity whose capacity exceeds
  \<open>ENEMY_MAX_HEALTH\<close> by 1.5, a scale that its comment reserves for bosses and that the
  player, with a capacity of 100, gets too, and it offsets the stored hitbox by half the
  difference to the unscaled sprite.  The stored hitbox is the swept box moved right and
  down by 11.75, and it overlaps the tile the player was snapped against.
\<close>

theorem UpdatePhysics_scaled_hitbox_overlaps_tile:
  "UpdatePhysics_vertical_tile example_stage example_standing_player (1 / 60) = Some (6, 28)
   \<and> the (tileMap (currentLevel example_stage)) (28 * levelCols example_stage + 6) > 0
   \<and> CheckCollisionRecs
         (hitbox (UpdatePhysics example_stage example_standing_player (1 / 60)))
         (tile_rect 6 28)"
proof -
  have 1: "UpdatePhysics_vertical_tile example_stage example_standing_player (1 / 60)
           = Some (6, 28)"
    by (simp only: UpdatePhysics_vertical_tile_def UpdatePhysics_after_horizontal_def
          example_standing_player_horizontal example_standing_player_vertical_tile)
  have 2: "the (tileMap (currentLevel example_stage)) (28 * levelCols example_stage + 6) > 0"
    using example_stage_solid [of "28 * 125 + 6"] by (simp add: example_stage_grid)
  have 3: "CheckCollisionRecs
         (hitbox (UpdatePhysics example_stage example_standing_player (1 / 60)))
         (tile_rect 6 28)"
    by (simp add: example_standing_player_physics CheckCollisionRecs_def tile_rect_def)
  from 1 2 3 show ?thesis by blast
qed


lemma UpdatePhysics_horizontal_maxHealth [simp]:
  "maxHealth (UpdatePhysics_horizontal g e dt) = maxHealth e"
  by (simp add: UpdatePhysics_horizontal_def Let_def split: option.splits prod.splits)

lemma UpdatePhysics_horizontal_position_y [simp]:
  "vec_y (position (UpdatePhysics_horizontal g e dt)) = vec_y (position e)"
  by (simp add: UpdatePhysics_horizontal_def Let_def split: option.splits prod.splits)

lemma apply_gravity_fields [simp]:
  "maxHealth (apply_gravity e dt) = maxHealth e"
  "position (apply_gravity e dt) = position e"
  by (simp_all add: apply_gravity_def)

lemma UpdatePhysics_vertical_maxHealth [simp]:
  "maxHealth (UpdatePhysics_vertical g e dt) = maxHealth e"
  by (simp add: UpdatePhysics_vertical_def Let_def split: option.splits prod.splits)

lemma UpdatePhysics_vertical_position_x [simp]:
  "vec_x (position (UpdatePhysics_vertical g e dt)) = vec_x (position e)"
  by (simp add: UpdatePhysics_vertical_def Let_def split: option.splits prod.splits)

section \<open>The player tick\<close>

subsection \<open>What a player tick leaves alone\<close>

lemma StartPlayerAttack_frame [simp]:
  "stunTimer (fst (StartPlayerAttack p pr)) = stunTimer p"
  "deathTimer (fst (StartPlayerAttack p pr)) = deathTimer p"
  "grabbedEnemyIndex (fst (StartPlayerAttack p pr)) = grabbedEnemyIndex p"
  "health (fst (StartPlayerAttack p pr)) = health p"
  by (simp_all add: StartPlayerAttack_def)

lemma StartAirAttack_frame [simp]:
  "stunTimer (StartAirAttack p a d c) = stunTimer p"
  "deathTimer (StartAirAttack p a d c) = deathTimer p"
  "grabbedEnemyIndex (StartAirAttack p a d c) = grabbedEnemyIndex p"
  "health (StartAirAttack p a d c) = health p"
  by (simp_all add: StartAirAttack_def)

lemma start_attack_frame [simp]:
  "stunTimer (fst (start_attack p air a d pr)) = stunTimer p"
  "deathTimer (fst (start_attack p air a d pr)) = deathTimer p"
  "grabbedEnemyIndex (fst (start_attack p air a d pr)) = grabbedEnemyIndex p"
  "health (fst (start_attack p air a d pr)) = health p"
  by (simp_all add: start_attack_def)

lemma input_move_jump_frame [simp]:
  "stunTimer (fst (input_move_jump kb ip2 p)) = stunTimer p"
  "deathTimer (fst (input_move_jump kb ip2 p)) = deathTimer p"
  "grabbedEnemyIndex (fst (input_move_jump kb ip2 p)) = grabbedEnemyIndex p"
  "health (fst (input_move_jump kb ip2 p)) = health p"
  by (simp_all add: input_move_jump_def Let_def)

lemma input_apply_move_frame [simp]:
  "stunTimer (fst (input_apply_move m p)) = stunTimer p"
  "deathTimer (fst (input_apply_move m p)) = deathTimer p"
  "grabbedEnemyIndex (fst (input_apply_move m p)) = grabbedEnemyIndex p"
  "health (fst (input_apply_move m p)) = health p"
  by (simp_all add: input_apply_move_def Let_def)

lemma input_attack_frame [simp]:
  "stunTimer (fst (input_attack kb ip2 p)) = stunTimer p"
  "deathTimer (fst (input_attack kb ip2 p)) = deathTimer p"
  "grabbedEnemyIndex (fst (input_attack kb ip2 p)) = grabbedEnemyIndex p"
  "health (fst (input_attack kb ip2 p)) = health p"
  by (simp_all add: input_attack_def Let_def)

lemma input_grab_start_frame [simp]:
  "stunTimer (fst (input_grab_start kb c p g)) = stunTimer p"
  "deathTimer (fst (input_grab_start kb c p g)) = deathTimer p"
  "health (fst (input_grab_start kb c p g)) = health p"
  "activeEnemies (snd (input_grab_start kb c p g)) = activeEnemies g"
  "length (enemies (snd (input_grab_start kb c p g))) = length (enemies g)"
  by (simp_all add: input_grab_start_def Let_def)

lemma idle_debounce_frame [simp]:
  "stunTimer (idle_debounce m dt p) = stunTimer p"
  "deathTimer (idle_debounce m dt p) = deathTimer p"
  "grabbedEnemyIndex (idle_debounce m dt p) = grabbedEnemyIndex p"
  "health (idle_debounce m dt p) = health p"
  by (simp_all add: idle_debounce_def Let_def)

lemma PlayerHitDetection_frame:
  assumes "PlayerHitDetection p g = (p', g', s, h)"
  shows "stunTimer p' = stunTimer p" "deathTimer p' = deathTimer p"
    "grabbedEnemyIndex p' = grabbedEnemyIndex p" "health p' = health p"
    "activeEnemies g' = activeEnemies g" "length (enemies g') = length (enemies g)"
  using PlayerHitDetection_cases [of p g] assms by auto

lemma ApplyFriction_frame [simp]:
  "stunTimer (ApplyFriction p m) = stunTimer p"
  "deathTimer (ApplyFriction p m) = deathTimer p"
  "grabbedEnemyIndex (ApplyFriction p m) = grabbedEnemyIndex p"
  "health (ApplyFriction p m) = health p"
  by (simp_all add: ApplyFriction_def Let_def)

lemma UpdatePhysics_horizontal_frame [simp]:
  "stunTimer (UpdatePhysics_horizontal g p dt) = stunTimer p"
  "deathTimer (UpdatePhysics_horizontal g p dt) = deathTimer p"
  "grabbedEnemyIndex (UpdatePhysics_horizontal g p dt) = grabbedEnemyIndex p"
  "health (UpdatePhysics_horizontal g p dt) = health p"
  by (simp_all add: UpdatePhysics_horizontal_def Let_def split: option.splits prod.splits)

lemma apply_gravity_frame [simp]:
  "stunTimer (apply_gravity p dt) = stunTimer p"
  "deathTimer (apply_gravity p dt) = deathTimer p"
  "grabbedEnemyIndex (apply_gravity p dt) = grabbedEnemyIndex p"
  "health (apply_gravity p dt) = health p"
  by (simp_all add: apply_gravity_def)

lemma UpdatePhysics_vertical_frame [simp]:
  "stunTimer (UpdatePhysics_vertical g p dt) = stunTimer p"
  "deathTimer (UpdatePhysics_vertical g p dt) = deathTimer p"
  "grabbedEnemyIndex (UpdatePhysics_vertical g p dt) = grabbedEnemyIndex p"
  "health (UpdatePhysics_vertical g p dt) = health p"
  by (simp_all add: UpdatePhysics_vertical_def Let_def split: option.splits prod.splits)

lemma UpdatePhysics_bounds_frame [simp]:
  "stunTimer (UpdatePhysics_bounds g p) = stunTimer p"
  "deathTimer (UpdatePhysics_bounds g p) = deathTimer p"
  "grabbedEnemyIndex (UpdatePhysics_bounds g p) = grabbedEnemyIndex p"
  "health (UpdatePhysics_bounds g p) = health p"
  by (simp_all add: UpdatePhysics_bounds_def Let_def)

lemma UpdatePhysics_frame [simp]:
  "stunTimer (UpdatePhysics g p dt) = stunTimer p"
  "deathTimer (UpdatePhysics g p dt) = deathTimer p"
  "grabbedEnemyIndex (UpdatePhysics g p dt) = grabbedEnemyIndex p"
  "health (UpdatePhysics g p dt) = health p"
  by (simp_all add: UpdatePhysics_def UpdatePhysics_after_vertical_def
        UpdatePhysics_after_horizontal_def)

lemma update_player_cooldown_frame [simp]:
  "stunTimer (update_player_cooldown p dt) = stunTimer p"
  "deathTimer (update_player_cooldown p dt) = deathTimer p"
  "grabbedEnemyIndex (update_player_cooldown p dt) = grabbedEnemyIndex p"
  "health (update_player_cooldown p dt) = health p"
  by (simp_all add: update_player_cooldown_def Let_def)

lemma update_player_animation_frame [simp]:
  "stunTimer (update_player_animation pa p dt) = stunTimer p"
  "deathTimer (update_player_animation pa p dt) = deathTimer p"
  "grabbedEnemyIndex (update_player_animation pa p dt) = grabbedEnemyIndex p"
  "health (update_player_animation pa p dt) = health p"
  by (simp_all add: update_player_animation_def UpdatePlayerAnimationFrames_def Let_def)

lemma update_player_attack_end_frame [simp]:
  "stunTimer (update_player_attack_end p dt) = stunTimer p"
  "deathTimer (update_player_attack_end p dt) = deathTimer p"
  "grabbedEnemyIndex (update_player_attack_end p dt) = grabbedEnemyIndex p"
  "health (update_player_attack_end p dt) = health p"
  by (simp_all add: update_player_attack_end_def Let_def)

lemma update_player_death_trigger_frame [simp]:
  "stunTimer (update_player_death_trigger d ps p) = stunTimer p"
  "grabbedEnemyIndex (update_player_death_trigger d ps p) = grabbedEnemyIndex p"
  "health (update_player_death_trigger d ps p) = health p"
  by (simp_all add: update_player_death_trigger_def Let_def)

lemma UpdatePlayerDeath_frame [simp]:
  "stunTimer (UpdatePlayerDeath p dt) = stunTimer p"
  "grabbedEnemyIndex (UpdatePlayerDeath p dt) = grabbedEnemyIndex p"
  "deathTimer (UpdatePlayerDeath p dt) = (if deathTimer p > 0 then deathTimer p - dt else deathTimer p)"
  by (simp_all add: UpdatePlayerDeath_def Let_def)

lemma update_player_stun_frame [simp]:
  "stunTimer (update_player_stun p dt) = (if stunTimer p > 0 then stunTimer p - dt else stunTimer p)"
  "deathTimer (update_player_stun p dt) = deathTimer p"
  "grabbedEnemyIndex (update_player_stun p dt) = grabbedEnemyIndex p"
  "health (update_player_stun p dt) = health p"
  by (simp_all add: update_player_stun_def Let_def)

subsection \<open>The grab reference through a player tick\<close>

lemma find_closest_enemy_cases:
  "find_closest_enemy g p k m c = c \<or>
   (k \<le> find_closest_enemy g p k m c \<and> find_closest_enemy g p k m c < activeEnemies g \<and>
    0 < health (enemies g ! nat (find_closest_enemy g p k m c)))"
proof (induction "nat (activeEnemies g - k)" arbitrary: k m c)
  case 0
  then have "\<not> k < activeEnemies g" by simp
  then have "find_closest_enemy g p k m c = c" by (subst find_closest_enemy.simps) simp
  then show ?case by simp
next
  case (Suc n)
  then have lt: "k < activeEnemies g" and n: "n = nat (activeEnemies g - (k + 1))"
    by linarith+
  have "\<exists>m' c'. find_closest_enemy g p k m c = find_closest_enemy g p (k + 1) m' c' \<and>
          (c' = c \<or> (c' = k \<and> 0 < health (enemies g ! nat k)))"
    using lt by (subst find_closest_enemy.simps) (auto simp add: Let_def)
  then obtain m' c' where
    eq: "find_closest_enemy g p k m c = find_closest_enemy g p (k + 1) m' c'" and
    c': "c' = c \<or> (c' = k \<and> 0 < health (enemies g ! nat k))"
    by blast
  from Suc.hyps(1) [OF n, of m' c'] c' lt show ?case
    unfolding eq by auto
qed

lemma input_grab_start_held:
  "grabbedEnemyIndex p \<noteq> - 1 \<Longrightarrow> input_grab_start kb c p g = (p, g)"
  by (simp add: input_grab_start_def)

lemma input_grab_start_no_key:
  "\<not> IsKeyPressed kb KEY_G \<Longrightarrow> input_grab_start kb c p g = (p, g)"
  by (simp add: input_grab_start_def)

lemma input_grab_start_index:
  "- 1 \<le> grabbedEnemyIndex p \<Longrightarrow> - 1 \<le> grabbedEnemyIndex (fst (input_grab_start kb c p g))"
  using find_closest_enemy_cases [of g p 0 60 "- 1"]
  by (auto simp add: input_grab_start_def Let_def)

lemma input_grab_start_dead_untouched:
  "health (enemies g ! k) \<le> 0 \<Longrightarrow> enemies (snd (input_grab_start kb c p g)) ! k = enemies g ! k"
proof -
  assume dead: "health (enemies g ! k) \<le> 0"
  have "find_closest_enemy g p 0 60 (- 1) \<noteq> - 1 \<Longrightarrow> nat (find_closest_enemy g p 0 60 (- 1)) \<noteq> k"
    using find_closest_enemy_cases [of g p 0 60 "- 1"] dead by auto
  then show ?thesis
    by (simp add: input_grab_start_def Let_def)
qed

lemma enemy_at_Some:
  "0 \<le> idx \<Longrightarrow> idx < activeEnemies g \<Longrightarrow> activeEnemies g \<le> MAX_ENEMIES \<Longrightarrow>
   length (enemies g) = nat MAX_ENEMIES \<Longrightarrow> enemy_at g idx = Some (enemies g ! nat idx)"
  by (simp add: enemy_at_def)

lemma input_grab_release_total:
  assumes "- 1 \<le> grabbedEnemyIndex p" and "activeEnemies g \<le> MAX_ENEMIES"
    and "length (enemies g) = nat MAX_ENEMIES"
  shows "\<exists>p' g' s. input_grab_release kb p g = Some (p', g', s)"
proof (cases "IsKeyReleased kb KEY_G \<and> grabbedEnemyIndex p \<noteq> - 1 \<and>
              grabbedEnemyIndex p < activeEnemies g")
  case True
  with assms have "enemy_at g (grabbedEnemyIndex p) = Some (enemies g ! nat (grabbedEnemyIndex p))"
    by (intro enemy_at_Some) auto
  with True show ?thesis
    by (simp add: input_grab_release_def Let_def split: prod.splits)
next
  case False
  then show ?thesis
    by (auto simp add: input_grab_release_def Let_def)
qed

lemma input_grab_release_frame:
  assumes "input_grab_release kb p g = Some (p', g', s)"
  shows "stunTimer p' = stunTimer p" "deathTimer p' = deathTimer p" "health p' = health p"
    "grabbedEnemyIndex p' = grabbedEnemyIndex p \<or> grabbedEnemyIndex p' = - 1"
    "activeEnemies g' = activeEnemies g" "length (enemies g') = length (enemies g)"
  using assms
  by (auto simp add: input_grab_release_def enemy_at_def Let_def
        split: if_splits option.splits prod.splits)

lemma input_grab_release_dead_untouched:
  assumes "input_grab_release kb p g = Some (p', g', s)"
    and dead: "health (enemies g ! k) \<le> 0"
  shows "enemies g' ! k = enemies g ! k"
proof (cases "k = nat (grabbedEnemyIndex p)")
  case True
  with assms show ?thesis
    by (auto simp add: input_grab_release_def enemy_at_def Let_def
          split: if_splits option.splits prod.splits)
next
  case False
  with assms(1) show ?thesis
    by (auto simp add: input_grab_release_def enemy_at_def Let_def
          split: if_splits option.splits prod.splits)
qed

lemma input_grab_release_no_key:
  "\<not> IsKeyReleased kb KEY_G \<Longrightarrow> input_grab_release kb p g = Some (p, g, [])"
  by (simp add: input_grab_release_def)

lemma controlled_input_total:
  assumes "- 1 \<le> grabbedEnemyIndex p" and "activeEnemies g \<le> MAX_ENEMIES"
    and "length (enemies g) = nat MAX_ENEMIES"
  shows "\<exists>p' g' s m. controlled_input kb ip2 p g = Some (p', g', s, m)"
proof -
  obtain p1 moveDir where a: "input_move_jump kb ip2 p = (p1, moveDir)" by (cases "input_move_jump kb ip2 p")
  obtain p2 moving where b: "input_apply_move moveDir p1 = (p2, moving)" by (cases "input_apply_move moveDir p1")
  obtain p3 s1 where c: "input_attack kb ip2 p2 = (p3, s1)" by (cases "input_attack kb ip2 p2")
  obtain p4 g1 where d: "input_grab_start kb True p3 g = (p4, g1)" by (cases "input_grab_start kb True p3 g")
  have "grabbedEnemyIndex p3 = grabbedEnemyIndex p"
    using input_move_jump_frame(3) [of kb ip2 p] input_apply_move_frame(3) [of moveDir p1]
      input_attack_frame(3) [of kb ip2 p2] a b c by simp
  with assms(1) input_grab_start_index [of p3 kb True g] d
  have i4: "- 1 \<le> grabbedEnemyIndex p4" by simp
  from input_grab_start_frame(4,5) [of kb True p3 g] d assms
  have "activeEnemies g1 \<le> MAX_ENEMIES" "length (enemies g1) = nat MAX_ENEMIES" by simp_all
  from input_grab_release_total [OF i4 this, of kb]
  show ?thesis
    by (auto simp add: controlled_input_def a b c d)
qed

lemma controlled_input_frame:
  assumes "controlled_input kb ip2 p g = Some (p', g', s, m)"
  shows "stunTimer p' = stunTimer p" "deathTimer p' = deathTimer p" "health p' = health p"
    "grabbedEnemyIndex p \<noteq> - 1 \<Longrightarrow>
       grabbedEnemyIndex p' = grabbedEnemyIndex p \<or> grabbedEnemyIndex p' = - 1"
    "- 1 \<le> grabbedEnemyIndex p \<Longrightarrow> - 1 \<le> grabbedEnemyIndex p'"
    "activeEnemies g' = activeEnemies g" "length (enemies g') = length (enemies g)"
    "health (enemies g ! k) \<le> 0 \<Longrightarrow> enemies g' ! k = enemies g ! k"
proof -
  obtain p1 moveDir where a: "input_move_jump kb ip2 p = (p1, moveDir)" by (cases "input_move_jump kb ip2 p")
  obtain p2 moving where b: "input_apply_move moveDir p1 = (p2, moving)" by (cases "input_apply_move moveDir p1")
  obtain p3 s1 where c: "input_attack kb ip2 p2 = (p3, s1)" by (cases "input_attack kb ip2 p2")
  obtain p4 g1 where d: "input_grab_start kb True p3 g = (p4, g1)" by (cases "input_grab_start kb True p3 g")
  from assms obtain s2 where e: "input_grab_release kb p4 g1 = Some (p', g', s2)"
    by (auto simp add: controlled_input_def a b c d split: option.splits)
  have f3: "stunTimer p3 = stunTimer p" "deathTimer p3 = deathTimer p" "health p3 = health p"
    "grabbedEnemyIndex p3 = grabbedEnemyIndex p"
    using input_move_jump_frame [of kb ip2 p] input_apply_move_frame [of moveDir p1]
      input_attack_frame [of kb ip2 p2] a b c by simp_all
  have f4: "stunTimer p4 = stunTimer p" "deathTimer p4 = deathTimer p" "health p4 = health p"
    "activeEnemies g1 = activeEnemies g" "length (enemies g1) = length (enemies g)"
    using input_grab_start_frame [of kb True p3 g] d f3 by simp_all
  note r = input_grab_release_frame [OF e]
  show "stunTimer p' = stunTimer p" "deathTimer p' = deathTimer p" "health p' = health p"
    "activeEnemies g' = activeEnemies g" "length (enemies g') = length (enemies g)"
    using r(1,2,3,5,6) f4 by simp_all
  show "grabbedEnemyIndex p' = grabbedEnemyIndex p \<or> grabbedEnemyIndex p' = - 1"
    if "grabbedEnemyIndex p \<noteq> - 1"
  proof -
    from that f3 have "input_grab_start kb True p3 g = (p3, g)" by (simp add: input_grab_start_held)
    with d have "p4 = p3" by simp
    with r(4) f3 show ?thesis by simp
  qed
  show "- 1 \<le> grabbedEnemyIndex p'" if "- 1 \<le> grabbedEnemyIndex p"
  proof -
    from that f3 input_grab_start_index [of p3 kb True g] d
    have "- 1 \<le> grabbedEnemyIndex p4" by simp
    with r(4) show ?thesis by auto
  qed
  show "enemies g' ! k = enemies g ! k" if dead: "health (enemies g ! k) \<le> 0"
  proof -
    from input_grab_start_dead_untouched [OF dead, of kb True p3] d
    have "enemies g1 ! k = enemies g ! k" by simp
    with dead input_grab_release_dead_untouched [OF e, of k] show ?thesis by simp
  qed
qed

lemma PlayerHitDetection_dead_untouched:
  assumes "PlayerHitDetection p g = (p', g', s, h)" and dead: "health (enemies g ! k) \<le> 0"
  shows "enemies g' ! k = enemies g ! k"
proof (cases "first_enemy_hit g (ComputeAttackHitbox p) 0")
  case None
  with assms(1) show ?thesis
    by (auto simp add: PlayerHitDetection_def Let_def split: prod.splits if_splits)
next
  case (Some i)
  from first_enemy_hit_is_first [OF Some] dead have "0 \<le> i" "nat i \<noteq> k" by auto
  with assms(1) Some show ?thesis
    by (auto simp add: PlayerHitDetection_def Let_def split: prod.splits if_splits)
qed

lemma ProcessPlayerInput_total:
  assumes "- 1 \<le> grabbedEnemyIndex p" and "activeEnemies g \<le> MAX_ENEMIES"
    and "length (enemies g) = nat MAX_ENEMIES"
  shows "\<exists>p' g' s. ProcessPlayerInput kb p g dt ip2 = Some (p', g', s)"
proof (cases "player_canControl p")
  case True
  from controlled_input_total [OF assms, of kb ip2] True show ?thesis
    by (auto simp add: ProcessPlayerInput_def split: prod.splits)
next
  case False
  then show ?thesis
    by (auto simp add: ProcessPlayerInput_def split: prod.splits)
qed

lemma ProcessPlayerInput_frame:
  assumes "ProcessPlayerInput kb p g dt ip2 = Some (p', g', s)"
  shows "stunTimer p' = stunTimer p" "deathTimer p' = deathTimer p" "health p' = health p"
    "grabbedEnemyIndex p \<noteq> - 1 \<Longrightarrow>
       grabbedEnemyIndex p' = grabbedEnemyIndex p \<or> grabbedEnemyIndex p' = - 1"
    "- 1 \<le> grabbedEnemyIndex p \<Longrightarrow> - 1 \<le> grabbedEnemyIndex p'"
    "activeEnemies g' = activeEnemies g" "length (enemies g') = length (enemies g)"
    "health (enemies g ! k) \<le> 0 \<Longrightarrow> enemies g' ! k = enemies g ! k"
proof -
  obtain p1 g1 s1 m where
    c: "(if player_canControl p then controlled_input kb ip2 p g else Some (p, g, [], False))
        = Some (p1, g1, s1, m)"
    using assms by (auto simp add: ProcessPlayerInput_def split: option.splits)
  obtain s2 h where
    d: "PlayerHitDetection (idle_debounce m dt p1) g1 = (p', g', s2, h)"
    using assms c by (auto simp add: ProcessPlayerInput_def split: prod.splits)
  have f1: "stunTimer p1 = stunTimer p" "deathTimer p1 = deathTimer p" "health p1 = health p"
    "activeEnemies g1 = activeEnemies g" "length (enemies g1) = length (enemies g)"
    using c controlled_input_frame(1,2,3,6,7) [of kb ip2 p g p1 g1 s1 m]
    by (auto split: if_splits)
  have g1a: "grabbedEnemyIndex p \<noteq> - 1 \<Longrightarrow>
       grabbedEnemyIndex p1 = grabbedEnemyIndex p \<or> grabbedEnemyIndex p1 = - 1"
    using c controlled_input_frame(4) [of kb ip2 p g p1 g1 s1 m]
    by (auto split: if_splits)
  have g1b: "- 1 \<le> grabbedEnemyIndex p \<Longrightarrow> - 1 \<le> grabbedEnemyIndex p1"
    using c controlled_input_frame(5) [of kb ip2 p g p1 g1 s1 m]
    by (auto split: if_splits)
  have g1c: "health (enemies g ! k) \<le> 0 \<Longrightarrow> enemies g1 ! k = enemies g ! k"
    using c controlled_input_frame(8) [of kb ip2 p g p1 g1 s1 m k]
    by (auto split: if_splits)
  note h = PlayerHitDetection_frame [OF d]
  show "stunTimer p' = stunTimer p" "deathTimer p' = deathTimer p" "health p' = health p"
    "activeEnemies g' = activeEnemies g" "length (enemies g') = length (enemies g)"
    using h f1 by simp_all
  show "grabbedEnemyIndex p' = grabbedEnemyIndex p \<or> grabbedEnemyIndex p' = - 1"
    if "grabbedEnemyIndex p \<noteq> - 1"
    using g1a [OF that] h(3) by simp
  show "- 1 \<le> grabbedEnemyIndex p'" if "- 1 \<le> grabbedEnemyIndex p"
    using g1b [OF that] h(3) by simp
  show "enemies g' ! k = enemies g ! k" if dead: "health (enemies g ! k) \<le> 0"
    using g1c [OF dead] dead PlayerHitDetection_dead_untouched [OF d, of k] by simp
qed

lemma ProcessPlayerInput_no_keys_index:
  assumes "ProcessPlayerInput no_keys p g dt ip2 = Some (p', g', s)"
  shows "grabbedEnemyIndex p' = grabbedEnemyIndex p"
proof -
  obtain p1 g1 s1 m where
    c: "(if player_canControl p then controlled_input no_keys ip2 p g
         else Some (p, g, [], False)) = Some (p1, g1, s1, m)"
    using assms by (auto simp add: ProcessPlayerInput_def split: option.splits)
  obtain s2 h where
    d: "PlayerHitDetection (idle_debounce m dt p1) g1 = (p', g', s2, h)"
    using assms c by (auto simp add: ProcessPlayerInput_def split: prod.splits)
  have "grabbedEnemyIndex p1 = grabbedEnemyIndex p"
  proof (cases "player_canControl p")
    case False
    with c show ?thesis by simp
  next
    case True
    obtain pa moveDir where a: "input_move_jump no_keys ip2 p = (pa, moveDir)"
      by (cases "input_move_jump no_keys ip2 p")
    obtain pb moving where b: "input_apply_move moveDir pa = (pb, moving)"
      by (cases "input_apply_move moveDir pa")
    obtain pc sc where cc: "input_attack no_keys ip2 pb = (pc, sc)"
      by (cases "input_attack no_keys ip2 pb")
    have e1: "grabbedEnemyIndex pc = grabbedEnemyIndex p"
      using input_move_jump_frame(3) [of no_keys ip2 p] input_apply_move_frame(3) [of moveDir pa]
        input_attack_frame(3) [of no_keys ip2 pb] a b cc by simp
    have nk: "\<not> IsKeyPressed no_keys KEY_G" "\<not> IsKeyReleased no_keys KEY_G"
      by (simp_all add: no_keys_def)
    from c True have e2: "p1 = pc"
      by (simp add: controlled_input_def a b cc input_grab_start_no_key [OF nk(1)]
            input_grab_release_no_key [OF nk(2)])
    from e1 e2 show ?thesis by simp
  qed
  with PlayerHitDetection_frame(3) [OF d] show ?thesis by simp
qed

lemma update_player_gameplay_total:
  assumes "- 1 \<le> grabbedEnemyIndex p" and "activeEnemies g \<le> MAX_ENEMIES"
    and "length (enemies g) = nat MAX_ENEMIES"
  shows "\<exists>p' g' s. update_player_gameplay kb p g dt ip2 = Some (p', g', s)"
  using ProcessPlayerInput_total [OF assms, of kb dt ip2]
  by (auto simp add: update_player_gameplay_def Let_def)

lemma update_player_gameplay_frame:
  assumes "update_player_gameplay kb p g dt ip2 = Some (p', g', s)"
  shows "stunTimer p' = stunTimer p" "deathTimer p' = deathTimer p" "health p' = health p"
    "grabbedEnemyIndex p \<noteq> - 1 \<Longrightarrow>
       grabbedEnemyIndex p' = grabbedEnemyIndex p \<or> grabbedEnemyIndex p' = - 1"
    "- 1 \<le> grabbedEnemyIndex p \<Longrightarrow> - 1 \<le> grabbedEnemyIndex p'"
    "activeEnemies g' = activeEnemies g" "length (enemies g') = length (enemies g)"
    "health (enemies g ! k) \<le> 0 \<Longrightarrow> enemies g' ! k = enemies g ! k"
proof -
  obtain p1 where
    i: "ProcessPlayerInput kb p g dt ip2 = Some (p1, g', s)" and
    p': "stunTimer p' = stunTimer p1 \<and> deathTimer p' = deathTimer p1 \<and> health p' = health p1
         \<and> grabbedEnemyIndex p' = grabbedEnemyIndex p1"
    using assms
    by (auto simp add: update_player_gameplay_def Let_def split: option.splits if_splits)
  note f = ProcessPlayerInput_frame [OF i]
  show "stunTimer p' = stunTimer p" "deathTimer p' = deathTimer p" "health p' = health p"
    "activeEnemies g' = activeEnemies g" "length (enemies g') = length (enemies g)"
    using f(1,2,3,6,7) p' by simp_all
  show "grabbedEnemyIndex p' = grabbedEnemyIndex p \<or> grabbedEnemyIndex p' = - 1"
    if "grabbedEnemyIndex p \<noteq> - 1"
    using f(4) [OF that] p' by simp
  show "- 1 \<le> grabbedEnemyIndex p'" if "- 1 \<le> grabbedEnemyIndex p"
    using f(5) [OF that] p' by simp
  show "enemies g' ! k = enemies g ! k" if "health (enemies g ! k) \<le> 0"
    using f(8) [OF that] .
qed

lemma update_player_gameplay_no_keys_index:
  assumes "update_player_gameplay no_keys p g dt ip2 = Some (p', g', s)"
  shows "grabbedEnemyIndex p' = grabbedEnemyIndex p"
proof -
  obtain p1 where
    i: "ProcessPlayerInput no_keys p g dt ip2 = Some (p1, g', s)" and
    p': "grabbedEnemyIndex p' = grabbedEnemyIndex p1"
    using assms
    by (auto simp add: update_player_gameplay_def Let_def split: option.splits if_splits)
  with ProcessPlayerInput_no_keys_index [OF i] show ?thesis by simp
qed

lemma update_player_grab_total:
  assumes "activeEnemies g \<le> MAX_ENEMIES" and "length (enemies g) = nat MAX_ENEMIES"
  shows "\<exists>p' g'. update_player_grab p g = Some (p', g')"
proof (cases "grabbedEnemyIndex p \<noteq> - 1 \<and> 0 \<le> grabbedEnemyIndex p \<and>
              grabbedEnemyIndex p < activeEnemies g")
  case True
  with assms have "enemy_at g (grabbedEnemyIndex p) = Some (enemies g ! nat (grabbedEnemyIndex p))"
    by (intro enemy_at_Some) auto
  with True show ?thesis
    by (simp add: update_player_grab_def Let_def)
next
  case False
  then show ?thesis
    by (auto simp add: update_player_grab_def Let_def)
qed

lemma update_player_grab_frame:
  assumes "update_player_grab p g = Some (p', g')"
  shows "stunTimer p' = stunTimer p" "deathTimer p' = deathTimer p" "health p' = health p"
    "grabbedEnemyIndex p' = grabbedEnemyIndex p \<or> grabbedEnemyIndex p' = - 1"
    "activeEnemies g' = activeEnemies g" "length (enemies g') = length (enemies g)"
  using assms
  by (auto simp add: update_player_grab_def enemy_at_def Let_def
        split: if_splits option.splits)

lemma update_player_grab_stale:
  assumes "update_player_grab p g = Some (p', g')"
    and "activeEnemies g \<le> grabbedEnemyIndex p
         \<or> health (enemies g ! nat (grabbedEnemyIndex p)) \<le> 0"
  shows "grabbedEnemyIndex p' = - 1"
  using assms
  by (auto simp add: update_player_grab_def enemy_at_def Let_def
        split: if_splits option.splits)

lemma update_player_grab_valid:
  assumes "0 \<le> grabbedEnemyIndex p" and "grabbedEnemyIndex p < activeEnemies g"
    and "enemy_at g (grabbedEnemyIndex p) = Some en" and "0 < health en"
  shows "\<exists>p' g'. update_player_grab p g = Some (p', g')
           \<and> grabbedEnemyIndex p' = grabbedEnemyIndex p"
  using assms
  by (auto simp add: update_player_grab_def Let_def)

lemma UpdatePlayer_dying:
  "deathTimer p > 0 \<Longrightarrow>
   UpdatePlayer kb pa p g dt ip2 =
     (case update_player_grab
             (update_player_death_trigger True (state p)
                (update_player_attack_end
                   (update_player_animation pa
                      (update_player_cooldown
                         (UpdatePlayerDeath (update_player_stun p dt) dt) dt) dt) dt)) g of
        None \<Rightarrow> None
      | Some (p7, g2) \<Rightarrow> Some (p7, g2, []))"
  by (simp add: UpdatePlayer_def Let_def)

lemma UpdatePlayer_alive:
  "\<not> deathTimer p > 0 \<Longrightarrow>
   update_player_gameplay kb (update_player_stun p dt) g dt ip2 = Some (p2, g1, s) \<Longrightarrow>
   UpdatePlayer kb pa p g dt ip2 =
     (case update_player_grab
             (update_player_death_trigger False (state p)
                (update_player_attack_end
                   (update_player_animation pa
                      (update_player_cooldown p2 dt) dt) dt)) g1 of
        None \<Rightarrow> None
      | Some (p7, g2) \<Rightarrow> Some (p7, g2, s))"
  by (simp add: UpdatePlayer_def Let_def)

lemma UpdatePlayer_before_grab:
  assumes "- 1 \<le> grabbedEnemyIndex p" and "activeEnemies g \<le> MAX_ENEMIES"
    and "length (enemies g) = nat MAX_ENEMIES"
  shows "\<exists>p6 g1 s.
           UpdatePlayer kb pa p g dt ip2 =
             (case update_player_grab p6 g1 of
                None \<Rightarrow> None | Some (p7, g2) \<Rightarrow> Some (p7, g2, s)) \<and>
           stunTimer p6 = (if stunTimer p > 0 then stunTimer p - dt else stunTimer p) \<and>
           - 1 \<le> grabbedEnemyIndex p6 \<and>
           (grabbedEnemyIndex p \<noteq> - 1 \<longrightarrow>
              grabbedEnemyIndex p6 = grabbedEnemyIndex p \<or> grabbedEnemyIndex p6 = - 1) \<and>
           (kb = no_keys \<longrightarrow> grabbedEnemyIndex p6 = grabbedEnemyIndex p) \<and>
           activeEnemies g1 = activeEnemies g \<and> length (enemies g1) = length (enemies g) \<and>
           (\<forall>k. health (enemies g ! k) \<le> 0 \<longrightarrow> enemies g1 ! k = enemies g ! k)"
proof (cases "deathTimer p > 0")
  case True
  show ?thesis
    by (rule exI, rule exI [of _ g], rule exI, rule conjI, rule UpdatePlayer_dying [OF True])
       (use assms in simp)
next
  case False
  from assms have "- 1 \<le> grabbedEnemyIndex (update_player_stun p dt)" by simp
  from update_player_gameplay_total [OF this assms(2,3), of kb dt ip2]
  obtain p2 g1 s where
    gp: "update_player_gameplay kb (update_player_stun p dt) g dt ip2 = Some (p2, g1, s)"
    by blast
  note f = update_player_gameplay_frame [OF gp]
  have nk: "kb = no_keys \<longrightarrow> grabbedEnemyIndex p2 = grabbedEnemyIndex p"
    using update_player_gameplay_no_keys_index [of "update_player_stun p dt" g dt ip2 p2 g1 s] gp
    by auto
  show ?thesis
    by (rule exI, rule exI [of _ g1], rule exI [of _ s], rule conjI,
        rule UpdatePlayer_alive [OF False gp])
       (use f assms nk in auto)
qed

lemma UpdatePlayer_step:
  assumes "- 1 \<le> grabbedEnemyIndex p" and "activeEnemies g \<le> MAX_ENEMIES"
    and "length (enemies g) = nat MAX_ENEMIES"
  shows "\<exists>p' g' s.
           UpdatePlayer kb pa p g dt ip2 = Some (p', g', s) \<and>
           stunTimer p' = (if stunTimer p > 0 then stunTimer p - dt else stunTimer p) \<and>
           - 1 \<le> grabbedEnemyIndex p' \<and>
           activeEnemies g' = activeEnemies g \<and> length (enemies g') = length (enemies g) \<and>
           (grabbedEnemyIndex p \<noteq> - 1 \<and>
            (activeEnemies g \<le> grabbedEnemyIndex p
             \<or> health (enemies g ! nat (grabbedEnemyIndex p)) \<le> 0)
            \<longrightarrow> grabbedEnemyIndex p' = - 1)"
proof -
  from UpdatePlayer_before_grab [OF assms, of kb pa dt ip2]
  obtain p6 g1 s where
    u: "UpdatePlayer kb pa p g dt ip2 =
          (case update_player_grab p6 g1 of
             None \<Rightarrow> None | Some (p7, g2) \<Rightarrow> Some (p7, g2, s))" and
    st: "stunTimer p6 = (if stunTimer p > 0 then stunTimer p - dt else stunTimer p)" and
    i6: "- 1 \<le> grabbedEnemyIndex p6" and
    keep: "grabbedEnemyIndex p \<noteq> - 1 \<longrightarrow>
             grabbedEnemyIndex p6 = grabbedEnemyIndex p \<or> grabbedEnemyIndex p6 = - 1" and
    ae: "activeEnemies g1 = activeEnemies g" and
    len: "length (enemies g1) = length (enemies g)" and
    dead: "\<forall>k. health (enemies g ! k) \<le> 0 \<longrightarrow> enemies g1 ! k = enemies g ! k"
    by blast
  from assms ae len have "activeEnemies g1 \<le> MAX_ENEMIES" "length (enemies g1) = nat MAX_ENEMIES"
    by simp_all
  from update_player_grab_total [OF this, of p6]
  obtain p7 g2 where grab: "update_player_grab p6 g1 = Some (p7, g2)" by blast
  note gf = update_player_grab_frame [OF grab]
  have cleared: "grabbedEnemyIndex p7 = - 1"
    if held: "grabbedEnemyIndex p \<noteq> - 1"
      and stale: "activeEnemies g \<le> grabbedEnemyIndex p
                  \<or> health (enemies g ! nat (grabbedEnemyIndex p)) \<le> 0"
  proof (cases "grabbedEnemyIndex p6 = - 1")
    case True
    with gf(4) show ?thesis by auto
  next
    case False
    with keep held have same: "grabbedEnemyIndex p6 = grabbedEnemyIndex p" by simp
    from stale dead ae
    have "activeEnemies g1 \<le> grabbedEnemyIndex p6
          \<or> health (enemies g1 ! nat (grabbedEnemyIndex p6)) \<le> 0"
      unfolding same by auto
    from update_player_grab_stale [OF grab this] show ?thesis .
  qed
  from gf(4) i6 have "- 1 \<le> grabbedEnemyIndex p7" by auto
  with u grab gf st ae len cleared show ?thesis by simp
qed

lemma PlayerHitDetection_idle:
  "\<not> isAttacking p \<Longrightarrow> PlayerHitDetection p g = (p, g, [], None)"
  by (simp add: PlayerHitDetection_def)

lemma ProcessPlayerInput_no_keys_registry:
  assumes "\<not> isAttacking p"
  shows "\<exists>p'. ProcessPlayerInput no_keys p g dt ip2 = Some (p', g, [])"
proof -
  have nk: "\<not> IsKeyPressed no_keys KEY_G" "\<not> IsKeyReleased no_keys KEY_G"
    by (simp_all add: no_keys_def)
  have a: "input_move_jump no_keys ip2 p = (p, 0)"
    by (simp add: input_move_jump_def no_keys_def)
  define pb where "pb = fst (input_apply_move 0 p)"
  have b: "input_apply_move 0 p = (pb, False)"
    by (simp add: pb_def input_apply_move_def)
  have ib: "\<not> isAttacking pb"
    using assms by (simp add: pb_def input_apply_move_def)
  have c: "input_attack no_keys ip2 pb = (pb, [])"
    by (simp add: input_attack_def no_keys_def)
  have ci: "controlled_input no_keys ip2 p g = Some (pb, g, [], False)"
    by (simp add: controlled_input_def a b c input_grab_start_no_key [OF nk(1)]
          input_grab_release_no_key [OF nk(2)])
  have d: "\<not> isAttacking q \<Longrightarrow> \<not> isAttacking (idle_debounce False dt q)" for q
    by (simp add: idle_debounce_def Let_def)
  show ?thesis
  proof (cases "player_canControl p")
    case True
    with ci PlayerHitDetection_idle [OF d [OF ib], of g] show ?thesis
      by (simp add: ProcessPlayerInput_def)
  next
    case False
    with PlayerHitDetection_idle [OF d [OF assms], of g] show ?thesis
      by (simp add: ProcessPlayerInput_def)
  qed
qed

lemma UpdatePlayer_ticks_stun:
  assumes "0 \<le> dt" and "real n * dt < stunTimer p"
    and "- 1 \<le> grabbedEnemyIndex p" and "activeEnemies g \<le> MAX_ENEMIES"
    and "length (enemies g) = nat MAX_ENEMIES"
  shows "\<exists>p' g'. UpdatePlayer_ticks (Suc n) pa p g dt = Some (p', g') \<and>
           stunTimer p' = stunTimer p - real (Suc n) * dt"
  using assms
proof (induction n arbitrary: p g)
  case 0
  from UpdatePlayer_step [OF 0(3-5), of no_keys pa dt False] 0(2)
  show ?case by auto
next
  case (Suc n)
  from Suc.prems(1,2) have pos: "0 < stunTimer p"
    by (smt (verit) mult_nonneg_nonneg of_nat_0_le_iff)
  from UpdatePlayer_step [OF Suc.prems(3-5), of no_keys pa dt False] pos
  obtain p1 g1 s where
    u: "UpdatePlayer no_keys pa p g dt False = Some (p1, g1, s)" and
    st: "stunTimer p1 = stunTimer p - dt" and
    inv: "- 1 \<le> grabbedEnemyIndex p1" "activeEnemies g1 \<le> MAX_ENEMIES"
      "length (enemies g1) = nat MAX_ENEMIES"
    using Suc.prems(4,5) by auto
  from Suc.prems(2) st have "real n * dt < stunTimer p1"
    by (simp add: algebra_simps)
  from Suc.IH [OF Suc.prems(1) this inv]
  obtain p' g' where
    "UpdatePlayer_ticks (Suc n) pa p1 g1 dt = Some (p', g')"
    "stunTimer p' = stunTimer p1 - real (Suc n) * dt"
    by blast
  with u st show ?case
    by (simp add: algebra_simps)
qed

text \<open>
  Claim C9 on the player's stun timer.  \<open>UpdatePlayer\<close> subtracts \<open>dt\<close> from a positive
  stun timer and stores the difference as it is, with no clamp at zero.  A player stunned
  by an enemy's punch (\<open>PLAYER_STUN_TIME\<close>, 0.35 s) and updated 21 times with the step of
  the game loop ends with a stun timer below zero.
\<close>

theorem UpdatePlayer_stun_timer_goes_negative:
  "stunTimer example_hit_player = 35 / 100 \<and>
   (\<exists>p' g'. UpdatePlayer_ticks 21 playerAssets_loaded example_hit_player initial_Globals
               fixedDt_single = Some (p', g') \<and>
             stunTimer p' = - 49 / 2684354560 \<and> stunTimer p' < 0)"
proof -
  have s: "stunTimer example_hit_player = 35 / 100"
    and i: "grabbedEnemyIndex example_hit_player = - 1"
    by (simp_all add: example_hit_player_def DamageEntity_def ApplyKnockback_def Let_def
          InitPlayer_def InitEnemy_def zero_Entity_def SafeClamp_def wrap_int32_def)
  have g: "activeEnemies initial_Globals \<le> MAX_ENEMIES"
    "length (enemies initial_Globals) = nat MAX_ENEMIES"
    by (simp_all add: initial_Globals_def)
  have d: "0 \<le> fixedDt_single" "real 20 * fixedDt_single < stunTimer example_hit_player"
    by (simp_all add: fixedDt_single_def s)
  have n: "(21 :: nat) = Suc 20" by simp
  from UpdatePlayer_ticks_stun [OF d _ g, of playerAssets_loaded] i
  obtain p' g' where
    "UpdatePlayer_ticks (Suc 20) playerAssets_loaded example_hit_player initial_Globals
       fixedDt_single = Some (p', g')"
    "stunTimer p' = stunTimer example_hit_player - real (Suc 20) * fixedDt_single"
    by auto
  then show ?thesis
    unfolding n by (simp add: s fixedDt_single_def)
qed

section \<open>The enemy update and the game loop\<close>

lemma DamageEntity_target_frame:
  assumes "DamageEntity (Some t) a dmg ip = (t', s)"
  shows "\<exists>u. t' = Some u \<and> maxHealth u = maxHealth t \<and>
           grabbedEnemyIndex u = grabbedEnemyIndex t \<and> anim u = anim t \<and>
           hitbox u = hitbox t \<and> position u = position t"
  using assms
  by (cases a) (auto simp add: DamageEntity_def ApplyKnockback_def Let_def split: if_splits)

lemma DamageEntity_occupied:
  assumes "DamageEntity (Some t) a dmg ip = (Some u, s)" and "occupied_slot t"
  shows "occupied_slot u"
  using assms
  by (cases a)
     (auto simp add: DamageEntity_def ApplyKnockback_def Let_def occupied_slot_def SafeClamp_def
        split: if_splits)

lemma ai_case_frame [simp]:
  "health (ai_case_idle d sd e) = health e" "maxHealth (ai_case_idle d sd e) = maxHealth e"
  "deathTimer (ai_case_idle d sd e) = deathTimer e"
  "health (fst (ai_case_chase r tp d dir sd ar cs ps e)) = health e"
  "maxHealth (fst (ai_case_chase r tp d dir sd ar cs ps e)) = maxHealth e"
  "deathTimer (fst (ai_case_chase r tp d dir sd ar cs ps e)) = deathTimer e"
  "health (fst (ai_case_position r tp d dir ar ps e)) = health e"
  "maxHealth (fst (ai_case_position r tp d dir ar ps e)) = maxHealth e"
  "deathTimer (fst (ai_case_position r tp d dir ar ps e)) = deathTimer e"
  "health (ai_case_attack e) = health e" "maxHealth (ai_case_attack e) = maxHealth e"
  "deathTimer (ai_case_attack e) = deathTimer e"
  "health (ai_case_retreat dir rs e) = health e" "maxHealth (ai_case_retreat dir rs e) = maxHealth e"
  "deathTimer (ai_case_retreat dir rs e) = deathTimer e"
  "health (ai_case_evade dir rs e) = health e" "maxHealth (ai_case_evade dir rs e) = maxHealth e"
  "deathTimer (ai_case_evade dir rs e) = deathTimer e"
  by (simp_all add: ai_case_idle_def ai_case_chase_def ai_case_position_def ai_case_attack_def
        ai_case_retreat_def ai_case_evade_def StartEnemyAttack_def Let_def)

lemma ai_case_chase_frame:
  assumes "ai_case_chase r tp d dir sd ar cs ps e = (u, s)"
  shows "health u = health e \<and> maxHealth u = maxHealth e \<and> deathTimer u = deathTimer e"
proof -
  from assms have "u = fst (ai_case_chase r tp d dir sd ar cs ps e)" by simp
  then show ?thesis by simp
qed

lemma ai_case_position_frame:
  assumes "ai_case_position r tp d dir ar ps e = (u, s)"
  shows "health u = health e \<and> maxHealth u = maxHealth e \<and> deathTimer u = deathTimer e"
proof -
  from assms have "u = fst (ai_case_position r tp d dir ar ps e)" by simp
  then show ?thesis by simp
qed

lemma ProcessEnemyAI_target:
  assumes "0 < n" and "select_target e ps n 0 (ENEMY_SIGHT_DIST + 1) None = (d, Some t)"
  shows "ProcessEnemyAI r (Some e) (Some ps) n dt =
           (case boss_adjustments (health e > ENEMY_MAX_HEALTH) of
              (sightDist, attackRange, chaseSpeed, positionSpeed, retreatSpeed) \<Rightarrow>
                ai_switch r (ps ! nat t) d
                  (if vec_x (position (ps ! nat t)) \<ge> vec_x (position e) then 1 else - 1)
                  sightDist attackRange chaseSpeed positionSpeed retreatSpeed
                  (ai_prepare e
                     (if vec_x (position (ps ! nat t)) \<ge> vec_x (position e) then 1 else - 1)
                     dt))"
proof -
  from assms(1) have nn: "(n \<le> 0) = False" by simp
  show ?thesis
    unfolding ProcessEnemyAI_def ai_switch_def ai_prepare_def Let_def
    by (simp only: option.case nn if_False assms(2) prod.case)
qed

lemma ProcessEnemyAI_no_target:
  assumes "0 < n" and "select_target e ps n 0 (ENEMY_SIGHT_DIST + 1) None = (d, None)"
  shows "ProcessEnemyAI r (Some e) (Some ps) n dt =
           (Some (e\<lparr>aiState := AI_STATE_IDLE, currentAnimIndex := ANIM_IDLE,
                    state := ENTITY_STATE_IDLE,
                    velocity := (velocity e)\<lparr>vec_x := 0\<rparr>\<rparr>), [])"
proof -
  from assms(1) have nn: "(n \<le> 0) = False" by simp
  show ?thesis
    unfolding ProcessEnemyAI_def Let_def
    by (simp only: option.case nn if_False assms(2) prod.case)
qed

lemma ProcessEnemyAI_no_players:
  assumes "n \<le> 0"
  shows "ProcessEnemyAI r (Some e) (Some ps) n dt =
           (Some (e\<lparr>aiState := AI_STATE_IDLE, currentAnimIndex := ANIM_IDLE,
                    state := ENTITY_STATE_IDLE\<rparr>), [])"
  using assms by (simp add: ProcessEnemyAI_def)

subsection \<open>What the enemy update leaves alone\<close>

lemma ai_prepare_health [simp]:
  "health (ai_prepare e dir dt) = health e" "maxHealth (ai_prepare e dir dt) = maxHealth e"
  by (simp_all add: ai_prepare_def Let_def)

lemma ai_switch_health:
  assumes "ai_switch r tp d dir sd ar cs ps rs e = (u, s)"
  shows "\<exists>v. u = Some v \<and> health v = health e \<and> maxHealth v = maxHealth e"
  using assms
  by (auto simp add: ai_switch_def dest!: ai_case_chase_frame ai_case_position_frame
        split: if_splits prod.splits)

lemma ProcessEnemyAI_health:
  assumes "ProcessEnemyAI r (Some e) (Some ps) n dt = (e', s)"
  shows "\<exists>u. e' = Some u \<and> health u = health e \<and> maxHealth u = maxHealth e"
proof (cases "0 < n")
  case False
  then have "n \<le> 0" by simp
  from ProcessEnemyAI_no_players [OF this, of r e ps dt] assms show ?thesis by auto
next
  case True
  obtain d t where st: "select_target e ps n 0 (ENEMY_SIGHT_DIST + 1) None = (d, t)"
    by (cases "select_target e ps n 0 (ENEMY_SIGHT_DIST + 1) None")
  show ?thesis
  proof (cases t)
    case None
    from ProcessEnemyAI_no_target [OF True st [unfolded None], of r dt] assms
    show ?thesis by auto
  next
    case (Some j)
    obtain sd ar cs ps' rs where
      b: "boss_adjustments (health e > ENEMY_MAX_HEALTH) = (sd, ar, cs, ps', rs)"
      by (cases "boss_adjustments (health e > ENEMY_MAX_HEALTH)") auto
    from ProcessEnemyAI_target [OF True st [unfolded Some], of r dt] assms
    have "ai_switch r (ps ! nat j) d
            (if vec_x (position (ps ! nat j)) \<ge> vec_x (position e) then 1 else - 1)
            sd ar cs ps' rs
            (ai_prepare e
               (if vec_x (position (ps ! nat j)) \<ge> vec_x (position e) then 1 else - 1) dt)
          = (e', s)"
      by (simp only: b prod.case)
    from ai_switch_health [OF this] show ?thesis by simp
  qed
qed

lemma update_enemy_timers_health [simp]:
  "health (fst (update_enemy_timers e dt)) = health e"
  "maxHealth (fst (update_enemy_timers e dt)) = maxHealth e"
  by (simp_all add: update_enemy_timers_def Let_def)

lemma update_enemy_grabbed_health [simp]:
  "health (update_enemy_grabbed e) = health e"
  "maxHealth (update_enemy_grabbed e) = maxHealth e"
  by (simp_all add: update_enemy_grabbed_def)

lemma update_enemy_ai_health:
  assumes "update_enemy_ai r skipAI e ps n dt = (u, s)"
  shows "health u = health e \<and> maxHealth u = maxHealth e"
proof (cases skipAI)
  case True
  with assms show ?thesis by (auto simp add: update_enemy_ai_def Let_def split: if_splits)
next
  case False
  obtain e' s' where ai: "ProcessEnemyAI r (Some e) (Some ps) n dt = (e', s')"
    by (cases "ProcessEnemyAI r (Some e) (Some ps) n dt")
  from ProcessEnemyAI_health [OF ai] obtain v where
    v: "e' = Some v" "health v = health e" "maxHealth v = maxHealth e" by blast
  from assms False ai v show ?thesis
    by (auto simp add: update_enemy_ai_def Let_def split: if_splits)
qed

lemma ApplyFriction_maxHealth [simp]:
  "maxHealth (ApplyFriction e m) = maxHealth e"
  by (simp add: ApplyFriction_def Let_def)

lemma update_enemy_friction_health [simp]:
  "health (update_enemy_friction e) = health e"
  "maxHealth (update_enemy_friction e) = maxHealth e"
  by (simp_all add: update_enemy_friction_def Let_def)

lemma update_enemy_animation_change_health [simp]:
  "health (update_enemy_animation_change ea e) = health e"
  "maxHealth (update_enemy_animation_change ea e) = maxHealth e"
  by (simp_all add: update_enemy_animation_change_def UpdateEnemyAnimationFrames_def)

lemma UpdatePhysics_bounds_maxHealth [simp]:
  "maxHealth (UpdatePhysics_bounds g e) = maxHealth e"
  by (simp add: UpdatePhysics_bounds_def Let_def)

lemma UpdatePhysics_maxHealth [simp]:
  "maxHealth (UpdatePhysics g e dt) = maxHealth e"
  by (simp add: UpdatePhysics_def UpdatePhysics_after_vertical_def
        UpdatePhysics_after_horizontal_def)

lemma update_enemy_attack_slowdown_health [simp]:
  "health (update_enemy_attack_slowdown e) = health e"
  "maxHealth (update_enemy_attack_slowdown e) = maxHealth e"
  by (simp_all add: update_enemy_attack_slowdown_def Let_def)

lemma update_enemy_attack_end_health [simp]:
  "health (update_enemy_attack_end e dt) = health e"
  "maxHealth (update_enemy_attack_end e dt) = maxHealth e"
  by (simp_all add: update_enemy_attack_end_def Let_def)

lemma ProcessEnemyAttack_window_frame:
  assumes "ProcessEnemyAttack_window e ps n = (e', ps', s, h)"
  shows "\<exists>u qs. e' = Some u \<and> ps' = Some qs \<and> health u = health e \<and>
           maxHealth u = maxHealth e \<and> length qs = length ps \<and>
           (\<forall>k. grabbedEnemyIndex (qs ! k) = grabbedEnemyIndex (ps ! k))"
proof (cases "first_player_hit ps n (ComputeAttackHitbox e) 0")
  case None
  with assms show ?thesis
    by (auto simp add: ProcessEnemyAttack_window_def Let_def split: prod.splits if_splits)
next
  case (Some j)
  obtain t c where d: "DamageEntity (Some (ps ! nat j)) (Some e) (attackDamage e) False = (t, c)"
    by (cases "DamageEntity (Some (ps ! nat j)) (Some e) (attackDamage e) False")
  from DamageEntity_target_frame [OF d] obtain v where
    v: "t = Some v" "grabbedEnemyIndex v = grabbedEnemyIndex (ps ! nat j)" by blast
  have "grabbedEnemyIndex (ps[nat j := v] ! k) = grabbedEnemyIndex (ps ! k)" for k
    using v(2) by (cases "k = nat j"; cases "k < length ps") (simp_all add: list_update_beyond)
  with assms Some d v(1) show ?thesis
    by (auto simp add: ProcessEnemyAttack_window_def Let_def split: prod.splits if_splits)
qed

lemma ProcessEnemyAttack_frame:
  assumes "ProcessEnemyAttack ea (Some e) (Some ps) n = (e', ps', s, h)"
  shows "\<exists>u qs. e' = Some u \<and> ps' = Some qs \<and> health u = health e \<and>
           maxHealth u = maxHealth e \<and> length qs = length ps \<and>
           (\<forall>k. grabbedEnemyIndex (qs ! k) = grabbedEnemyIndex (ps ! k))"
proof -
  define e1 where "e1 = (if totalFrames (anim e) \<le> 0
                    then e\<lparr>anim := (anim e)
                           \<lparr>totalFrames := (if ea_punch ea > 0 then ea_punch ea else 1)\<rparr>\<rparr>
                    else e)"
  have h1: "health e1 = health e" "maxHealth e1 = maxHealth e" by (simp_all add: e1_def)
  have "ProcessEnemyAttack ea (Some e) (Some ps) n = (Some e, Some ps, [], None)
        \<or> ProcessEnemyAttack ea (Some e) (Some ps) n = ProcessEnemyAttack_window e1 ps n"
    unfolding e1_def by (simp add: ProcessEnemyAttack_def Let_def)
  then show ?thesis
  proof
    assume "ProcessEnemyAttack ea (Some e) (Some ps) n = (Some e, Some ps, [], None)"
    with assms show ?thesis by auto
  next
    assume "ProcessEnemyAttack ea (Some e) (Some ps) n = ProcessEnemyAttack_window e1 ps n"
    with assms have "ProcessEnemyAttack_window e1 ps n = (e', ps', s, h)" by simp
    from ProcessEnemyAttack_window_frame [OF this] h1 show ?thesis by simp
  qed
qed

lemma UpdateEnemy_frame:
  assumes "UpdateEnemy ea r g e ps n i dt = (e', ps', s)"
  shows "health e' = health e" "maxHealth e' = maxHealth e" "length ps' = length ps"
    "grabbedEnemyIndex (ps' ! k) = grabbedEnemyIndex (ps ! k)"
proof -
  obtain e1 skipAI where t: "update_enemy_timers e dt = (e1, skipAI)"
    by (cases "update_enemy_timers e dt")
  then have h1: "health e1 = health e" "maxHealth e1 = maxHealth e"
    using update_enemy_timers_health [of e dt] by simp_all
  have "health e' = health e \<and> maxHealth e' = maxHealth e \<and> length ps' = length ps \<and>
        grabbedEnemyIndex (ps' ! k) = grabbedEnemyIndex (ps ! k)"
  proof (cases "grabbed_by_player ps n i 0")
    case True
    with assms t h1 show ?thesis by (auto simp add: UpdateEnemy_def)
  next
    case False
    obtain e2 s1 where ai: "update_enemy_ai r skipAI e1 ps n dt = (e2, s1)"
      by (cases "update_enemy_ai r skipAI e1 ps n dt")
    note h2 = update_enemy_ai_health [OF ai]
    define e6 where "e6 = (UpdatePhysics g (update_enemy_animation_change ea
                             (update_enemy_friction e2)) dt)
                          \<lparr>anim := UpdateAnimation (anim (UpdatePhysics g
                             (update_enemy_animation_change ea (update_enemy_friction e2)) dt))
                             dt\<rparr>"
    have h6: "health e6 = health e" "maxHealth e6 = maxHealth e"
      using h1 h2 by (simp_all add: e6_def)
    obtain e7 qs s2 h where
      pa: "ProcessEnemyAttack ea (Some e6) (Some ps) n = (e7, qs, s2, h)"
      by (cases "ProcessEnemyAttack ea (Some e6) (Some ps) n") auto
    from ProcessEnemyAttack_frame [OF pa] obtain u ps2 where
      u: "e7 = Some u" "qs = Some ps2" "health u = health e6" "maxHealth u = maxHealth e6"
        "length ps2 = length ps"
        "\<forall>k. grabbedEnemyIndex (ps2 ! k) = grabbedEnemyIndex (ps ! k)"
      by blast
    from assms t False ai pa u h6 show ?thesis
      by (auto simp add: UpdateEnemy_def Let_def e6_def)
  qed
  then show "health e' = health e" "maxHealth e' = maxHealth e" "length ps' = length ps"
    "grabbedEnemyIndex (ps' ! k) = grabbedEnemyIndex (ps ! k)"
    by simp_all
qed

subsection \<open>Registry density\<close>

lemma registry_dense_initial: "registry_dense initial_Globals"
  by (auto simp add: registry_dense_def initial_Globals_def)

lemma occupied_slot_cong:
  "health e' = health e \<Longrightarrow> maxHealth e' = maxHealth e \<Longrightarrow> occupied_slot e' = occupied_slot e"
  by (simp add: occupied_slot_def)

lemma registry_dense_enemies:
  assumes "registry_dense g" and "length es = length (enemies g)"
    and "\<And>k. k < length es \<Longrightarrow> occupied_slot (enemies g ! k) \<Longrightarrow> occupied_slot (es ! k)"
    and "enemies g' = es" and "activeEnemies g' = activeEnemies g"
  shows "registry_dense g'"
  using assms by (auto simp add: registry_dense_def)

lemma registry_dense_update:
  assumes "registry_dense g" and "k < length (enemies g) \<Longrightarrow> occupied_slot e"
  shows "registry_dense (g\<lparr>enemies := (enemies g)[k := e]\<rparr>)"
proof (rule registry_dense_enemies [OF assms(1)])
  show "length ((enemies g)[k := e]) = length (enemies g)" by simp
  show "occupied_slot ((enemies g)[k := e] ! j)"
    if "j < length ((enemies g)[k := e])" "occupied_slot (enemies g ! j)" for j
    using that assms(2) by (cases "j = k") simp_all
qed simp_all

lemma registry_dense_spawn:
  assumes "registry_dense g" and "activeEnemies g < MAX_ENEMIES"
    and "occupied_slot e"
    and "enemies g' = (enemies g)[nat (activeEnemies g) := e]"
    and "activeEnemies g' = activeEnemies g + 1"
  shows "registry_dense g'"
proof -
  from assms(1) have a: "0 \<le> activeEnemies g" and l: "length (enemies g) = nat MAX_ENEMIES"
    and occ: "\<And>i. 0 \<le> i \<Longrightarrow> i < activeEnemies g \<Longrightarrow> occupied_slot (enemies g ! nat i)"
    by (simp_all add: registry_dense_def)
  have "occupied_slot (enemies g' ! nat i)" if "0 \<le> i" "i < activeEnemies g'" for i
  proof (cases "i = activeEnemies g")
    case True
    with assms a l show ?thesis by simp
  next
    case False
    with that assms(5) have "i < activeEnemies g" by simp
    with that False occ [of i] assms(4) a show ?thesis
      by (simp add: nth_list_update)
  qed
  with assms a l show ?thesis by (simp add: registry_dense_def)
qed

lemma registry_dense_RemoveDeadEnemy:
  assumes "registry_dense g"
  shows "registry_dense (RemoveDeadEnemy index g)"
proof (cases "index < 0 \<or> index \<ge> activeEnemies g")
  case True
  with assms show ?thesis by (simp add: RemoveDeadEnemy_def)
next
  case False
  then have inr: "0 \<le> index" "index < activeEnemies g" by simp_all
  from assms have a: "activeEnemies g \<le> MAX_ENEMIES" and l: "length (enemies g) = nat MAX_ENEMIES"
    and occ: "\<And>i. 0 \<le> i \<Longrightarrow> i < activeEnemies g \<Longrightarrow> occupied_slot (enemies g ! nat i)"
    by (simp_all add: registry_dense_def)
  have en: "enemies (RemoveDeadEnemy index g) =
      (if index < activeEnemies g - 1
       then (enemies g)[nat index := enemies g ! nat (activeEnemies g - 1)] else enemies g)"
    and ac: "activeEnemies (RemoveDeadEnemy index g) = activeEnemies g - 1"
    using inr by (simp_all add: RemoveDeadEnemy_def Let_def)
  have "occupied_slot (enemies (RemoveDeadEnemy index g) ! nat i)"
    if "0 \<le> i" "i < activeEnemies g - 1" for i
  proof (cases "i = index")
    case True
    with that inr l a occ [of "activeEnemies g - 1"] show ?thesis
      by (simp add: en)
  next
    case False
    with that inr have "nat index \<noteq> nat i" by simp
    with that occ [of i] show ?thesis
      by (simp add: en)
  qed
  with inr a l show ?thesis
    by (simp add: registry_dense_def ac en)
qed

lemma stage_selected_cong:
  "currentStageDef g' = currentStageDef g \<Longrightarrow> stageHasBoss g' = stageHasBoss g \<Longrightarrow>
   stage_selected g' = stage_selected g"
  by (simp add: stage_selected_def split: option.splits)

lemma stage_selected_enemies [simp]:
  "stage_selected (g\<lparr>enemies := es\<rparr>) = stage_selected g"
  by (simp add: stage_selected_def split: option.splits)

lemma stage_selected_RemoveDeadEnemy [simp]:
  "stage_selected (RemoveDeadEnemy index g) = stage_selected g"
  by (rule stage_selected_cong) (simp_all add: RemoveDeadEnemy_def Let_def)

lemma UpdateEnemies_loop_stop:
  "\<not> int i < activeEnemies g \<Longrightarrow> UpdateEnemies_loop ea rs n dt i ps g snds = (ps, g, snds)"
  by (subst UpdateEnemies_loop.simps) (simp only: if_False)

lemma UpdateEnemies_loop_remove:
  "int i < activeEnemies g \<Longrightarrow> deathTimer (enemies g ! i) > 0 \<Longrightarrow>
   deathTimer (enemies g ! i) - dt \<le> 0 \<Longrightarrow>
   UpdateEnemies_loop ea rs n dt i ps g snds =
   UpdateEnemies_loop ea rs n dt i ps
     (RemoveDeadEnemy (int i)
        (g\<lparr>enemies := (enemies g)
             [i := (enemies g ! i)\<lparr>deathTimer := deathTimer (enemies g ! i) - dt\<rparr>]\<rparr>)) snds"
  by (subst UpdateEnemies_loop.simps) (simp only: if_True)

lemma UpdateEnemies_loop_dying:
  "int i < activeEnemies g \<Longrightarrow> deathTimer (enemies g ! i) > 0 \<Longrightarrow>
   \<not> deathTimer (enemies g ! i) - dt \<le> 0 \<Longrightarrow>
   UpdateEnemies_loop ea rs n dt i ps g snds =
   UpdateEnemies_loop ea rs n dt (i + 1) ps
     (g\<lparr>enemies := (enemies g)
          [i := (enemies g ! i)\<lparr>deathTimer := deathTimer (enemies g ! i) - dt,
                                  currentAnimIndex := ANIM_HURT,
                                  velocity := zero_Vector2\<rparr>]\<rparr>) snds"
  by (subst UpdateEnemies_loop.simps) (simp only: if_True if_False)

lemma UpdateEnemies_loop_dead:
  "int i < activeEnemies g \<Longrightarrow> \<not> deathTimer (enemies g ! i) > 0 \<Longrightarrow>
   health (enemies g ! i) \<le> 0 \<Longrightarrow>
   UpdateEnemies_loop ea rs n dt i ps g snds =
   UpdateEnemies_loop ea rs n dt (i + 1) ps g snds"
  by (subst UpdateEnemies_loop.simps) (simp only: if_True if_False)

lemma UpdateEnemies_loop_alive:
  "int i < activeEnemies g \<Longrightarrow> \<not> deathTimer (enemies g ! i) > 0 \<Longrightarrow>
   \<not> health (enemies g ! i) \<le> 0 \<Longrightarrow>
   UpdateEnemy ea (rs i) g (enemies g ! i) ps n (int i) dt = (e', ps', s) \<Longrightarrow>
   UpdateEnemies_loop ea rs n dt i ps g snds =
   UpdateEnemies_loop ea rs n dt (i + 1) ps' (g\<lparr>enemies := (enemies g)[i := e']\<rparr>) (snds @ s)"
  by (subst UpdateEnemies_loop.simps) (simp only: if_True if_False prod.case)

lemma UpdateEnemies_loop_invariant:
  assumes "registry_dense g" and "stage_selected g"
    and "UpdateEnemies_loop ea rs n dt i ps g snds = (ps', g', snds')"
  shows "registry_dense g' \<and> stage_selected g' \<and> length ps' = length ps \<and>
         (\<forall>k. grabbedEnemyIndex (ps' ! k) = grabbedEnemyIndex (ps ! k))"
  using assms
proof (induction "nat (activeEnemies g - int i)" arbitrary: i ps g snds)
  case 0
  then have "\<not> int i < activeEnemies g" by simp
  from UpdateEnemies_loop_stop [OF this] 0 show ?case by simp
next
  case (Suc m)
  from Suc.hyps(2) have lt: "int i < activeEnemies g" by linarith
  from Suc.prems(1) lt have il: "i < length (enemies g)"
    and occ: "occupied_slot (enemies g ! i)"
    using Suc.prems(1) by (auto simp add: registry_dense_def dest: spec [of _ "int i"])
  let ?e = "enemies g ! i"
  consider (remove) "deathTimer ?e > 0" "deathTimer ?e - dt \<le> 0"
    | (dying) "deathTimer ?e > 0" "\<not> deathTimer ?e - dt \<le> 0"
    | (dead) "\<not> deathTimer ?e > 0" "health ?e \<le> 0"
    | (alive) "\<not> deathTimer ?e > 0" "\<not> health ?e \<le> 0"
    by blast
  then show ?case
  proof cases
    case remove
    let ?g1 = "g\<lparr>enemies := (enemies g)[i := ?e\<lparr>deathTimer := deathTimer ?e - dt\<rparr>]\<rparr>"
    let ?g2 = "RemoveDeadEnemy (int i) ?g1"
    have d1: "registry_dense ?g1"
      using occ by (intro registry_dense_update [OF Suc.prems(1)]) (simp add: occupied_slot_def)
    then have d2: "registry_dense ?g2" by (rule registry_dense_RemoveDeadEnemy)
    have s2: "stage_selected ?g2"
      using Suc.prems(2) by simp
    have "activeEnemies ?g2 = activeEnemies g - 1"
      using lt by (simp add: RemoveDeadEnemy_def Let_def)
    with Suc.hyps(2) have m: "m = nat (activeEnemies ?g2 - int i)" by linarith
    from Suc.prems(3) have "UpdateEnemies_loop ea rs n dt i ps ?g2 snds = (ps', g', snds')"
      by (simp only: UpdateEnemies_loop_remove [OF lt remove])
    from Suc.hyps(1) [OF m d2 s2 this] show ?thesis .
  next
    case dying
    let ?g1 = "g\<lparr>enemies := (enemies g)
          [i := ?e\<lparr>deathTimer := deathTimer ?e - dt, currentAnimIndex := ANIM_HURT,
                   velocity := zero_Vector2\<rparr>]\<rparr>"
    have d1: "registry_dense ?g1"
      using occ by (intro registry_dense_update [OF Suc.prems(1)]) (simp add: occupied_slot_def)
    have s1: "stage_selected ?g1"
      using Suc.prems(2) by simp
    from Suc.hyps(2) have m: "m = nat (activeEnemies ?g1 - int (i + 1))" by simp
    from Suc.prems(3) have "UpdateEnemies_loop ea rs n dt (i + 1) ps ?g1 snds = (ps', g', snds')"
      by (simp only: UpdateEnemies_loop_dying [OF lt dying])
    from Suc.hyps(1) [OF m d1 s1 this] show ?thesis .
  next
    case dead
    from Suc.hyps(2) have m: "m = nat (activeEnemies g - int (i + 1))" by simp
    from Suc.prems(3) have "UpdateEnemies_loop ea rs n dt (i + 1) ps g snds = (ps', g', snds')"
      by (simp only: UpdateEnemies_loop_dead [OF lt dead])
    from Suc.hyps(1) [OF m Suc.prems(1,2) this] show ?thesis .
  next
    case alive
    obtain e1 ps1 s1 where
      u: "UpdateEnemy ea (rs i) g ?e ps n (int i) dt = (e1, ps1, s1)"
      by (cases "UpdateEnemy ea (rs i) g ?e ps n (int i) dt")
    note f = UpdateEnemy_frame [OF u]
    let ?g1 = "g\<lparr>enemies := (enemies g)[i := e1]\<rparr>"
    have "occupied_slot e1"
      using occ f(1,2) by (simp add: occupied_slot_def)
    then have d1: "registry_dense ?g1"
      by (intro registry_dense_update [OF Suc.prems(1)])
    have s1: "stage_selected ?g1"
      using Suc.prems(2) by simp
    from Suc.hyps(2) have m: "m = nat (activeEnemies ?g1 - int (i + 1))" by simp
    from Suc.prems(3)
    have "UpdateEnemies_loop ea rs n dt (i + 1) ps1 ?g1 (snds @ s1) = (ps', g', snds')"
      by (simp only: UpdateEnemies_loop_alive [where rs = rs, OF lt alive u])
    from Suc.hyps(1) [OF m d1 s1 this] f(3,4) show ?thesis by simp
  qed
qed

lemma occupied_slot_spawn:
  "occupied_slot ((InitEnemy ea pos)\<lparr>facingRight := False\<rparr>)"
  "0 < h \<Longrightarrow>
   occupied_slot ((InitEnemy ea pos)\<lparr>health := h, maxHealth := h, facingRight := False\<rparr>)"
  by (simp_all add: occupied_slot_def InitEnemy_def)

lemma STAGE_DEFS_boss_health:
  "def \<in> set STAGE_DEFS \<Longrightarrow> hasBoss def \<Longrightarrow> 0 < bossHealth def"
  by (auto simp add: STAGE_DEFS_def)

lemma ConsumeEnemySpawnQuota_registry [simp]:
  "enemies (ConsumeEnemySpawnQuota n g) = enemies g"
  "activeEnemies (ConsumeEnemySpawnQuota n g) = activeEnemies g"
  "currentStageDef (ConsumeEnemySpawnQuota n g) = currentStageDef g"
  "stageHasBoss (ConsumeEnemySpawnQuota n g) = stageHasBoss g"
  by (simp_all add: ConsumeEnemySpawnQuota_def Let_def)

lemma GenerateTileMap_registry [simp]:
  "enemies (GenerateTileMap s g) = enemies g"
  "activeEnemies (GenerateTileMap s g) = activeEnemies g"
  "currentStageDef (GenerateTileMap s g) = currentStageDef g"
  "stageHasBoss (GenerateTileMap s g) = stageHasBoss g"
  by (simp_all add: GenerateTileMap_def Let_def split: option.splits)

lemma SetupColliders_registry [simp]:
  "enemies (SetupColliders b s g) = enemies g"
  "activeEnemies (SetupColliders b s g) = activeEnemies g"
  "currentStageDef (SetupColliders b s g) = currentStageDef g"
  "stageHasBoss (SetupColliders b s g) = stageHasBoss g"
  by (simp_all add: SetupColliders_def Let_def)

lemma registry_dense_cong:
  "enemies g' = enemies g \<Longrightarrow> activeEnemies g' = activeEnemies g \<Longrightarrow>
   registry_dense g' = registry_dense g"
  by (simp add: registry_dense_def)

lemma SpawnInitialWave_loop_stop:
  "\<not> (i < initialWave d \<and> activeEnemies g < MAX_ENEMIES) \<Longrightarrow>
   SpawnInitialWave_loop ea d i g = g"
  by (subst SpawnInitialWave_loop.simps) (simp only: if_not_P if_False)

lemma SpawnInitialWave_loop_step:
  "i < initialWave d \<Longrightarrow> activeEnemies g < MAX_ENEMIES \<Longrightarrow>
   SpawnInitialWave_loop ea d i g =
   SpawnInitialWave_loop ea d (i + 1)
     (g\<lparr>enemies := (enemies g)[nat (activeEnemies g) :=
          (InitEnemy ea \<lparr>vec_x = ClampFloat (360 + 110 * of_int i) 120
                                      (LevelWidth g - PLAYER_WIDTH),
                         vec_y = GROUND_Y - PLAYER_HEIGHT\<rparr>)\<lparr>facingRight := False\<rparr>],
        activeEnemies := activeEnemies g + 1\<rparr>)"
  by (simp add: SpawnInitialWave_loop.simps [of ea d i g] Let_def del: MAX_ENEMIES_def)

lemma SpawnInitialWave_loop_invariant:
  "registry_dense g \<Longrightarrow>
   registry_dense (SpawnInitialWave_loop ea d i g) \<and>
   currentStageDef (SpawnInitialWave_loop ea d i g) = currentStageDef g \<and>
   stageHasBoss (SpawnInitialWave_loop ea d i g) = stageHasBoss g"
proof (induction "nat (initialWave d - i)" arbitrary: i g)
  case 0
  then have "\<not> (i < initialWave d \<and> activeEnemies g < MAX_ENEMIES)" by simp
  from SpawnInitialWave_loop_stop [OF this] 0 show ?case by simp
next
  case (Suc n)
  show ?case
  proof (cases "activeEnemies g < MAX_ENEMIES")
    case False
    then have "\<not> (i < initialWave d \<and> activeEnemies g < MAX_ENEMIES)" by blast
    from SpawnInitialWave_loop_stop [OF this] Suc.prems show ?thesis by simp
  next
    case True
    from Suc.hyps(2) have lt: "i < initialWave d" and n: "n = nat (initialWave d - (i + 1))"
      by linarith+
    let ?e = "(InitEnemy ea \<lparr>vec_x = ClampFloat (360 + 110 * of_int i) 120
                                      (LevelWidth g - PLAYER_WIDTH),
                         vec_y = GROUND_Y - PLAYER_HEIGHT\<rparr>)\<lparr>facingRight := False\<rparr>"
    let ?g2 = "g\<lparr>enemies := (enemies g)[nat (activeEnemies g) := ?e],
                 activeEnemies := activeEnemies g + 1\<rparr>"
    have "registry_dense ?g2"
      using Suc.prems True
      by (rule registry_dense_spawn [where g = g and e = ?e])
         (simp_all add: occupied_slot_spawn del: MAX_ENEMIES_def)
    from Suc.hyps(1) [OF n this] show ?thesis
      by (simp only: SpawnInitialWave_loop_step [OF lt True]) simp
  qed
qed

lemma SpawnInitialWave_invariant:
  "registry_dense g \<Longrightarrow>
   registry_dense (SpawnInitialWave ea d g) \<and>
   currentStageDef (SpawnInitialWave ea d g) = currentStageDef g \<and>
   stageHasBoss (SpawnInitialWave ea d g) = stageHasBoss g"
  using SpawnInitialWave_loop_invariant [of g ea "the d" 0]
  by (auto simp add: SpawnInitialWave_def
        registry_dense_cong [of "ConsumeEnemySpawnQuota n g'" g' for n g'] split: option.splits)

lemma InitLevel_reset_registry:
  "enemies (InitLevel_reset tw si g) = replicate (nat MAX_ENEMIES) zero_Entity"
  "activeEnemies (InitLevel_reset tw si g) = 0"
  "currentStageDef (InitLevel_reset tw si g) = Some (STAGE_DEFS ! nat si)"
  "stageHasBoss (InitLevel_reset tw si g) = hasBoss (STAGE_DEFS ! nat si)"
  by (simp_all add: InitLevel_reset_def Let_def ClearEnemies_def)

lemma registry_dense_cleared:
  "enemies g = replicate (nat MAX_ENEMIES) zero_Entity \<Longrightarrow> activeEnemies g = 0 \<Longrightarrow>
   registry_dense g"
  by (auto simp add: registry_dense_def)

lemma InitLevel_invariant:
  "registry_dense (snd (InitLevel ea tw alloc stage g)) \<and>
   stage_selected (snd (InitLevel ea tw alloc stage g))"
proof -
  define si where
    "si = (if (if stage < 0 then 0 else stage) \<ge> STAGE_COUNT then STAGE_COUNT - 1
           else (if stage < 0 then 0 else stage))"
  have r: "0 \<le> si" "nat si < length STAGE_DEFS"
    by (auto simp add: si_def STAGE_COUNT_def STAGE_DEFS_def)
  then have m: "STAGE_DEFS ! nat si \<in> set STAGE_DEFS" by simp
  define g7 where "g7 = InitLevel_reset tw si g"
  have d7: "registry_dense g7" "currentStageDef g7 = Some (STAGE_DEFS ! nat si)"
    "stageHasBoss g7 = hasBoss (STAGE_DEFS ! nat si)"
    by (simp_all add: g7_def InitLevel_reset_registry registry_dense_cleared)
  then have s7: "stage_selected g7" using m by (simp add: stage_selected_def)
  have k: "registry_dense g' \<and> stage_selected g'"
    if "enemies g' = enemies g7" "activeEnemies g' = activeEnemies g7"
      "currentStageDef g' = currentStageDef g7" "stageHasBoss g' = stageHasBoss g7" for g'
    using that d7(1) s7
    by (simp add: registry_dense_cong [of g' g7] stage_selected_cong [of g' g7])
  define g11 where
    "g11 = (SetupColliders (alloc_colliders alloc) si
              (GenerateTileMap si
                 (g7\<lparr>currentLevel := (currentLevel g7)\<lparr>tileMap := Some (\<lambda>i. 0)\<rparr>\<rparr>)))
           \<lparr>enemiesRemainingToSpawn := spawnQuota (STAGE_DEFS ! nat si),
             maxConcurrentEnemies := concurrentCap (STAGE_DEFS ! nat si)\<rparr>"
  have k11: "registry_dense g11 \<and> stage_selected g11"
    by (rule k) (simp_all add: g11_def)
  from SpawnInitialWave_invariant [of g11 ea "currentStageDef g11"] k11
  have w: "registry_dense (SpawnInitialWave ea (currentStageDef g11) g11) \<and>
           stage_selected (SpawnInitialWave ea (currentStageDef g11) g11)"
    by (simp add: stage_selected_cong [of "SpawnInitialWave ea (currentStageDef g11) g11" g11])
  have "snd (InitLevel ea tw alloc stage g) = SpawnInitialWave ea (currentStageDef g11) g11
        \<or> (enemies (snd (InitLevel ea tw alloc stage g)) = enemies g7 \<and>
            activeEnemies (snd (InitLevel ea tw alloc stage g)) = activeEnemies g7 \<and>
            currentStageDef (snd (InitLevel ea tw alloc stage g)) = currentStageDef g7 \<and>
            stageHasBoss (snd (InitLevel ea tw alloc stage g)) = stageHasBoss g7)"
    unfolding InitLevel_def Let_def g11_def g7_def si_def by simp
  with w k show ?thesis by metis
qed

lemma UpdateLevel_spawn_invariant:
  assumes "registry_dense g"
  shows "registry_dense (UpdateLevel_spawn ea d rv dt lead mx g) \<and>
         currentStageDef (UpdateLevel_spawn ea d rv dt lead mx g) = currentStageDef g \<and>
         stageHasBoss (UpdateLevel_spawn ea d rv dt lead mx g) = stageHasBoss g"
proof -
  have sp: "registry_dense (ConsumeEnemySpawnQuota 1 g')"
    if "activeEnemies g < MAX_ENEMIES" "occupied_slot e"
      "enemies g' = (enemies g)[nat (activeEnemies g) := e]"
      "activeEnemies g' = activeEnemies g + 1" for g' e
    using registry_dense_spawn [OF assms that]
    by (simp add: registry_dense_cong [of "ConsumeEnemySpawnQuota 1 g'" g'])
  have tm: "registry_dense (g\<lparr>spawnTimer := t\<rparr>)" for t
    using assms by (simp add: registry_dense_cong [of "g\<lparr>spawnTimer := t\<rparr>" g])
  show ?thesis
    unfolding UpdateLevel_spawn_def Let_def
    by (auto intro!: sp tm simp add: occupied_slot_spawn simp del: MAX_ENEMIES_def)
qed

lemma UpdateLevel_boss_invariant:
  assumes "registry_dense g" and "stageHasBoss g \<longrightarrow> 0 < bossHealth d"
  shows "registry_dense (UpdateLevel_boss ea d lead sw mx g) \<and>
         currentStageDef (UpdateLevel_boss ea d lead sw mx g) = currentStageDef g \<and>
         stageHasBoss (UpdateLevel_boss ea d lead sw mx g) = stageHasBoss g"
proof -
  have sp: "registry_dense g'"
    if "activeEnemies g < MAX_ENEMIES" "occupied_slot e"
      "enemies g' = (enemies g)[nat (activeEnemies g) := e]"
      "activeEnemies g' = activeEnemies g + 1" for g' e
    using registry_dense_spawn [OF assms(1) that] .
  show ?thesis
    unfolding UpdateLevel_boss_def Let_def
    using assms(2)
    by (auto intro!: sp assms(1) simp add: occupied_slot_spawn simp del: MAX_ENEMIES_def)
qed

lemma UpdateLevel_invariant:
  assumes "registry_dense g" and "stage_selected g"
  shows "registry_dense (UpdateLevel ea rv dt lead g) \<and>
         stage_selected (UpdateLevel ea rv dt lead g)"
proof (cases "currentStageDef g")
  case None
  with assms show ?thesis by (simp add: UpdateLevel_def)
next
  case (Some d)
  let ?g1 = "UpdateLevel_spawn ea d rv dt lead (LevelWidth g - PLAYER_WIDTH) g"
  note s = UpdateLevel_spawn_invariant [OF assms(1), of ea d rv dt lead
             "LevelWidth g - PLAYER_WIDTH"]
  from assms(2) Some have "d \<in> set STAGE_DEFS" "stageHasBoss g = hasBoss d"
    by (simp_all add: stage_selected_def)
  with s have "stageHasBoss ?g1 \<longrightarrow> 0 < bossHealth d"
    by (auto dest: STAGE_DEFS_boss_health)
  from UpdateLevel_boss_invariant [OF _ this, of ea lead "LevelWidth g"
         "LevelWidth g - PLAYER_WIDTH"] s
  have "registry_dense (UpdateLevel ea rv dt lead g) \<and>
        currentStageDef (UpdateLevel ea rv dt lead g) = currentStageDef g \<and>
        stageHasBoss (UpdateLevel ea rv dt lead g) = stageHasBoss g"
    by (simp add: UpdateLevel_def Some Let_def)
  with assms(2) show ?thesis
    by (simp add: stage_selected_cong [of "UpdateLevel ea rv dt lead g" g])
qed

subsection \<open>The registry through a player tick\<close>

lemma registry_kept_refl [simp]: "registry_kept g g"
  by (simp add: registry_kept_def)

lemma registry_kept_trans:
  "registry_kept g g1 \<Longrightarrow> registry_kept g1 g2 \<Longrightarrow> registry_kept g g2"
  unfolding registry_kept_def by auto

lemma registry_kept_update:
  assumes "k < length (enemies g) \<Longrightarrow> occupied_slot (enemies g ! k) \<Longrightarrow> occupied_slot e"
  shows "registry_kept g (g\<lparr>enemies := (enemies g)[k := e]\<rparr>)"
proof -
  have "occupied_slot ((enemies g)[k := e] ! j)" if "occupied_slot (enemies g ! j)" for j
    using that assms by (cases "j = k"; cases "k < length (enemies g)") (simp_all add: list_update_beyond)
  then show ?thesis by (simp add: registry_kept_def)
qed

lemma registry_kept_dense:
  "registry_kept g g' \<Longrightarrow> registry_dense g \<Longrightarrow> registry_dense g'"
  unfolding registry_kept_def registry_dense_def by auto

lemma registry_kept_stage:
  assumes "registry_kept g g'"
  shows "stage_selected g' = stage_selected g"
proof (rule stage_selected_cong)
  from assms show "currentStageDef g' = currentStageDef g"
    unfolding registry_kept_def by blast
  from assms show "stageHasBoss g' = stageHasBoss g"
    unfolding registry_kept_def by blast
qed

lemma input_grab_start_kept:
  "registry_kept g (snd (input_grab_start kb c p g))"
proof -
  let ?c = "find_closest_enemy g p 0 60 (- 1)"
  have "registry_kept g
          (g\<lparr>enemies := (enemies g)
               [nat ?c := (enemies g ! nat ?c)
                  \<lparr>state := ENTITY_STATE_HURT, velocity := zero_Vector2, stunTimer := 1\<rparr>]\<rparr>)"
    by (rule registry_kept_update) (simp add: occupied_slot_def)
  then show ?thesis
    by (simp add: input_grab_start_def Let_def)
qed

lemma input_grab_release_kept:
  assumes "input_grab_release kb p g = Some (p', g', s)"
  shows "registry_kept g g'"
proof (cases "IsKeyReleased kb KEY_G \<and> grabbedEnemyIndex p \<noteq> - 1 \<and>
              grabbedEnemyIndex p < activeEnemies g \<and>
              (\<exists>en. enemy_at g (grabbedEnemyIndex p) = Some en \<and> health en > 0)")
  case False
  with assms have "g' = g"
    by (auto simp add: input_grab_release_def Let_def split: if_splits option.splits)
  then show ?thesis by simp
next
  case True
  then obtain en where en: "enemy_at g (grabbedEnemyIndex p) = Some en" "health en > 0"
    by blast
  then have e: "en = enemies g ! nat (grabbedEnemyIndex p)"
    by (simp add: enemy_at_def split: if_splits)
  let ?thrown = "en\<lparr>velocity := \<lparr>vec_x = (if facingRight p then 400 else - 400), vec_y = - 200\<rparr>,
                     state := ENTITY_STATE_MOVE, stunTimer := 1 / 2\<rparr>"
  obtain t c where d: "DamageEntity (Some ?thrown) (Some p) 5 True = (t, c)"
    by (cases "DamageEntity (Some ?thrown) (Some p) 5 True")
  from DamageEntity_target_frame [OF d] obtain u where u: "t = Some u" by blast
  have "occupied_slot u" if "occupied_slot en"
    using DamageEntity_occupied [OF d [unfolded u], unfolded occupied_slot_def] that
    by (simp add: occupied_slot_def)
  then have "registry_kept g (g\<lparr>enemies := (enemies g)[nat (grabbedEnemyIndex p) := u]\<rparr>)"
    using e by (intro registry_kept_update) simp
  moreover from assms True en d u
  have "g' = g\<lparr>enemies := (enemies g)[nat (grabbedEnemyIndex p) := u]\<rparr>"
    by (simp add: input_grab_release_def Let_def)
  ultimately show ?thesis by simp
qed

lemma PlayerHitDetection_kept:
  assumes "PlayerHitDetection p g = (p', g', s, h)"
  shows "registry_kept g g'"
proof (cases "first_enemy_hit g (ComputeAttackHitbox p) 0")
  case None
  with assms have "g' = g"
    by (auto simp add: PlayerHitDetection_def Let_def split: prod.splits if_splits)
  then show ?thesis by simp
next
  case (Some i)
  obtain t c where
    d: "DamageEntity (Some (enemies g ! nat i)) (Some p) (attackDamage p) True = (t, c)"
    by (cases "DamageEntity (Some (enemies g ! nat i)) (Some p) (attackDamage p) True")
  from DamageEntity_target_frame [OF d] obtain u where u: "t = Some u" by blast
  have k: "registry_kept g (g\<lparr>enemies := (enemies g)[nat i := u]\<rparr>)"
    using DamageEntity_occupied [OF d [unfolded u]] by (intro registry_kept_update)
  from assms Some d u have "g' = g \<or> g' = g\<lparr>enemies := (enemies g)[nat i := u]\<rparr>"
    by (auto simp add: PlayerHitDetection_def Let_def split: prod.splits if_splits)
  with k show ?thesis by auto
qed

lemma controlled_input_kept:
  assumes "controlled_input kb ip2 p g = Some (p', g', s, m)"
  shows "registry_kept g g'"
proof -
  obtain p1 moveDir where a: "input_move_jump kb ip2 p = (p1, moveDir)" by (cases "input_move_jump kb ip2 p")
  obtain p2 moving where b: "input_apply_move moveDir p1 = (p2, moving)" by (cases "input_apply_move moveDir p1")
  obtain p3 s1 where c: "input_attack kb ip2 p2 = (p3, s1)" by (cases "input_attack kb ip2 p2")
  obtain p4 g1 where d: "input_grab_start kb True p3 g = (p4, g1)" by (cases "input_grab_start kb True p3 g")
  from assms obtain s2 where e: "input_grab_release kb p4 g1 = Some (p', g', s2)"
    by (auto simp add: controlled_input_def a b c d split: option.splits)
  from input_grab_start_kept [of g kb True p3] d have "registry_kept g g1" by simp
  with input_grab_release_kept [OF e] show ?thesis by (blast intro: registry_kept_trans)
qed

lemma ProcessPlayerInput_kept:
  assumes "ProcessPlayerInput kb p g dt ip2 = Some (p', g', s)"
  shows "registry_kept g g'"
proof -
  obtain p1 g1 s1 m where
    c: "(if player_canControl p then controlled_input kb ip2 p g else Some (p, g, [], False))
        = Some (p1, g1, s1, m)"
    using assms by (auto simp add: ProcessPlayerInput_def split: option.splits)
  obtain s2 h where
    d: "PlayerHitDetection (idle_debounce m dt p1) g1 = (p', g', s2, h)"
    using assms c by (auto simp add: ProcessPlayerInput_def split: prod.splits)
  have "registry_kept g g1"
    using c controlled_input_kept [of kb ip2 p g p1 g1 s1 m] by (auto split: if_splits)
  with PlayerHitDetection_kept [OF d] show ?thesis by (blast intro: registry_kept_trans)
qed

lemma update_player_gameplay_kept:
  assumes "update_player_gameplay kb p g dt ip2 = Some (p', g', s)"
  shows "registry_kept g g'"
proof -
  obtain p1 where i: "ProcessPlayerInput kb p g dt ip2 = Some (p1, g', s)"
    using assms
    by (auto simp add: update_player_gameplay_def Let_def split: option.splits if_splits)
  from ProcessPlayerInput_kept [OF i] show ?thesis .
qed

lemma update_player_grab_kept:
  assumes "update_player_grab p g = Some (p', g')"
  shows "registry_kept g g'"
proof (cases "grabbedEnemyIndex p \<noteq> - 1 \<and> 0 \<le> grabbedEnemyIndex p \<and>
              grabbedEnemyIndex p < activeEnemies g \<and>
              (\<exists>en. enemy_at g (grabbedEnemyIndex p) = Some en \<and> health en > 0)")
  case False
  with assms have "g' = g"
    by (auto simp add: update_player_grab_def Let_def split: if_splits option.splits)
  then show ?thesis by simp
next
  case True
  then obtain en where en: "enemy_at g (grabbedEnemyIndex p) = Some en" "health en > 0"
    by blast
  then have e: "en = enemies g ! nat (grabbedEnemyIndex p)"
    by (simp add: enemy_at_def split: if_splits)
  let ?held = "en\<lparr>position := \<lparr>vec_x = vec_x (position p) + (if facingRight p then 40 else - 40),
                                 vec_y = vec_y (position p)\<rparr>,
                   velocity := zero_Vector2, grounded := grounded p,
                   aiState := AI_STATE_IDLE, isAttacking := False\<rparr>"
  have "registry_kept g (g\<lparr>enemies := (enemies g)[nat (grabbedEnemyIndex p) := ?held]\<rparr>)"
    using e by (intro registry_kept_update) (simp add: occupied_slot_def)
  moreover from assms True en
  have "g' = g\<lparr>enemies := (enemies g)[nat (grabbedEnemyIndex p) := ?held]\<rparr>"
    by (simp add: update_player_grab_def Let_def)
  ultimately show ?thesis by simp
qed

lemma UpdatePlayer_kept:
  assumes "UpdatePlayer kb pa p g dt ip2 = Some (p', g', s)"
  shows "registry_kept g g'"
proof (cases "deathTimer p > 0")
  case True
  from assms UpdatePlayer_dying [OF True, of kb pa g dt ip2]
  obtain p6 where "update_player_grab p6 g = Some (p', g')"
    by (auto split: option.splits)
  from update_player_grab_kept [OF this] show ?thesis .
next
  case False
  from assms obtain p2 g1 s1 where
    gp: "update_player_gameplay kb (update_player_stun p dt) g dt ip2 = Some (p2, g1, s1)"
    using False by (auto simp add: UpdatePlayer_def Let_def split: option.splits)
  from assms UpdatePlayer_alive [OF False gp, of pa]
  obtain p6 where "update_player_grab p6 g1 = Some (p', g')"
    by (auto split: option.splits)
  from update_player_grab_kept [OF this] update_player_gameplay_kept [OF gp]
  show ?thesis by (blast intro: registry_kept_trans)
qed

subsection \<open>The grab reference when no grab key is pressed\<close>







subsection \<open>Runs of the calls of the game loop\<close>

lemma game_state_ok_initial:
  "game_state_ok ([zero_Entity, zero_Entity], initial_Globals)"
  "game_state_ok ([InitPlayer pa pos0, InitPlayer pa pos1], initial_Globals)"
proof -
  have s: "stage_selected initial_Globals"
    by (simp add: stage_selected_def initial_Globals_def)
  show "game_state_ok ([zero_Entity, zero_Entity], initial_Globals)"
    using registry_dense_initial s by (simp add: game_state_ok_def zero_Entity_def)
  show "game_state_ok ([InitPlayer pa pos0, InitPlayer pa pos1], initial_Globals)"
    using registry_dense_initial s by (simp add: game_state_ok_def InitPlayer_def)
qed

lemma player_slot_less: "player_slot ip2 < 2"
  by (simp add: player_slot_def)

lemma apply_GameOp_ok:
  assumes "game_state_ok st"
  shows "\<exists>st'. apply_GameOp ea pa op st = Some st' \<and> game_state_ok st'"
proof -
  obtain ps g where st: "st = (ps, g)" by (cases st)
  from assms st have l: "length ps = 2" and refs: "\<And>p. p \<in> set ps \<Longrightarrow> - 1 \<le> grabbedEnemyIndex p"
    and d: "registry_dense g" and sel: "stage_selected g"
    by (simp_all add: game_state_ok_def)
  show ?thesis
  proof (cases op)
    case (OpInitLevel tw alloc stage)
    with st l refs InitLevel_invariant [of ea tw alloc stage g] show ?thesis
      by (simp add: game_state_ok_def)
  next
    case (OpUpdateLevel rv dt lead)
    with st l refs UpdateLevel_invariant [OF d sel, of ea rv dt lead] show ?thesis
      by (simp add: game_state_ok_def)
  next
    case (OpRemoveDeadEnemy index)
    with st l refs registry_dense_RemoveDeadEnemy [OF d, of index] sel show ?thesis
      by (simp add: game_state_ok_def)
  next
    case (OpUpdatePlayer kb ip2 dt)
    let ?j = "player_slot ip2"
    from l player_slot_less [of ip2] have "ps ! ?j \<in> set ps" by simp
    from refs [OF this] have r: "- 1 \<le> grabbedEnemyIndex (ps ! ?j)" .
    from d have b: "activeEnemies g \<le> MAX_ENEMIES" "length (enemies g) = nat MAX_ENEMIES"
      by (simp_all add: registry_dense_def)
    from UpdatePlayer_step [OF r b, of kb pa dt ip2]
    obtain p' g' s where
      u: "UpdatePlayer kb pa (ps ! ?j) g dt ip2 = Some (p', g', s)" and
      r': "- 1 \<le> grabbedEnemyIndex p'"
      by blast
    note k = UpdatePlayer_kept [OF u]
    have "\<And>q. q \<in> set (ps[?j := p']) \<Longrightarrow> - 1 \<le> grabbedEnemyIndex q"
      using refs r' by (auto dest!: set_update_subset_insert [THEN subsetD])
    with OpUpdatePlayer st u l registry_kept_dense [OF k d] registry_kept_stage [OF k] sel
    show ?thesis
      by (simp add: game_state_ok_def)
  next
    case (OpUpdateEnemies rs n dt)
    obtain ps' g' s where lp: "UpdateEnemies_loop ea rs n dt 0 ps g [] = (ps', g', s)"
      by (cases "UpdateEnemies_loop ea rs n dt 0 ps g []")
    from UpdateEnemies_loop_invariant [OF d sel lp]
    have i: "registry_dense g'" "stage_selected g'" "length ps' = length ps"
      "\<And>k. grabbedEnemyIndex (ps' ! k) = grabbedEnemyIndex (ps ! k)"
      by simp_all
    have "- 1 \<le> grabbedEnemyIndex q" if "q \<in> set ps'" for q
    proof -
      from that obtain k where k: "k < length ps'" "q = ps' ! k"
        by (auto simp add: in_set_conv_nth)
      with i(3) have "ps ! k \<in> set ps" by simp
      from refs [OF this] i(4) [of k] k show ?thesis by simp
    qed
    with OpUpdateEnemies st lp i l show ?thesis
      by (simp add: game_state_ok_def UpdateEnemies_def)
  qed
qed

lemma run_GameOps_ok:
  assumes "game_state_ok st"
  shows "\<exists>st'. run_GameOps ea pa ops st = Some st' \<and> game_state_ok st'"
  using assms
proof (induction ops arbitrary: st)
  case Nil
  then show ?case by simp
next
  case (Cons op ops)
  from apply_GameOp_ok [OF Cons.prems, of ea pa op]
  obtain st1 where "apply_GameOp ea pa op st = Some st1" "game_state_ok st1" by blast
  with Cons.IH [of st1] show ?case by simp
qed

lemma run_GameOps_append:
  "run_GameOps ea pa (ops @ ops') st =
     (case run_GameOps ea pa ops st of None \<Rightarrow> None | Some st' \<Rightarrow> run_GameOps ea pa ops' st')"
  by (induction ops arbitrary: st) (simp_all split: option.splits)



lemma example_stage_enemy_killed_facts:
  "activeEnemies example_stage_enemy_killed = 2"
  "activeEnemies example_stage = 2"
  "health (enemies example_stage_enemy_killed ! 0) = 0"
  "deathTimer (enemies example_stage_enemy_killed ! 0) = 2"
  by (simp_all add: example_stage_enemy_killed_def example_stage_def example_players_def
        InitLevel_def InitLevel_reset_def Let_def STAGE_DEFS_def STAGE_COUNT_def
        ClearEnemies_def initial_Globals_def GenerateTileMap_def SetupColliders_def
        SpawnInitialWave_def SpawnInitialWave_loop.simps ConsumeEnemySpawnQuota_def
        LevelWidth_def ClampFloat_def float_to_int_def DamageEntity_def ApplyKnockback_def
        InitEnemy_def InitPlayer_def zero_Entity_def SafeClamp_def wrap_int32_def)

lemma example_stage_enemy_killed_ok:
  "registry_dense example_stage_enemy_killed" "stage_selected example_stage_enemy_killed"
proof -
  from InitLevel_invariant [of enemyAssets_loaded 128
         "\<lparr>alloc_tileMap = True, alloc_layers = True, alloc_colliders = True\<rparr>" 0 initial_Globals]
  have d: "registry_dense example_stage" and s: "stage_selected example_stage"
    by (simp_all add: example_stage_def)
  obtain t c where
    k: "DamageEntity (Some (enemies example_stage ! 0)) (Some (example_players ! 1)) 50 True
        = (t, c)"
    by (cases "DamageEntity (Some (enemies example_stage ! 0)) (Some (example_players ! 1))
                 50 True")
  from DamageEntity_target_frame [OF k] obtain u where u: "t = Some u" by blast
  have "registry_dense (example_stage\<lparr>enemies := (enemies example_stage)[0 := u]\<rparr>)"
  proof (rule registry_dense_update [OF d])
    from d have "\<forall>i. 0 \<le> i \<and> i < activeEnemies example_stage
                   \<longrightarrow> occupied_slot (enemies example_stage ! nat i)"
      by (simp add: registry_dense_def)
    from this [rule_format, of 0] example_stage_enemy_killed_facts(2)
    have "occupied_slot (enemies example_stage ! 0)" by simp
    then show "occupied_slot u"
      using DamageEntity_occupied [OF k [unfolded u]] by simp
  qed
  then show "registry_dense example_stage_enemy_killed"
    by (simp only: example_stage_enemy_killed_def k u fst_conv option.sel)
  from s show "stage_selected example_stage_enemy_killed"
    by (simp add: example_stage_enemy_killed_def)
qed

text \<open>
  Claim C7.  A state of the game is well formed when the registry is dense (the count is
  within \<open>0..MAX_ENEMIES\<close> and every index below the count holds an initialised enemy,
  whatever has happened to that enemy since it was spawned), the stage definition is an
  entry of \<open>STAGE_DEFS\<close> and the grab references are \<open>-1\<close> or more; the state at program
  start is (lemma \<open>game_state_ok_initial\<close>).  From a well-formed state every sequence of
  level initialisations, director ticks, removals, player updates and enemy updates runs
  to a state whose registry is dense.  A removal at an active index decrements the count
  and puts the last active enemy into the removed slot; the other active slots stay as
  they are.
\<close>

theorem registry_dense_after_game_calls:
  assumes "game_state_ok (ps, g)"
  shows "(\<exists>ps' g'. run_GameOps ea pa ops (ps, g) = Some (ps', g') \<and> registry_dense g') \<and>
         (0 \<le> index \<and> index < activeEnemies g \<longrightarrow>
            activeEnemies (RemoveDeadEnemy index g) = activeEnemies g - 1 \<and>
            (\<forall>k. 0 \<le> k \<and> k < activeEnemies g - 1 \<longrightarrow>
               enemies (RemoveDeadEnemy index g) ! nat k =
                 (if k = index then enemies g ! nat (activeEnemies g - 1)
                  else enemies g ! nat k)))"
proof (rule conjI)
  from run_GameOps_ok [OF assms, of ea pa ops]
  show "\<exists>ps' g'. run_GameOps ea pa ops (ps, g) = Some (ps', g') \<and> registry_dense g'"
    by (auto simp add: game_state_ok_def)
next
  from assms have l: "length (enemies g) = nat MAX_ENEMIES" "activeEnemies g \<le> MAX_ENEMIES"
    by (simp_all add: game_state_ok_def registry_dense_def)
  show "0 \<le> index \<and> index < activeEnemies g \<longrightarrow>
            activeEnemies (RemoveDeadEnemy index g) = activeEnemies g - 1 \<and>
            (\<forall>k. 0 \<le> k \<and> k < activeEnemies g - 1 \<longrightarrow>
               enemies (RemoveDeadEnemy index g) ! nat k =
                 (if k = index then enemies g ! nat (activeEnemies g - 1)
                  else enemies g ! nat k))"
    using l by (auto simp add: RemoveDeadEnemy_def Let_def nth_list_update)
qed

theorem registry_dense_after_game_calls_witness:
  "game_state_ok (example_players, example_stage_enemy_killed) \<and>
   health (enemies example_stage_enemy_killed ! 0) = 0 \<and>
   (\<exists>ps' g'. run_GameOps enemyAssets_loaded playerAssets_loaded
                [OpUpdatePlayer no_keys False (1 / 60), OpUpdateEnemies (\<lambda>i. 1 / 2) 1 (1 / 60),
                 OpUpdateLevel 0 (1 / 60) 100, OpRemoveDeadEnemy 0]
                (example_players, example_stage_enemy_killed) = Some (ps', g') \<and>
              registry_dense g') \<and>
   activeEnemies (RemoveDeadEnemy 0 example_stage_enemy_killed) = 1 \<and>
   enemies (RemoveDeadEnemy 0 example_stage_enemy_killed) ! 0
     = enemies example_stage_enemy_killed ! 1"
proof -
  have ok: "game_state_ok (example_players, example_stage_enemy_killed)"
    using example_stage_enemy_killed_ok
    by (simp add: game_state_ok_def example_players_def InitPlayer_def)
  note t = registry_dense_after_game_calls [OF ok, of enemyAssets_loaded playerAssets_loaded
         "[OpUpdatePlayer no_keys False (1 / 60), OpUpdateEnemies (\<lambda>i. 1 / 2) 1 (1 / 60),
           OpUpdateLevel 0 (1 / 60) 100, OpRemoveDeadEnemy 0]" 0]
  from t have run: "\<exists>ps' g'. run_GameOps enemyAssets_loaded playerAssets_loaded
                [OpUpdatePlayer no_keys False (1 / 60), OpUpdateEnemies (\<lambda>i. 1 / 2) 1 (1 / 60),
                 OpUpdateLevel 0 (1 / 60) 100, OpRemoveDeadEnemy 0]
                (example_players, example_stage_enemy_killed) = Some (ps', g') \<and>
              registry_dense g'"
    by (rule conjunct1)
  from t example_stage_enemy_killed_facts(1)
  have c: "activeEnemies (RemoveDeadEnemy 0 example_stage_enemy_killed) = 1"
    and m: "\<forall>k. 0 \<le> k \<and> k < 2 - 1 \<longrightarrow>
               enemies (RemoveDeadEnemy 0 example_stage_enemy_killed) ! nat k =
                 (if k = 0 then enemies example_stage_enemy_killed ! nat (2 - 1)
                  else enemies example_stage_enemy_killed ! nat k)"
    by simp_all
  from m [rule_format, of 0]
  have "enemies (RemoveDeadEnemy 0 example_stage_enemy_killed) ! 0
        = enemies example_stage_enemy_killed ! 1"
    by simp
  with ok run c example_stage_enemy_killed_facts(3) show ?thesis by (intro conjI)
qed



end
